theory Spec2Isabelle
  imports Complex_Main "HOL-Library.Word"
begin

section \<open>compton: helpers of compton.h and the configuration loader\<close>

text \<open>
  A shallow embedding of the parts of \<^verbatim>\<open>src/compton.h\<close> and
  \<^verbatim>\<open>src/config_libconfig.c\<close> that the results below are about, and of the fade engine
  that compton.h declares.
  A finite C \<^verbatim>\<open>double\<close> is read as the real number it stands for; a product of
  two doubles is rounded as IEEE 754 binary64 arithmetic rounds it (\<open>double_mul\<close> below),
  X resource ids (\<^verbatim>\<open>Window\<close>, \<^verbatim>\<open>XserverRegion\<close>) as naturals with
  \<^verbatim>\<open>None\<close> = 0, C strings as \<^typ>\<open>string\<close> and a possibly-NULL pointer to one
  as \<^typ>\<open>string option\<close>.
\<close>

subsection \<open>compton.h: normalize_d and array_wid_exists\<close>

definition OPAQUE :: nat where
  "OPAQUE = 0xffffffff"

text \<open>\<^verbatim>\<open>typedef uint32_t opacity_t\<close>\<close>

type_synonym opacity_t = "32 word"

definition normalize_d :: "real \<Rightarrow> real" where
  "normalize_d d = (if d > 1 then 1 else if d < 0 then 0 else d)"

text \<open>
  Reading an array outside its bounds is undefined behaviour in C; the model makes it a
  fault instead of inventing a value.
\<close>

datatype fault = OutOfBounds

text \<open>
  \<^verbatim>\<open>while (count--) { if (arr[count] == wid) return True; } return False;\<close>
  The test reads the old \<^verbatim>\<open>count\<close>, the body sees the decremented one.
  \<^verbatim>\<open>count\<close> is a C \<^verbatim>\<open>int\<close>; the array is the list of its elements.
\<close>

function array_wid_exists :: "nat list \<Rightarrow> int \<Rightarrow> nat \<Rightarrow> fault + bool" where
  "array_wid_exists arr count wid =
     (if count = 0 then Inr False
      else
        let count' = count - 1 in
        if count' < 0 \<or> int (length arr) \<le> count' then Inl OutOfBounds
        else if arr ! nat count' = wid then Inr True
        else array_wid_exists arr count' wid)"
  by pat_completeness auto
termination
  by (relation "measure (\<lambda>(arr, count, wid). nat count)") auto

declare array_wid_exists.simps [simp del]

subsection \<open>compton.h: win_free_border_size\<close>

text \<open>
  The fields of \<^verbatim>\<open>struct _win\<close> that name the window and its regions
  (\<^verbatim>\<open>id\<close> is \<^verbatim>\<open>win_id\<close> here); an
  \<^verbatim>\<open>XserverRegion\<close> is an XID and \<^verbatim>\<open>None\<close> is the id 0.
\<close>

record win =
  win_id :: nat
  client_win :: nat
  border_size :: nat
  extents :: nat

definition None_xid :: nat where
  "None_xid = 0"

text \<open>
  What the functions called by \<^verbatim>\<open>win_free_border_size\<close> do to the connection,
  in the order in which they are called: an entry made in the ignore list, and a
  DestroyRegion request sent under a sequence number.
\<close>

datatype xcall = SetIgnore nat | DestroyRegion nat nat

text \<open>
  The display connection: \<^verbatim>\<open>request\<close> is Xlib's \<^verbatim>\<open>dpy->request\<close>, the
  sequence number of the last request sent; \<^verbatim>\<open>ignore_list\<close> is the list of
  \<^verbatim>\<open>struct _ignore\<close> entries, oldest first.
\<close>

record display =
  request :: nat
  ignore_list :: "nat list"
  calls :: "xcall list"

text \<open>Xlib's macro \<^verbatim>\<open>NextRequest(dpy)\<close>: the number the next request will carry.\<close>

definition NextRequest :: "display \<Rightarrow> nat" where
  "NextRequest dpy = request dpy + 1"

text \<open>
  Modelled from the spec: the body of \<^verbatim>\<open>set_ignore\<close> is not under src/ (compton.h
  only declares it). The spec's Ignore List is "an ordered set of outstanding request
  sequence numbers whose resulting protocol errors must be suppressed", and requests are
  "recorded in the Ignore List keyed by request sequence number": the call appends the
  sequence number. It sends no request.
\<close>

definition set_ignore :: "display \<Rightarrow> nat \<Rightarrow> display" where
  "set_ignore dpy sequence =
     dpy\<lparr>ignore_list := ignore_list dpy @ [sequence], calls := calls dpy @ [SetIgnore sequence]\<rparr>"

text \<open>
  Xfixes' \<^verbatim>\<open>XFixesDestroyRegion\<close>: one request, which takes the next sequence
  number.
\<close>

definition XFixesDestroyRegion :: "display \<Rightarrow> nat \<Rightarrow> display" where
  "XFixesDestroyRegion dpy region =
     dpy\<lparr>request := request dpy + 1,
         calls := calls dpy @ [DestroyRegion (request dpy + 1) region]\<rparr>"

text \<open>
  \<^verbatim>\<open>if (w->border_size) { set_ignore(dpy, NextRequest(dpy));
    XFixesDestroyRegion(dpy, w->border_size); w->border_size = None; }\<close>
\<close>

definition win_free_border_size :: "display \<times> win \<Rightarrow> display \<times> win" where
  "win_free_border_size s =
     (case s of (dpy, w) \<Rightarrow>
        if border_size w \<noteq> 0 then
          let dpy = set_ignore dpy (NextRequest dpy);
              dpy = XFixesDestroyRegion dpy (border_size w);
              w = w\<lparr>border_size := None_xid\<rparr>
          in (dpy, w)
        else (dpy, w))"

text \<open>The region-destroy requests among the calls made so far.\<close>

definition destroy_requests :: "display \<Rightarrow> xcall list" where
  "destroy_requests dpy = filter (\<lambda>c. case c of DestroyRegion n r \<Rightarrow> True | SetIgnore n \<Rightarrow> False) (calls dpy)"

subsection \<open>config_libconfig.c: open_config_file\<close>

text \<open>
  The process environment (\<^verbatim>\<open>getenv\<close>) and the file system as far as
  \<^verbatim>\<open>fopen(path, "r")\<close> sees it.
\<close>

record sysenv =
  getenv :: "string \<Rightarrow> string option"
  fopen :: "string \<Rightarrow> bool"

text \<open>The library calls \<^verbatim>\<open>open_config_file\<close> makes, in order.\<close>

datatype syscall = Getenv string | Fopen string

text \<open>
  The stream returned (named by the path that was opened, \<^verbatim>\<open>None\<close> for NULL), what
  was stored through \<^verbatim>\<open>ppath\<close>, and the calls made.
\<close>

record open_result =
  stream :: "string option"
  ppath_out :: "string option"
  syscalls :: "syscall list"

definition config_filename :: string where
  "config_filename = ''/compton.conf''"

definition config_filename_legacy :: string where
  "config_filename_legacy = ''/.compton.conf''"

definition config_home_suffix :: string where
  "config_home_suffix = ''/.config''"

definition config_system_dir :: string where
  "config_system_dir = ''/etc/xdg''"

text \<open>\<^verbatim>\<open>(x = getenv(name)) && strlen(x)\<close>\<close>

definition getenv_nonempty :: "sysenv \<Rightarrow> string \<Rightarrow> string option" where
  "getenv_nonempty env name =
     (case getenv env name of None \<Rightarrow> None | Some x \<Rightarrow> if length x \<noteq> 0 then Some x else None)"

text \<open>
  \<^verbatim>\<open>f = fopen(path, "r"); if (f && ppath) *ppath = path; else free(path);\<close>
  followed by \<^verbatim>\<open>if (f) return f;\<close>: the result when the file opens.
\<close>

definition try_open :: "sysenv \<Rightarrow> bool \<Rightarrow> string \<Rightarrow> syscall list \<Rightarrow> open_result option" where
  "try_open env ppath path tr =
     (if fopen env path
      then Some \<lparr>stream = Some path, ppath_out = (if ppath then Some path else None),
                 syscalls = tr @ [Fopen path]\<rparr>
      else None)"

text \<open>
  The tokens that \<^verbatim>\<open>strtok(dir, ":")\<close> and \<^verbatim>\<open>strtok(NULL, ":")\<close> return in
  turn: the maximal runs of characters other than the colon.
\<close>

fun strtok_colon :: "string \<Rightarrow> string \<Rightarrow> string list" where
  "strtok_colon acc [] = (if acc = [] then [] else [acc])"
| "strtok_colon acc (c # cs) =
     (if c = CHR '':'' then (if acc = [] then [] else [acc]) @ strtok_colon [] cs
      else strtok_colon (acc @ [c]) cs)"

text \<open>The \<^verbatim>\<open>while (part)\<close> loop over \<^verbatim>\<open>$XDG_CONFIG_DIRS\<close>.\<close>

fun open_in_dirs :: "sysenv \<Rightarrow> bool \<Rightarrow> string list \<Rightarrow> syscall list \<Rightarrow> open_result" where
  "open_in_dirs env ppath [] tr = \<lparr>stream = None, ppath_out = None, syscalls = tr\<rparr>"
| "open_in_dirs env ppath (part # parts) tr =
     (case try_open env ppath (part @ config_filename) tr of
        Some r \<Rightarrow> r
      | None \<Rightarrow> open_in_dirs env ppath parts (tr @ [Fopen (part @ config_filename)]))"

text \<open>
  \<^verbatim>\<open>open_config_file(cpath, ppath)\<close>; \<^verbatim>\<open>ppath\<close> says whether the pointer is
  non-NULL. \<^verbatim>\<open>mstrjoin\<close> and \<^verbatim>\<open>mstrjoin3\<close> concatenate their arguments.
\<close>

definition open_config_file :: "string option \<Rightarrow> bool \<Rightarrow> sysenv \<Rightarrow> open_result" where
  "open_config_file cpath ppath env =
     (case cpath of
        Some path \<Rightarrow>
          \<lparr>stream = (if fopen env path then Some path else None),
           ppath_out = (if fopen env path \<and> ppath then Some path else None),
           syscalls = [Fopen path]\<rparr>
      | None \<Rightarrow>
         (let tr = [Getenv ''XDG_CONFIG_HOME''];
              first = (case getenv_nonempty env ''XDG_CONFIG_HOME'' of
                         Some dir \<Rightarrow> Some (dir @ config_filename, tr)
                       | None \<Rightarrow>
                          (case getenv_nonempty env ''HOME'' of
                             Some home \<Rightarrow>
                               Some (home @ config_home_suffix @ config_filename, tr @ [Getenv ''HOME''])
                           | None \<Rightarrow> None))
          in case first of
               None \<Rightarrow> \<lparr>stream = None, ppath_out = None, syscalls = tr @ [Getenv ''HOME'']\<rparr>
             | Some (path, tr) \<Rightarrow>
                (case try_open env ppath path tr of
                   Some r \<Rightarrow> r
                 | None \<Rightarrow>
                    (let tr = tr @ [Fopen path, Getenv ''HOME''];
                         legacy = (case getenv_nonempty env ''HOME'' of
                                     Some home \<Rightarrow> Some (home @ config_filename_legacy)
                                   | None \<Rightarrow> None);
                         found = (case legacy of
                                    Some path \<Rightarrow> try_open env ppath path tr
                                  | None \<Rightarrow> None);
                         tr = (case legacy of Some path \<Rightarrow> tr @ [Fopen path] | None \<Rightarrow> tr)
                     in case found of
                          Some r \<Rightarrow> r
                        | None \<Rightarrow>
                           (let tr = tr @ [Getenv ''XDG_CONFIG_DIRS''] in
                            case getenv_nonempty env ''XDG_CONFIG_DIRS'' of
                              Some dir \<Rightarrow> open_in_dirs env ppath (strtok_colon [] dir) tr
                            | None \<Rightarrow>
                               (case try_open env ppath (config_system_dir @ config_filename) tr of
                                  Some r \<Rightarrow> r
                                | None \<Rightarrow>
                                   \<lparr>stream = None, ppath_out = None,
                                    syscalls = tr @ [Fopen (config_system_dir @ config_filename)]\<rparr>))))))"

subsection \<open>libconfig as config_libconfig.c uses it\<close>

text \<open>
  libconfig is an external library. A setting is a scalar, an array, a list or a group of
  named settings; a parsed configuration is what \<^verbatim>\<open>config_lookup\<close> returns for
  each path (\<^verbatim>\<open>None\<close> for NULL: no setting at that path). A key is absent from
  the file when the configuration is \<^verbatim>\<open>None\<close> at it.
\<close>

datatype setting =
    CInt int
  | CFloat real
  | CBool bool
  | CString string
  | CArray "setting list"
  | CList "setting list"
  | CGroup "(string \<times> setting) list"

type_synonym config_t = "string \<Rightarrow> setting option"

definition config_lookup :: "config_t \<Rightarrow> string \<Rightarrow> setting option" where
  "config_lookup cfg path = cfg path"

text \<open>The C conversion from \<^verbatim>\<open>double\<close> to \<^verbatim>\<open>int\<close> drops the fraction.\<close>

definition c_trunc :: "real \<Rightarrow> int" where
  "c_trunc d = (if 0 \<le> d then \<lfloor>d\<rfloor> else \<lceil>d\<rceil>)"

text \<open>
  The typed readers of a setting. \<^verbatim>\<open>parse_config\<close> calls
  \<^verbatim>\<open>config_set_auto_convert(&cfg, 1)\<close> before its first lookup, so an integer is
  read as a float and a float as an integer; booleans and strings are read only from
  settings of their own type. \<^verbatim>\<open>Some v\<close> stands for CONFIG_TRUE with
  \<^verbatim>\<open>v\<close> stored through the pointer, \<^verbatim>\<open>None\<close> for CONFIG_FALSE with the
  pointer's target left as it was.
\<close>

definition setting_int :: "setting option \<Rightarrow> int option" where
  "setting_int s = (case s of Some (CInt i) \<Rightarrow> Some i | Some (CFloat d) \<Rightarrow> Some (c_trunc d) | _ \<Rightarrow> None)"

definition setting_float :: "setting option \<Rightarrow> real option" where
  "setting_float s = (case s of Some (CFloat d) \<Rightarrow> Some d | Some (CInt i) \<Rightarrow> Some (of_int i) | _ \<Rightarrow> None)"

definition setting_bool :: "setting option \<Rightarrow> bool option" where
  "setting_bool s = (case s of Some (CBool b) \<Rightarrow> Some b | _ \<Rightarrow> None)"

definition setting_string :: "setting option \<Rightarrow> string option" where
  "setting_string s = (case s of Some (CString str) \<Rightarrow> Some str | _ \<Rightarrow> None)"

definition config_lookup_int :: "config_t \<Rightarrow> string \<Rightarrow> int option" where
  "config_lookup_int cfg path = setting_int (config_lookup cfg path)"

definition config_lookup_float :: "config_t \<Rightarrow> string \<Rightarrow> real option" where
  "config_lookup_float cfg path = setting_float (config_lookup cfg path)"

definition config_lookup_bool :: "config_t \<Rightarrow> string \<Rightarrow> bool option" where
  "config_lookup_bool cfg path = setting_bool (config_lookup cfg path)"

definition config_lookup_string :: "config_t \<Rightarrow> string \<Rightarrow> string option" where
  "config_lookup_string cfg path = setting_string (config_lookup cfg path)"

text \<open>\<^verbatim>\<open>config_setting_lookup_bool\<close> and \<^verbatim>\<open>config_setting_lookup_float\<close>: a
  member of a group, by name.\<close>

definition config_setting_get_member :: "setting \<Rightarrow> string \<Rightarrow> setting option" where
  "config_setting_get_member s name = (case s of CGroup ms \<Rightarrow> map_of ms name | _ \<Rightarrow> None)"

definition config_setting_lookup_bool :: "setting \<Rightarrow> string \<Rightarrow> bool option" where
  "config_setting_lookup_bool s name = setting_bool (config_setting_get_member s name)"

definition config_setting_lookup_float :: "setting \<Rightarrow> string \<Rightarrow> real option" where
  "config_setting_lookup_float s name = setting_float (config_setting_get_member s name)"

text \<open>
  \<^verbatim>\<open>config_setting_get_string_elem(setting, i)\<close> for \<^verbatim>\<open>i\<close> from
  \<^verbatim>\<open>config_setting_length(setting) - 1\<close> down to 0, as \<^verbatim>\<open>while (i--)\<close>
  visits them: NULL for an element that is not a string.
\<close>

definition string_elems_downwards :: "setting list \<Rightarrow> string option list" where
  "string_elems_downwards elems = map (\<lambda>e. setting_string (Some e)) (rev elems)"

text \<open>
  The value a pointer's target holds after a lookup that writes through it only on
  success.
\<close>

definition lookup_into :: "'a option \<Rightarrow> 'a \<Rightarrow> 'a" where
  "lookup_into r old = (case r of Some v \<Rightarrow> v | None \<Rightarrow> old)"

text \<open>
  \<^verbatim>\<open>lcfg_lookup_bool(config, path, value)\<close>: the return value and the content of
  \<^verbatim>\<open>*value\<close> afterwards.
  \<^verbatim>\<open>int ret = config_lookup_bool(config, path, &ival); if (ret) *value = ival; return ret;\<close>
\<close>

definition lcfg_lookup_bool :: "config_t \<Rightarrow> string \<Rightarrow> bool \<Rightarrow> bool \<times> bool" where
  "lcfg_lookup_bool config path val =
     (case config_lookup_bool config path of
        Some ival \<Rightarrow> (True, ival)
      | None \<Rightarrow> (False, val))"

subsection \<open>config_libconfig.c: the state parse_config works on\<close>

text \<open>
  The fields of \<^verbatim>\<open>options_t\<close> that \<^verbatim>\<open>parse_config\<close> writes. The structure is
  declared in common.h, which is not under src/: the types are those of the values stored
  (\<^verbatim>\<open>opacity_t\<close> where \<^verbatim>\<open>normalize_d(dval) * OPAQUE\<close> is stored, the pointer's
  type where a libconfig reader writes through it). The arrays indexed by window type are
  functions of the index; \<^typ>\<open>'c\<close> is a condition list (\<^verbatim>\<open>c2_lptr_t *\<close>) and
  \<^typ>\<open>'k\<close> the blur kernels.
\<close>

record ('c, 'k) options_t =
  config_file :: "string option"
  fade_delta :: int
  fade_in_step :: opacity_t
  fade_out_step :: opacity_t
  shadow_radius :: int
  shadow_opacity :: real
  shadow_offset_x :: int
  shadow_offset_y :: int
  inactive_opacity :: opacity_t
  active_opacity :: opacity_t
  frame_opacity :: real
  wintype_shadow :: "nat \<Rightarrow> bool"
  wintype_fade :: "nat \<Rightarrow> bool"
  wintype_focus :: "nat \<Rightarrow> bool"
  wintype_opacity :: "nat \<Rightarrow> real"
  no_fading_openclose :: bool
  no_fading_destroyed_argb :: bool
  shadow_red :: real
  shadow_green :: real
  shadow_blue :: real
  shadow_exclude_reg_str :: "string option"
  inactive_opacity_override :: bool
  inactive_dim :: real
  mark_wmwin_focused :: bool
  mark_ovredir_focused :: bool
  shadow_ignore_shaped :: bool
  detect_rounded_corners :: bool
  xinerama_shadow_crop :: bool
  detect_client_opacity :: bool
  refresh_rate :: int
  vsync :: int
  backend :: int
  alpha_step :: real
  sw_opti :: bool
  use_ewmh_active_win :: bool
  unredir_if_possible :: bool
  unredir_if_possible_delay :: int
  inactive_dim_fixed :: bool
  detect_transient :: bool
  detect_client_leader :: bool
  shadow_blacklist :: 'c
  fade_blacklist :: 'c
  focus_blacklist :: 'c
  invert_color_list :: 'c
  blur_background_blacklist :: 'c
  unredir_if_possible_blacklist :: 'c
  blur_background :: bool
  blur_background_frame :: bool
  blur_background_fixed :: bool
  blur_kerns :: 'k
  resize_damage :: int
  glx_no_stencil :: bool
  glx_no_rebind_pixmap :: bool
  glx_use_gpushader4 :: bool

text \<open>\<^verbatim>\<open>struct options_tmp\<close>, as far as \<^verbatim>\<open>parse_config\<close> writes it.\<close>

record options_tmp =
  no_dock_shadow :: bool
  no_dnd_shadow :: bool
  menu_opacity :: real

text \<open>What \<^verbatim>\<open>parse_config\<close> prints itself.\<close>

datatype message =
    Failed_to_read string
  | Error_when_reading string nat string
  | Removed_option string
  | Deprecated_option string

text \<open>
  Everything \<^verbatim>\<open>parse_config\<close> can change: \<^verbatim>\<open>*o\<close>, \<^verbatim>\<open>*pcfgtmp\<close>, the
  session \<^verbatim>\<open>ps\<close> that it hands to its helpers (of a type \<^typ>\<open>'s\<close> left open) and
  the messages printed, oldest first.
\<close>

record ('c, 'k, 's) pstate =
  opts :: "('c, 'k) options_t"
  cfgtmp :: options_tmp
  ps :: 's
  printed :: "message list"

text \<open>
  A call either returns, or ends the process through \<^verbatim>\<open>exit(code)\<close>; both carry
  the state reached.
\<close>

datatype 'a outcome = Returned 'a | Exited int 'a

fun state_of :: "'a outcome \<Rightarrow> 'a" where
  "state_of (Returned s) = s"
| "state_of (Exited code s) = s"

fun exit_code :: "'a outcome \<Rightarrow> int option" where
  "exit_code (Returned s) = None"
| "exit_code (Exited code s) = Some code"

text \<open>
  The functions, tables and macros that \<^verbatim>\<open>parse_config\<close> uses and that are not under
  src/, taken as parameters. A parser that is handed \<^verbatim>\<open>ps\<close> returns the session
  it leaves next to its result; \<^verbatim>\<open>condlst_add\<close> and \<^verbatim>\<open>parse_conv_kern_lst\<close>
  also return the new content of the destination they are handed. \<^verbatim>\<open>WINTYPES\<close> is
  the table of window type names, \<^verbatim>\<open>printf_errfq_exits\<close> says whether the macro
  \<^verbatim>\<open>printf_errfq(code, ...)\<close> ends the process after printing.
\<close>

record ('c, 'k, 's) externs =
  condlst_add :: "'s \<Rightarrow> 'c \<Rightarrow> string option \<Rightarrow> 's \<times> 'c"
  parse_rule_opacity :: "'s \<Rightarrow> string option \<Rightarrow> bool \<times> 's"
  parse_conv_kern_lst :: "'s \<Rightarrow> string \<Rightarrow> 'k \<Rightarrow> bool \<times> 's \<times> 'k"
  parse_glx_swap_method :: "'s \<Rightarrow> string \<Rightarrow> bool \<times> 's"
  parse_vsync :: "string \<Rightarrow> int"
  parse_backend :: "string \<Rightarrow> int"
  wintype_arr_enable :: "(nat \<Rightarrow> bool) \<Rightarrow> (nat \<Rightarrow> bool)"
  WINTYPES :: "nat \<Rightarrow> string"
  printf_errfq_exits :: bool

text \<open>\<^verbatim>\<open>NUM_WINTYPES\<close>, the last enumerator of \<^verbatim>\<open>wintype\<close> in compton.h.\<close>

definition NUM_WINTYPES :: nat where
  "NUM_WINTYPES = 15"

subsection \<open>Arithmetic on double: the product and the conversion to opacity_t\<close>

text \<open>
  \<^verbatim>\<open>normalize_d(dval) * OPAQUE\<close> multiplies two doubles (\<^verbatim>\<open>OPAQUE\<close> is
  converted to \<^verbatim>\<open>double\<close>, exactly), and the result of the multiplication is a
  double again: the exact product rounded to the nearest binary64 number, to the one with
  an even significand when two are equally near. A binary64 number is an integer multiple
  of its unit in the last place, which is \<^verbatim>\<open>2^(e - 52)\<close> for a value \<^verbatim>\<open>x\<close>
  with \<^verbatim>\<open>2^e <= |x| < 2^(e + 1)\<close>, and \<^verbatim>\<open>2^-1074\<close> for a value below
  \<^verbatim>\<open>2^-1022\<close>. Overflow to infinity is left out: the products formed here are at
  most \<^verbatim>\<open>OPAQUE\<close>.
\<close>

definition round_half_even :: "real \<Rightarrow> int" where
  "round_half_even y =
     (if y - of_int \<lfloor>y\<rfloor> < 1 / 2 then \<lfloor>y\<rfloor>
      else if 1 / 2 < y - of_int \<lfloor>y\<rfloor> then \<lfloor>y\<rfloor> + 1
      else if even \<lfloor>y\<rfloor> then \<lfloor>y\<rfloor> else \<lfloor>y\<rfloor> + 1)"

definition ulp_exponent :: "real \<Rightarrow> int" where
  "ulp_exponent x = max \<lfloor>log 2 \<bar>x\<bar>\<rfloor> (- 1022) - 52"

definition binary64_round :: "real \<Rightarrow> real" where
  "binary64_round x =
     (if x = 0 then 0
      else 2 powr of_int (ulp_exponent x) *
        of_int (round_half_even (x / 2 powr of_int (ulp_exponent x))))"

definition double_mul :: "real \<Rightarrow> real \<Rightarrow> real" where
  "double_mul a b = binary64_round (a * b)"

text \<open>
  The conversion of a \<^verbatim>\<open>double\<close> to \<^verbatim>\<open>opacity_t\<close> in an assignment: the
  fraction is dropped. The values converted lie between 0 and \<^verbatim>\<open>OPAQUE\<close>.
\<close>

definition double_to_opacity :: "real \<Rightarrow> opacity_t" where
  "double_to_opacity d = word_of_int \<lfloor>d\<rfloor>"

subsection \<open>config_libconfig.c: parse_cfg_condlst and parse_cfg_condlst_opct\<close>

fun then_do :: "'a outcome \<Rightarrow> ('a \<Rightarrow> 'a outcome) \<Rightarrow> 'a outcome" where
  "then_do (Returned s) f = f s"
| "then_do (Exited code s) f = Exited code s"

text \<open>
  \<^verbatim>\<open>parse_cfg_condlst(ps, pcfg, pcondlst, name)\<close>: every element of an array, last
  element first, or a single string, is handed to \<^verbatim>\<open>condlst_add\<close>; a setting of
  another type is skipped. The result is the session and the list \<^verbatim>\<open>*pcondlst\<close>.
\<close>

definition parse_cfg_condlst ::
  "('c, 'k, 's) externs \<Rightarrow> config_t \<Rightarrow> string \<Rightarrow> 's \<times> 'c \<Rightarrow> 's \<times> 'c" where
  "parse_cfg_condlst ext pcfg name sc =
     (case config_lookup pcfg name of
        None \<Rightarrow> sc
      | Some (CArray elems) \<Rightarrow>
          fold (\<lambda>pattern (s, condlst). condlst_add ext s condlst pattern)
            (string_elems_downwards elems) sc
      | Some (CString str) \<Rightarrow> condlst_add ext (fst sc) (snd sc) (Some str)
      | Some _ \<Rightarrow> sc)"

text \<open>
  \<^verbatim>\<open>while (i--) if (!parse_rule_opacity(ps, config_setting_get_string_elem(setting, i))) exit(1);\<close>
\<close>

fun opct_loop :: "('c, 'k, 's) externs \<Rightarrow> string option list \<Rightarrow> 's \<Rightarrow> 's outcome" where
  "opct_loop ext [] s = Returned s"
| "opct_loop ext (pattern # rest) s =
     (case parse_rule_opacity ext s pattern of
        (ok, s') \<Rightarrow> if \<not> ok then Exited 1 s' else opct_loop ext rest s')"

text \<open>
  \<^verbatim>\<open>parse_cfg_condlst_opct(ps, pcfg, name)\<close>: in an array a rule that does not parse
  ends the process; for a single string the result of \<^verbatim>\<open>parse_rule_opacity\<close> is not
  looked at.
\<close>

definition parse_cfg_condlst_opct ::
  "('c, 'k, 's) externs \<Rightarrow> config_t \<Rightarrow> string \<Rightarrow> 's \<Rightarrow> 's outcome" where
  "parse_cfg_condlst_opct ext pcfg name s =
     (case config_lookup pcfg name of
        None \<Rightarrow> Returned s
      | Some (CArray elems) \<Rightarrow> opct_loop ext (string_elems_downwards elems) s
      | Some (CString str) \<Rightarrow> Returned (snd (parse_rule_opacity ext s (Some str)))
      | Some _ \<Rightarrow> Returned s)"

subsection \<open>config_libconfig.c: parse_config\<close>

text \<open>
  Lines 217 to 317 of \<^verbatim>\<open>parse_config\<close>, from \<^verbatim>\<open>fade-delta\<close> to
  \<^verbatim>\<open>detect-client-leader\<close>: each statement is one lookup and writes one field,
  either through the pointer handed to the reader or under \<^verbatim>\<open>if (lookup)\<close>
  (\<^verbatim>\<open>opt\<close> is the source's \<^verbatim>\<open>o\<close>).
\<close>

definition parse_config_scalars ::
  "('c, 'k, 's) externs \<Rightarrow> config_t \<Rightarrow> ('c, 'k, 's) pstate \<Rightarrow> ('c, 'k, 's) pstate" where
  "parse_config_scalars ext cfg st =
     (let opt = opts st; pcfgtmp = cfgtmp st in
      st\<lparr>opts := opt
        \<lparr>fade_delta :=
           (case config_lookup_int cfg ''fade-delta'' of Some ival \<Rightarrow> ival | None \<Rightarrow> fade_delta opt),
         fade_in_step :=
           (case config_lookup_float cfg ''fade-in-step'' of
              Some dval \<Rightarrow> double_to_opacity (double_mul (normalize_d dval) (real OPAQUE))
            | None \<Rightarrow> fade_in_step opt),
         fade_out_step :=
           (case config_lookup_float cfg ''fade-out-step'' of
              Some dval \<Rightarrow> double_to_opacity (double_mul (normalize_d dval) (real OPAQUE))
            | None \<Rightarrow> fade_out_step opt),
         shadow_radius := lookup_into (config_lookup_int cfg ''shadow-radius'') (shadow_radius opt),
         shadow_opacity := lookup_into (config_lookup_float cfg ''shadow-opacity'') (shadow_opacity opt),
         shadow_offset_x := lookup_into (config_lookup_int cfg ''shadow-offset-x'') (shadow_offset_x opt),
         shadow_offset_y := lookup_into (config_lookup_int cfg ''shadow-offset-y'') (shadow_offset_y opt),
         inactive_opacity :=
           (case config_lookup_float cfg ''inactive-opacity'' of
              Some dval \<Rightarrow> double_to_opacity (double_mul (normalize_d dval) (real OPAQUE))
            | None \<Rightarrow> inactive_opacity opt),
         active_opacity :=
           (case config_lookup_float cfg ''active-opacity'' of
              Some dval \<Rightarrow> double_to_opacity (double_mul (normalize_d dval) (real OPAQUE))
            | None \<Rightarrow> active_opacity opt),
         frame_opacity := lookup_into (config_lookup_float cfg ''frame-opacity'') (frame_opacity opt),
         wintype_shadow :=
           (case config_lookup_bool cfg ''shadow'' of
              Some ival \<Rightarrow> if ival then wintype_arr_enable ext (wintype_shadow opt) else wintype_shadow opt
            | None \<Rightarrow> wintype_shadow opt),
         wintype_fade :=
           (case config_lookup_bool cfg ''fading'' of
              Some ival \<Rightarrow> if ival then wintype_arr_enable ext (wintype_fade opt) else wintype_fade opt
            | None \<Rightarrow> wintype_fade opt),
         no_fading_openclose :=
           snd (lcfg_lookup_bool cfg ''no-fading-openclose'' (no_fading_openclose opt)),
         no_fading_destroyed_argb :=
           snd (lcfg_lookup_bool cfg ''no-fading-destroyed-argb'' (no_fading_destroyed_argb opt)),
         shadow_red := lookup_into (config_lookup_float cfg ''shadow-red'') (shadow_red opt),
         shadow_green := lookup_into (config_lookup_float cfg ''shadow-green'') (shadow_green opt),
         shadow_blue := lookup_into (config_lookup_float cfg ''shadow-blue'') (shadow_blue opt),
         shadow_exclude_reg_str :=
           (case config_lookup_string cfg ''shadow-exclude-reg'' of
              Some sval \<Rightarrow> Some sval
            | None \<Rightarrow> shadow_exclude_reg_str opt),
         inactive_opacity_override :=
           snd (lcfg_lookup_bool cfg ''inactive-opacity-override'' (inactive_opacity_override opt)),
         inactive_dim := lookup_into (config_lookup_float cfg ''inactive-dim'') (inactive_dim opt),
         mark_wmwin_focused :=
           snd (lcfg_lookup_bool cfg ''mark-wmwin-focused'' (mark_wmwin_focused opt)),
         mark_ovredir_focused :=
           snd (lcfg_lookup_bool cfg ''mark-ovredir-focused'' (mark_ovredir_focused opt)),
         shadow_ignore_shaped :=
           snd (lcfg_lookup_bool cfg ''shadow-ignore-shaped'' (shadow_ignore_shaped opt)),
         detect_rounded_corners :=
           snd (lcfg_lookup_bool cfg ''detect-rounded-corners'' (detect_rounded_corners opt)),
         xinerama_shadow_crop :=
           snd (lcfg_lookup_bool cfg ''xinerama-shadow-crop'' (xinerama_shadow_crop opt)),
         detect_client_opacity :=
           snd (lcfg_lookup_bool cfg ''detect-client-opacity'' (detect_client_opacity opt)),
         refresh_rate := lookup_into (config_lookup_int cfg ''refresh-rate'') (refresh_rate opt),
         vsync :=
           (case config_lookup_string cfg ''vsync'' of
              Some sval \<Rightarrow> parse_vsync ext sval
            | None \<Rightarrow> vsync opt),
         backend :=
           (case config_lookup_string cfg ''backend'' of
              Some sval \<Rightarrow> parse_backend ext sval
            | None \<Rightarrow> backend opt),
         alpha_step := lookup_into (config_lookup_float cfg ''alpha-step'') (alpha_step opt),
         sw_opti := snd (lcfg_lookup_bool cfg ''sw-opti'' (sw_opti opt)),
         use_ewmh_active_win :=
           snd (lcfg_lookup_bool cfg ''use-ewmh-active-win'' (use_ewmh_active_win opt)),
         unredir_if_possible :=
           snd (lcfg_lookup_bool cfg ''unredir-if-possible'' (unredir_if_possible opt)),
         unredir_if_possible_delay :=
           (case config_lookup_int cfg ''unredir-if-possible-delay'' of
              Some ival \<Rightarrow> ival
            | None \<Rightarrow> unredir_if_possible_delay opt),
         inactive_dim_fixed :=
           snd (lcfg_lookup_bool cfg ''inactive-dim-fixed'' (inactive_dim_fixed opt)),
         detect_transient := snd (lcfg_lookup_bool cfg ''detect-transient'' (detect_transient opt)),
         detect_client_leader :=
           snd (lcfg_lookup_bool cfg ''detect-client-leader'' (detect_client_leader opt))\<rparr>,
       cfgtmp := pcfgtmp
        \<lparr>no_dock_shadow := snd (lcfg_lookup_bool cfg ''no-dock-shadow'' (no_dock_shadow pcfgtmp)),
         no_dnd_shadow := snd (lcfg_lookup_bool cfg ''no-dnd-shadow'' (no_dnd_shadow pcfgtmp)),
         menu_opacity := lookup_into (config_lookup_float cfg ''menu-opacity'') (menu_opacity pcfgtmp)\<rparr>\<rparr>)"

text \<open>
  Lines 318 to 331: the condition lists. Only \<^verbatim>\<open>opacity-rule\<close> can end the
  process here.
\<close>

definition parse_config_condlsts ::
  "('c, 'k, 's) externs \<Rightarrow> config_t \<Rightarrow> ('c, 'k, 's) pstate \<Rightarrow> ('c, 'k, 's) pstate outcome" where
  "parse_config_condlsts ext cfg st =
     (let (s, l) = parse_cfg_condlst ext cfg ''shadow-exclude'' (ps st, shadow_blacklist (opts st));
          st = st\<lparr>ps := s, opts := (opts st)\<lparr>shadow_blacklist := l\<rparr>\<rparr>;
          (s, l) = parse_cfg_condlst ext cfg ''fade-exclude'' (ps st, fade_blacklist (opts st));
          st = st\<lparr>ps := s, opts := (opts st)\<lparr>fade_blacklist := l\<rparr>\<rparr>;
          (s, l) = parse_cfg_condlst ext cfg ''focus-exclude'' (ps st, focus_blacklist (opts st));
          st = st\<lparr>ps := s, opts := (opts st)\<lparr>focus_blacklist := l\<rparr>\<rparr>;
          (s, l) = parse_cfg_condlst ext cfg ''invert-color-include''
                     (ps st, invert_color_list (opts st));
          st = st\<lparr>ps := s, opts := (opts st)\<lparr>invert_color_list := l\<rparr>\<rparr>;
          (s, l) = parse_cfg_condlst ext cfg ''blur-background-exclude''
                     (ps st, blur_background_blacklist (opts st));
          st = st\<lparr>ps := s, opts := (opts st)\<lparr>blur_background_blacklist := l\<rparr>\<rparr>
      in case parse_cfg_condlst_opct ext cfg ''opacity-rule'' (ps st) of
           Exited code s \<Rightarrow> Exited code (st\<lparr>ps := s\<rparr>)
         | Returned s \<Rightarrow>
            (let st = st\<lparr>ps := s\<rparr>;
                 (s, l) = parse_cfg_condlst ext cfg ''unredir-if-possible-exclude''
                            (ps st, unredir_if_possible_blacklist (opts st))
             in Returned (st\<lparr>ps := s, opts := (opts st)\<lparr>unredir_if_possible_blacklist := l\<rparr>\<rparr>)))"

text \<open>
  \<^verbatim>\<open>if (config_lookup_string(&cfg, "blur-kern", &sval)
      && !parse_conv_kern_lst(ps, sval, o->blur_kerns, MAX_BLUR_PASS)) exit(1);\<close>
\<close>

definition parse_config_blur_kern ::
  "('c, 'k, 's) externs \<Rightarrow> config_t \<Rightarrow> ('c, 'k, 's) pstate \<Rightarrow> ('c, 'k, 's) pstate outcome" where
  "parse_config_blur_kern ext cfg st =
     (case config_lookup_string cfg ''blur-kern'' of
        None \<Rightarrow> Returned st
      | Some sval \<Rightarrow>
         (case parse_conv_kern_lst ext (ps st) sval (blur_kerns (opts st)) of
            (ok, s, kerns) \<Rightarrow>
              let st = st\<lparr>ps := s, opts := (opts st)\<lparr>blur_kerns := kerns\<rparr>\<rparr>
              in if \<not> ok then Exited 1 st else Returned st))"

text \<open>
  \<^verbatim>\<open>if (config_lookup_string(&cfg, "glx-swap-method", &sval)
      && !parse_glx_swap_method(ps, sval)) exit(1);\<close>
\<close>

definition parse_config_glx_swap_method ::
  "('c, 'k, 's) externs \<Rightarrow> config_t \<Rightarrow> ('c, 'k, 's) pstate \<Rightarrow> ('c, 'k, 's) pstate outcome" where
  "parse_config_glx_swap_method ext cfg st =
     (case config_lookup_string cfg ''glx-swap-method'' of
        None \<Rightarrow> Returned st
      | Some sval \<Rightarrow>
         (case parse_glx_swap_method ext (ps st) sval of
            (ok, s) \<Rightarrow> if \<not> ok then Exited 1 (st\<lparr>ps := s\<rparr>) else Returned (st\<lparr>ps := s\<rparr>)))"

text \<open>Lines 332 to 355, from \<^verbatim>\<open>blur-background\<close> to \<^verbatim>\<open>glx-use-gpushader4\<close>.\<close>

definition parse_config_blur_glx ::
  "('c, 'k, 's) externs \<Rightarrow> config_t \<Rightarrow> ('c, 'k, 's) pstate \<Rightarrow> ('c, 'k, 's) pstate outcome" where
  "parse_config_blur_glx ext cfg st =
     (let opt = opts st;
          st = st\<lparr>opts := opt
            \<lparr>blur_background := snd (lcfg_lookup_bool cfg ''blur-background'' (blur_background opt)),
             blur_background_frame :=
               snd (lcfg_lookup_bool cfg ''blur-background-frame'' (blur_background_frame opt)),
             blur_background_fixed :=
               snd (lcfg_lookup_bool cfg ''blur-background-fixed'' (blur_background_fixed opt))\<rparr>\<rparr>
      in then_do (parse_config_blur_kern ext cfg st) (\<lambda>st.
           let opt = opts st;
               st = st\<lparr>opts := opt
                 \<lparr>resize_damage := lookup_into (config_lookup_int cfg ''resize-damage'') (resize_damage opt),
                  glx_no_stencil := snd (lcfg_lookup_bool cfg ''glx-no-stencil'' (glx_no_stencil opt)),
                  glx_no_rebind_pixmap :=
                    snd (lcfg_lookup_bool cfg ''glx-no-rebind-pixmap'' (glx_no_rebind_pixmap opt))\<rparr>\<rparr>
           in then_do (parse_config_glx_swap_method ext cfg st) (\<lambda>st.
                let opt = opts st
                in Returned (st\<lparr>opts := opt
                     \<lparr>glx_use_gpushader4 :=
                        snd (lcfg_lookup_bool cfg ''glx-use-gpushader4'' (glx_use_gpushader4 opt))\<rparr>\<rparr>))))"

text \<open>
  Lines 357 to 373, the options that were removed. \<^verbatim>\<open>bval\<close> is the local the
  lookups write; it is declared without a value and read only after a lookup that
  succeeded. \<^verbatim>\<open>clear-shadow\<close> and \<^verbatim>\<open>paint-on-overlay\<close> are reported when
  the lookup succeeds, the other four only when the value read is true.
\<close>

definition warn_if_present :: "config_t \<Rightarrow> string \<Rightarrow> bool \<times> message list \<Rightarrow> bool \<times> message list" where
  "warn_if_present cfg name bm =
     (case lcfg_lookup_bool cfg name (fst bm) of
        (ret, bval) \<Rightarrow> (bval, if ret then snd bm @ [Removed_option name] else snd bm))"

definition warn_if_true :: "config_t \<Rightarrow> string \<Rightarrow> bool \<times> message list \<Rightarrow> bool \<times> message list" where
  "warn_if_true cfg name bm =
     (case lcfg_lookup_bool cfg name (fst bm) of
        (ret, bval) \<Rightarrow> (bval, if ret \<and> bval then snd bm @ [Deprecated_option name] else snd bm))"

definition parse_config_removed ::
  "config_t \<Rightarrow> bool \<Rightarrow> ('c, 'k, 's) pstate \<Rightarrow> ('c, 'k, 's) pstate" where
  "parse_config_removed cfg bval st =
     (let bm = (bval, printed st);
          bm = warn_if_present cfg ''clear-shadow'' bm;
          bm = warn_if_present cfg ''paint-on-overlay'' bm;
          bm = warn_if_true cfg ''glx-use-copysubbuffermesa'' bm;
          bm = warn_if_true cfg ''glx-copy-from-front'' bm;
          bm = warn_if_true cfg ''xrender-sync'' bm;
          bm = warn_if_true cfg ''xrender-sync-fence'' bm
      in st\<lparr>printed := snd bm\<rparr>)"

text \<open>
  Lines 375 to 393: the body of the loop over the window types, for the type \<^verbatim>\<open>i\<close>.
\<close>

definition wintype_settings ::
  "('c, 'k, 's) externs \<Rightarrow> config_t \<Rightarrow> nat \<Rightarrow> ('c, 'k) options_t \<Rightarrow> ('c, 'k) options_t" where
  "wintype_settings ext cfg i opt =
     (case config_lookup cfg (''wintypes.'' @ WINTYPES ext i) of
        None \<Rightarrow> opt
      | Some setting \<Rightarrow>
          opt\<lparr>wintype_shadow :=
                (case config_setting_lookup_bool setting ''shadow'' of
                   Some ival \<Rightarrow> (wintype_shadow opt)(i := ival)
                 | None \<Rightarrow> wintype_shadow opt),
              wintype_fade :=
                (case config_setting_lookup_bool setting ''fade'' of
                   Some ival \<Rightarrow> (wintype_fade opt)(i := ival)
                 | None \<Rightarrow> wintype_fade opt),
              wintype_focus :=
                (case config_setting_lookup_bool setting ''focus'' of
                   Some ival \<Rightarrow> (wintype_focus opt)(i := ival)
                 | None \<Rightarrow> wintype_focus opt),
              wintype_opacity :=
                (case config_setting_lookup_float setting ''opacity'' of
                   Some fval \<Rightarrow> (wintype_opacity opt)(i := normalize_d fval)
                 | None \<Rightarrow> wintype_opacity opt)\<rparr>)"

text \<open>\<^verbatim>\<open>for (wintype_t i = 0; i < NUM_WINTYPES; ++i)\<close>\<close>

definition parse_config_wintypes ::
  "('c, 'k, 's) externs \<Rightarrow> config_t \<Rightarrow> ('c, 'k, 's) pstate \<Rightarrow> ('c, 'k, 's) pstate" where
  "parse_config_wintypes ext cfg st =
     st\<lparr>opts := fold (wintype_settings ext cfg) [0..<NUM_WINTYPES] (opts st)\<rparr>"

text \<open>
  Everything \<^verbatim>\<open>parse_config\<close> does with a configuration that was read, from line 217
  to the end.
\<close>

definition parse_config_lookups ::
  "('c, 'k, 's) externs \<Rightarrow> config_t \<Rightarrow> ('c, 'k, 's) pstate \<Rightarrow> ('c, 'k, 's) pstate outcome" where
  "parse_config_lookups ext cfg st =
     then_do (parse_config_condlsts ext cfg (parse_config_scalars ext cfg st)) (\<lambda>st.
       then_do (parse_config_blur_glx ext cfg st) (\<lambda>st.
         Returned (parse_config_wintypes ext cfg (parse_config_removed cfg False st))))"

text \<open>
  libconfig's \<^verbatim>\<open>config_read\<close> on the stream of a file that opened: the configuration,
  or the line and text of the error.
\<close>

type_synonym reader = "string \<Rightarrow> (nat \<times> string) + config_t"

text \<open>
  \<^verbatim>\<open>parse_config(o, pcfgtmp)\<close>. The file is found by \<^verbatim>\<open>open_config_file\<close>
  with \<^verbatim>\<open>&path\<close> for \<^verbatim>\<open>ppath\<close>; when none opens and a path was
  configured, the failure is printed with \<^verbatim>\<open>printf_errfq(1, ...)\<close>; a file that
  does not parse is reported and nothing is changed; otherwise
  \<^verbatim>\<open>o->config_file\<close> becomes the path found and the options are looked up.
\<close>

definition parse_config ::
  "('c, 'k, 's) externs \<Rightarrow> sysenv \<Rightarrow> reader \<Rightarrow> ('c, 'k, 's) pstate \<Rightarrow> ('c, 'k, 's) pstate outcome" where
  "parse_config ext env config_read st =
     (let r = open_config_file (config_file (opts st)) True env in
      case stream r of
        None \<Rightarrow>
          (case config_file (opts st) of
             Some cpath \<Rightarrow>
               (let st = st\<lparr>printed := printed st @ [Failed_to_read cpath]\<rparr>
                in if printf_errfq_exits ext then Exited 1 st
                   else Returned (st\<lparr>opts := (opts st)\<lparr>config_file := None\<rparr>\<rparr>))
           | None \<Rightarrow> Returned st)
      | Some f \<Rightarrow>
          (case config_read f of
             Inl (line, text) \<Rightarrow>
               Returned (st\<lparr>printed := printed st @ [Error_when_reading f line text]\<rparr>)
           | Inr cfg \<Rightarrow>
               parse_config_lookups ext cfg (st\<lparr>opts := (opts st)\<lparr>config_file := ppath_out r\<rparr>\<rparr>)))"

subsection \<open>The fade engine: set_fade and run_fades\<close>

text \<open>
  The completion callback of a fade. compton.h stores a function pointer
  (\<^verbatim>\<open>void (*callback)(Display *dpy, win *w)\<close>); the functions it can point to are
  not under src/, so the callback is the tag the spec gives it.
\<close>

datatype callback_tag = FinishUnmap | FinishDestroy | FinishFocusChange | NoCallback

text \<open>
  \<^verbatim>\<open>struct _fade\<close> of compton.h: the window \<^verbatim>\<open>w\<close> (by its id), \<^verbatim>\<open>cur\<close>,
  \<^verbatim>\<open>finish\<close>, \<^verbatim>\<open>step\<close> and \<^verbatim>\<open>callback\<close>; \<^verbatim>\<open>next\<close> is the order of the
  list of fades and \<^verbatim>\<open>dpy\<close> the one display.
\<close>

record fade =
  fade_w :: nat
  fade_cur :: real
  fade_finish :: real
  fade_step :: real
  fade_callback :: callback_tag

text \<open>
  What the fade engine works on: the list of active fades, the effective opacity of each
  window, the callbacks that were invoked (oldest first) and the windows whose extents
  were added to the pending damage.
\<close>

record fade_state =
  fades :: "fade list"
  win_opacity :: "nat \<Rightarrow> real"
  invoked :: "(callback_tag \<times> nat) list"
  damaged :: "nat list"

definition no_fades :: fade_state where
  "no_fades = \<lparr>fades = [], win_opacity = (\<lambda>w. real OPAQUE), invoked = [], damaged = []\<rparr>"

text \<open>
  Modelled from the spec: the body of \<^verbatim>\<open>set_fade\<close> is not under src/ (compton.h
  declares it). Section 4.4: "if \<^verbatim>\<open>override\<close> is false and a fade toward the same target
  already exists, it is left untouched; otherwise any existing fade on the window is
  replaced. If \<^verbatim>\<open>step <= 0\<close> or \<^verbatim>\<open>start == finish\<close>, the opacity is applied
  immediately and, if \<^verbatim>\<open>execute_callback_if_no_change\<close>, the callback fires
  synchronously with no Fade object created." A superseded fade is "removed without
  callback" (section 3).
\<close>

definition set_fade ::
  "nat \<Rightarrow> real \<Rightarrow> real \<Rightarrow> real \<Rightarrow> callback_tag \<Rightarrow> bool \<Rightarrow> bool \<Rightarrow> fade_state \<Rightarrow> fade_state" where
  "set_fade w start finish step callback exec_callback override s =
     (if \<not> override \<and> (\<exists>f\<in>set (fades s). fade_w f = w \<and> fade_finish f = finish) then s
      else
        let others = filter (\<lambda>f. fade_w f \<noteq> w) (fades s) in
        if step \<le> 0 \<or> start = finish then
          s\<lparr>fades := others,
            win_opacity := (win_opacity s)(w := finish),
            invoked := invoked s @ (if exec_callback then [(callback, w)] else [])\<rparr>
        else
          s\<lparr>fades :=
              \<lparr>fade_w = w, fade_cur = start, fade_finish = finish, fade_step = step,
               fade_callback = callback\<rparr> # others,
            win_opacity := (win_opacity s)(w := start)\<rparr>)"

text \<open>
  Modelled from the spec: the body of \<^verbatim>\<open>run_fades\<close> is not under src/ (compton.h
  declares it). Section 4.4: "for every active Fade, move \<^verbatim>\<open>current\<close> toward
  \<^verbatim>\<open>target\<close> by \<^verbatim>\<open>step\<close>, clamped so it does not overshoot; on reaching
  \<^verbatim>\<open>target\<close>, remove the Fade from the active set and invoke its callback. Any window
  touched by a step is marked for opacity recomputation and its extents added to pending
  damage." \<^verbatim>\<open>fade_tick\<close> is the move of one fade.
\<close>

definition fade_tick :: "fade \<Rightarrow> fade" where
  "fade_tick f =
     f\<lparr>fade_cur :=
         (if fade_cur f < fade_finish f then min (fade_cur f + fade_step f) (fade_finish f)
          else max (fade_cur f - fade_step f) (fade_finish f))\<rparr>"

definition run_fades :: "fade_state \<Rightarrow> fade_state" where
  "run_fades s =
     (let moved = map fade_tick (fades s);
          reached = filter (\<lambda>f. fade_cur f = fade_finish f) moved
      in s\<lparr>fades := filter (\<lambda>f. fade_cur f \<noteq> fade_finish f) moved,
           win_opacity := fold (\<lambda>f op. op(fade_w f := fade_cur f)) moved (win_opacity s),
           invoked := invoked s @ map (\<lambda>f. (fade_callback f, fade_w f)) reached,
           damaged := damaged s @ map fade_w moved\<rparr>)"

text \<open>At most one active fade per window.\<close>

definition one_fade_per_window :: "fade_state \<Rightarrow> bool" where
  "one_fade_per_window s = distinct (map fade_w (fades s))"

text \<open>
  The states of the fade engine: it starts without fades, and \<^verbatim>\<open>set_fade\<close> and
  \<^verbatim>\<open>run_fades\<close> are the operations on the set of fades that the spec describes.
\<close>

inductive reachable :: "fade_state \<Rightarrow> bool" where
  start: "reachable no_fades"
| set_fade: "reachable s \<Longrightarrow> reachable (set_fade w start finish step callback exec_callback override s)"
| run_fades: "reachable s \<Longrightarrow> reachable (run_fades s)"

text \<open>The fades of one window.\<close>

definition fades_of :: "nat \<Rightarrow> fade_state \<Rightarrow> fade list" where
  "fades_of w s = filter (\<lambda>f. fade_w f = w) (fades s)"

subsection \<open>A sample session\<close>

text \<open>
  Concrete values for the parameters, on which the results below are evaluated: condition
  lists, blur kernels and the session are lists of the strings that were accepted;
  \<^verbatim>\<open>condlst_add\<close> prepends the pattern; an opacity rule parses when it has a colon
  (as in \<^verbatim>\<open>90:class_g = 'URxvt'\<close>), a kernel list when it is not empty, a swap
  method when it is a decimal digit; the window type names are those of the
  \<^verbatim>\<open>wintype\<close> enumeration.
\<close>

definition sample_externs :: "(string list, string list, string list) externs" where
  "sample_externs =
     \<lparr>condlst_add = (\<lambda>s l pattern. case pattern of Some p \<Rightarrow> (s, p # l) | None \<Rightarrow> (s, l)),
      parse_rule_opacity =
        (\<lambda>s pattern. case pattern of
           Some p \<Rightarrow> if CHR '':'' \<in> set p then (True, s @ [p]) else (False, s)
         | None \<Rightarrow> (False, s)),
      parse_conv_kern_lst = (\<lambda>s sval kerns. if sval = [] then (False, s, kerns) else (True, s, [sval])),
      parse_glx_swap_method =
        (\<lambda>s sval. if sval \<in> set [''0'', ''1'', ''2'', ''3'', ''4'', ''5'', ''6''] then (True, s @ [sval])
                  else (False, s)),
      parse_vsync = (\<lambda>sval. if sval = ''none'' then 0 else 1),
      parse_backend = (\<lambda>sval. if sval = ''xrender'' then 0 else 1),
      wintype_arr_enable = (\<lambda>arr i. i < NUM_WINTYPES \<or> arr i),
      WINTYPES = (\<lambda>i. [''unknown'', ''desktop'', ''dock'', ''toolbar'', ''menu'', ''utility'',
                        ''splash'', ''dialog'', ''normal'', ''dropdown_menu'', ''popup_menu'',
                        ''tooltip'', ''notify'', ''combo'', ''dnd''] ! (i mod 15)),
      printf_errfq_exits = True\<rparr>"

definition sample_options :: "(string list, string list) options_t" where
  "sample_options =
     \<lparr>config_file = Some ''/etc/compton.conf'',
      fade_delta = 10, fade_in_step = 0, fade_out_step = 0,
      shadow_radius = 12, shadow_opacity = 3 / 4, shadow_offset_x = - 15, shadow_offset_y = - 15,
      inactive_opacity = 0, active_opacity = 0, frame_opacity = 0,
      wintype_shadow = (\<lambda>i. False), wintype_fade = (\<lambda>i. False), wintype_focus = (\<lambda>i. False),
      wintype_opacity = (\<lambda>i. 1),
      no_fading_openclose = False, no_fading_destroyed_argb = False,
      shadow_red = 0, shadow_green = 0, shadow_blue = 0, shadow_exclude_reg_str = None,
      inactive_opacity_override = False, inactive_dim = 0,
      mark_wmwin_focused = False, mark_ovredir_focused = False, shadow_ignore_shaped = False,
      detect_rounded_corners = False, xinerama_shadow_crop = False, detect_client_opacity = False,
      refresh_rate = 0, vsync = 0, backend = 0, alpha_step = 3 / 100, sw_opti = False,
      use_ewmh_active_win = False, unredir_if_possible = False, unredir_if_possible_delay = 0,
      inactive_dim_fixed = False, detect_transient = False, detect_client_leader = False,
      shadow_blacklist = [], fade_blacklist = [], focus_blacklist = [], invert_color_list = [],
      blur_background_blacklist = [], unredir_if_possible_blacklist = [],
      blur_background = False, blur_background_frame = False, blur_background_fixed = False,
      blur_kerns = [], resize_damage = 0,
      glx_no_stencil = False, glx_no_rebind_pixmap = False, glx_use_gpushader4 = False\<rparr>"

definition sample_state :: "(string list, string list, string list) pstate" where
  "sample_state =
     \<lparr>opts = sample_options,
      cfgtmp = \<lparr>no_dock_shadow = False, no_dnd_shadow = False, menu_opacity = 1\<rparr>,
      ps = [], printed = []\<rparr>"

text \<open>A system in which only \<^verbatim>\<open>/etc/compton.conf\<close> exists.\<close>

definition sample_env :: sysenv where
  "sample_env = \<lparr>getenv = (\<lambda>name. None), fopen = (\<lambda>path. path = ''/etc/compton.conf'')\<rparr>"

text \<open>
  A configuration that sets every opacity option, most of them outside the range from 0
  to 1; \<^verbatim>\<open>5404319552844595 / 2^53\<close> is the double nearest to 0.6, the value
  that \<^verbatim>\<open>inactive-opacity = 0.6\<close> is read as.
\<close>

definition opacity_cfg :: config_t where
  "opacity_cfg =
     [''fade-in-step'' \<mapsto> CInt 2, ''fade-out-step'' \<mapsto> CFloat (- 1),
      ''inactive-opacity'' \<mapsto> CFloat (5404319552844595 / 9007199254740992),
      ''active-opacity'' \<mapsto> CFloat (1 / 2),
      ''shadow-opacity'' \<mapsto> CFloat 2, ''frame-opacity'' \<mapsto> CFloat (- 3),
      ''wintypes.dock'' \<mapsto> CGroup [(''opacity'', CFloat 5)]]"

text \<open>
  Configurations with an opacity rule or a blur kernel that the sample parsers refuse: a
  rule without a colon, an array element that is not a string, an empty kernel string.
\<close>

definition bad_rule_cfg :: config_t where
  "bad_rule_cfg =
     [''opacity-rule'' \<mapsto> CArray [CString ''90:class_g = URxvt'', CString ''URxvt'']]"

definition bad_elem_cfg :: config_t where
  "bad_elem_cfg = [''opacity-rule'' \<mapsto> CArray [CInt 90]]"

definition bad_kern_cfg :: config_t where
  "bad_kern_cfg = [''blur-kern'' \<mapsto> CString []]"

text \<open>Configurations that set a removed option, one to false and one to a boolean.\<close>

definition copy_from_front_off_cfg :: config_t where
  "copy_from_front_off_cfg = [''glx-copy-from-front'' \<mapsto> CBool False]"

text \<open>
  Two states of the fade engine: a fade of window 7 toward 1 after its first tick, and a
  fade of window 7 from 0 to \<^verbatim>\<open>OPAQUE\<close> that needs two ticks.
\<close>

definition fading_in :: fade_state where
  "fading_in = run_fades (set_fade 7 0 1 (1 / 4) NoCallback False True no_fades)"

definition two_tick_fade :: fade_state where
  "two_tick_fade = set_fade 7 0 (real OPAQUE) 3000000000 FinishUnmap False True no_fades"

subsection \<open>Vocabulary of the results\<close>

text \<open>
  The key \<^verbatim>\<open>wintypes.<type i>.<name>\<close> is absent: there is no group for the window
  type, or the group has no member of that name.
\<close>

definition wintype_key_absent :: "('c, 'k, 's) externs \<Rightarrow> config_t \<Rightarrow> nat \<Rightarrow> string \<Rightarrow> bool" where
  "wintype_key_absent ext cfg i name =
     (case config_lookup cfg (''wintypes.'' @ WINTYPES ext i) of
        None \<Rightarrow> True
      | Some g \<Rightarrow> config_setting_get_member g name = None)"

text \<open>
  The options that lines 357 to 373 of \<^verbatim>\<open>parse_config\<close> look up only to report
  them: two are reported whenever the lookup succeeds, four only when the value is true.
\<close>

definition reported_if_set :: "string list" where
  "reported_if_set = [''clear-shadow'', ''paint-on-overlay'']"

definition reported_if_true :: "string list" where
  "reported_if_true =
     [''glx-use-copysubbuffermesa'', ''glx-copy-from-front'', ''xrender-sync'',
      ''xrender-sync-fence'']"

definition removed_options :: "string list" where
  "removed_options = reported_if_set @ reported_if_true"

text \<open>
  The warnings a configuration calls for, stated apart from the code:
  \<^verbatim>\<open>clear-shadow\<close> and \<^verbatim>\<open>paint-on-overlay\<close> are reported when they are set to a
  boolean, the other four when they are set to true.
\<close>

definition removed_warnings :: "config_t \<Rightarrow> message list" where
  "removed_warnings cfg =
     map Removed_option (filter (\<lambda>k. config_lookup_bool cfg k \<noteq> None) reported_if_set)
     @ map Deprecated_option (filter (\<lambda>k. config_lookup_bool cfg k = Some True) reported_if_true)"

section \<open>Results\<close>

subsection \<open>Results about array_wid_exists\<close>

lemma array_wid_exists_in_range:
  "array_wid_exists arr (int n) wid = Inr (\<exists>k<n. arr ! k = wid)" if "n \<le> length arr"
  using that
proof (induction n)
  case 0
  show ?case by (simp add: array_wid_exists.simps)
next
  case (Suc n)
  have step: "(\<exists>k<Suc n. arr ! k = wid) \<longleftrightarrow> arr ! n = wid \<or> (\<exists>k<n. arr ! k = wid)"
    by (auto simp: less_Suc_eq)
  from Suc.prems have "n \<le> length arr" and "n < length arr" by simp_all
  with Suc.IH show ?case
    by (subst array_wid_exists.simps) (simp add: step)
qed

text \<open>
  C10, as the code has it: for a count between 0 and the number of elements of the array,
  \<^verbatim>\<open>array_wid_exists\<close> returns True exactly when some index below the count holds
  the window id; with count 0 it returns False.
\<close>

theorem array_wid_exists_iff:
  assumes "0 \<le> count" and "count \<le> int (length arr)"
  shows "array_wid_exists arr count wid = Inr (\<exists>k. 0 \<le> k \<and> k < count \<and> arr ! nat k = wid)
    \<and> array_wid_exists arr 0 wid = Inr False"
proof -
  from assms have n: "nat count \<le> length arr" and c: "count = int (nat count)" by simp_all
  have "(\<exists>k. 0 \<le> k \<and> k < count \<and> arr ! nat k = wid) \<longleftrightarrow> (\<exists>k<nat count. arr ! k = wid)"
  proof
    assume "\<exists>k. 0 \<le> k \<and> k < count \<and> arr ! nat k = wid"
    then obtain k where "0 \<le> k" "k < count" "arr ! nat k = wid" by blast
    then have "nat k < nat count \<and> arr ! nat k = wid" by simp
    then show "\<exists>k<nat count. arr ! k = wid" by blast
  next
    assume "\<exists>k<nat count. arr ! k = wid"
    then obtain k where "k < nat count" "arr ! k = wid" by blast
    then have "0 \<le> int k \<and> int k < count \<and> arr ! nat (int k) = wid" by simp
    then show "\<exists>k. 0 \<le> k \<and> k < count \<and> arr ! nat k = wid" by blast
  qed
  with array_wid_exists_in_range [OF n, of wid] c
  have "array_wid_exists arr count wid = Inr (\<exists>k. 0 \<le> k \<and> k < count \<and> arr ! nat k = wid)"
    by simp
  moreover have "array_wid_exists arr 0 wid = Inr False"
    by (simp add: array_wid_exists.simps)
  ultimately show ?thesis by simp
qed

theorem array_wid_exists_iff_witness:
  "array_wid_exists [4, 7, 9] 2 7 = Inr True \<and> array_wid_exists [4, 7, 9] 2 9 = Inr False
    \<and> array_wid_exists [4, 7, 9] 0 7 = Inr False"
proof -
  have ex: "\<exists>k::int. 0 \<le> k \<and> k < 2 \<and> [4, 7, 9::nat] ! nat k = 7"
    by (rule exI [of _ 1]) simp
  have nex: "\<not> (\<exists>k::int. 0 \<le> k \<and> k < 2 \<and> [4, 7, 9::nat] ! nat k = 9)"
  proof
    assume "\<exists>k::int. 0 \<le> k \<and> k < 2 \<and> [4, 7, 9::nat] ! nat k = 9"
    then obtain k :: int where k: "0 \<le> k" "k < 2" "[4, 7, 9::nat] ! nat k = 9" by blast
    then have "k = 0 \<or> k = 1" by arith
    with k(3) show False by auto
  qed
  from array_wid_exists_iff [of 2 "[4, 7, 9]" 7] array_wid_exists_iff [of 2 "[4, 7, 9]" 9] ex nex
  show ?thesis by simp
qed

text \<open>
  C10 as stated fails for a negative count: the loop test \<^verbatim>\<open>count--\<close> is non-zero,
  so the body reads \<^verbatim>\<open>arr[-2]\<close> instead of returning False.
\<close>

theorem array_wid_exists_negative_count:
  "array_wid_exists [4, 7, 9] (- 1) 7 = Inl OutOfBounds
    \<and> array_wid_exists [4, 7, 9] (- 1) 7 \<noteq> Inr False"
  by (simp add: array_wid_exists.simps)

subsection \<open>Results about win_free_border_size\<close>

lemma win_free_border_size_none:
  "border_size w = 0 \<Longrightarrow> win_free_border_size (dpy, w) = (dpy, w)"
  by (simp add: win_free_border_size_def)

lemma win_free_border_size_some:
  "border_size w \<noteq> 0 \<Longrightarrow>
    win_free_border_size (dpy, w) =
      (XFixesDestroyRegion (set_ignore dpy (NextRequest dpy)) (border_size w),
       w\<lparr>border_size := 0\<rparr>)"
  by (simp add: win_free_border_size_def None_xid_def)

lemma border_size_after_free:
  "border_size (snd (win_free_border_size (dpy, w))) = 0"
  by (cases "border_size w = 0") (simp_all add: win_free_border_size_none win_free_border_size_some)

text \<open>
  C4: after a call of \<^verbatim>\<open>win_free_border_size\<close> the window's
  \<^verbatim>\<open>border_size\<close> is None; the call sends one DestroyRegion request for the cached
  region when there is one and none otherwise; and a second call changes nothing more, so
  it sends no further request.
\<close>

theorem win_free_border_size_once:
  "border_size (snd (win_free_border_size (dpy, w))) = None_xid
   \<and> destroy_requests (fst (win_free_border_size (dpy, w))) =
       destroy_requests dpy @
         (if border_size w = None_xid then []
          else [DestroyRegion (NextRequest dpy) (border_size w)])
   \<and> win_free_border_size (win_free_border_size (dpy, w)) = win_free_border_size (dpy, w)
   \<and> destroy_requests (fst (win_free_border_size (win_free_border_size (dpy, w)))) =
       destroy_requests (fst (win_free_border_size (dpy, w)))"
proof -
  have a: "border_size (snd (win_free_border_size (dpy, w))) = None_xid"
    by (simp add: border_size_after_free None_xid_def)
  have b: "destroy_requests (fst (win_free_border_size (dpy, w))) =
       destroy_requests dpy @
         (if border_size w = None_xid then []
          else [DestroyRegion (NextRequest dpy) (border_size w)])"
    by (cases "border_size w = 0")
      (simp_all add: win_free_border_size_none win_free_border_size_some None_xid_def
        destroy_requests_def XFixesDestroyRegion_def set_ignore_def NextRequest_def)
  obtain dpy' w' where r: "win_free_border_size (dpy, w) = (dpy', w')"
    by (cases "win_free_border_size (dpy, w)")
  with border_size_after_free [of dpy w] have "border_size w' = 0" by simp
  then have c: "win_free_border_size (dpy', w') = (dpy', w')"
    by (rule win_free_border_size_none)
  from a b c r show ?thesis by simp
qed

text \<open>
  C5: when the window has a cached \<^verbatim>\<open>border_size\<close>, the calls made by
  \<^verbatim>\<open>win_free_border_size\<close> are, in this order, \<^verbatim>\<open>set_ignore\<close> with
  \<^verbatim>\<open>NextRequest(dpy)\<close> and then the DestroyRegion request, which is sent under
  that same sequence number; the number is in the ignore list afterwards. Without a cached
  region no call is made.
\<close>

theorem win_free_border_size_ignores_first:
  assumes "border_size w \<noteq> None_xid"
  shows "calls (fst (win_free_border_size (dpy, w))) =
           calls dpy @ [SetIgnore (NextRequest dpy), DestroyRegion (NextRequest dpy) (border_size w)]
    \<and> ignore_list (fst (win_free_border_size (dpy, w))) = ignore_list dpy @ [NextRequest dpy]
    \<and> NextRequest dpy \<in> set (ignore_list (fst (win_free_border_size (dpy, w))))
    \<and> calls (fst (win_free_border_size (dpy, w\<lparr>border_size := None_xid\<rparr>))) = calls dpy"
proof -
  from assms have nz: "border_size w \<noteq> 0" by (simp add: None_xid_def)
  have "win_free_border_size (dpy, w\<lparr>border_size := None_xid\<rparr>) = (dpy, w\<lparr>border_size := None_xid\<rparr>)"
    by (rule win_free_border_size_none) (simp add: None_xid_def)
  then show ?thesis
    by (simp add: win_free_border_size_some [OF nz] XFixesDestroyRegion_def set_ignore_def
        NextRequest_def)
qed

theorem win_free_border_size_ignores_first_witness:
  "calls (fst (win_free_border_size
      (\<lparr>request = 41, ignore_list = [], calls = []\<rparr>,
       \<lparr>win_id = 7, client_win = 7, border_size = 12, extents = 0\<rparr>))) =
     [SetIgnore 42, DestroyRegion 42 12]
   \<and> ignore_list (fst (win_free_border_size
      (\<lparr>request = 41, ignore_list = [], calls = []\<rparr>,
       \<lparr>win_id = 7, client_win = 7, border_size = 12, extents = 0\<rparr>))) = [42]"
  using win_free_border_size_ignores_first
    [of "\<lparr>win_id = 7, client_win = 7, border_size = 12, extents = 0\<rparr>"
        "\<lparr>request = 41, ignore_list = [], calls = []\<rparr>"]
  by (simp add: None_xid_def NextRequest_def)

subsection \<open>Results about open_config_file\<close>

text \<open>
  C9: with no explicit path and neither \<^verbatim>\<open>XDG_CONFIG_HOME\<close> nor \<^verbatim>\<open>HOME\<close>
  set to a non-empty string, \<^verbatim>\<open>open_config_file\<close> returns NULL after the two
  \<^verbatim>\<open>getenv\<close> calls: no file is tried and \<^verbatim>\<open>XDG_CONFIG_DIRS\<close> is not
  read. With an explicit path, that path is the only one tried, whether it opens or not.
\<close>

theorem open_config_file_short_paths:
  "((getenv env ''XDG_CONFIG_HOME'' = None \<or> getenv env ''XDG_CONFIG_HOME'' = Some [])
      \<and> (getenv env ''HOME'' = None \<or> getenv env ''HOME'' = Some []) \<longrightarrow>
     open_config_file None ppath env =
       \<lparr>stream = None, ppath_out = None,
        syscalls = [Getenv ''XDG_CONFIG_HOME'', Getenv ''HOME'']\<rparr>)
   \<and> open_config_file (Some path) ppath env =
       \<lparr>stream = (if fopen env path then Some path else None),
        ppath_out = (if fopen env path \<and> ppath then Some path else None),
        syscalls = [Fopen path]\<rparr>"
  by (auto simp: open_config_file_def getenv_nonempty_def)

theorem open_config_file_short_paths_witness:
  "open_config_file None True
     \<lparr>getenv = (\<lambda>n. if n = ''HOME'' then Some [] else None), fopen = (\<lambda>p. True)\<rparr> =
     \<lparr>stream = None, ppath_out = None,
      syscalls = [Getenv ''XDG_CONFIG_HOME'', Getenv ''HOME'']\<rparr>
   \<and> open_config_file (Some ''/tmp/c.conf'') True
     \<lparr>getenv = (\<lambda>n. Some ''/home/u''), fopen = (\<lambda>p. False)\<rparr> =
     \<lparr>stream = None, ppath_out = None, syscalls = [Fopen ''/tmp/c.conf'']\<rparr>"
  using open_config_file_short_paths
    [of "\<lparr>getenv = (\<lambda>n. if n = ''HOME'' then Some [] else None), fopen = (\<lambda>p. True)\<rparr>" True]
    open_config_file_short_paths
    [of "\<lparr>getenv = (\<lambda>n. Some ''/home/u''), fopen = (\<lambda>p. False)\<rparr>" True "''/tmp/c.conf''"]
  by simp

subsection \<open>parse_config: what each part leaves alone\<close>

lemma then_do_frame:
  "(\<And>s. g (state_of (F s)) = g s) \<Longrightarrow> g (state_of (then_do x F)) = g (state_of x)"
  by (cases x) simp_all

lemma exit_code_then_do:
  "exit_code (then_do x F) = (case x of Returned s \<Rightarrow> exit_code (F s) | Exited c s \<Rightarrow> Some c)"
  by (cases x) simp_all

text \<open>
  A projection \<open>f\<close> of the options that no update of the six condition lists changes
  has the same value before and after lines 318 to 331.
\<close>

lemma condlsts_frame:
  assumes "\<And>l x. f (x\<lparr>shadow_blacklist := l\<rparr>) = f x"
    and "\<And>l x. f (x\<lparr>fade_blacklist := l\<rparr>) = f x"
    and "\<And>l x. f (x\<lparr>focus_blacklist := l\<rparr>) = f x"
    and "\<And>l x. f (x\<lparr>invert_color_list := l\<rparr>) = f x"
    and "\<And>l x. f (x\<lparr>blur_background_blacklist := l\<rparr>) = f x"
    and "\<And>l x. f (x\<lparr>unredir_if_possible_blacklist := l\<rparr>) = f x"
  shows "f (opts (state_of (parse_config_condlsts ext cfg st))) = f (opts st)"
  using assms
  by (simp add: parse_config_condlsts_def Let_def split: prod.splits outcome.splits)

lemma condlsts_rest:
  "cfgtmp (state_of (parse_config_condlsts ext cfg st)) = cfgtmp st"
  "printed (state_of (parse_config_condlsts ext cfg st)) = printed st"
  by (simp_all add: parse_config_condlsts_def Let_def split: prod.splits outcome.splits)

lemma blur_kern_frame:
  assumes "\<And>l x. f (x\<lparr>blur_kerns := l\<rparr>) = f x"
  shows "f (opts (state_of (parse_config_blur_kern ext cfg st))) = f (opts st)"
  using assms
  by (simp add: parse_config_blur_kern_def Let_def split: prod.splits option.splits)

lemma blur_kern_rest:
  "cfgtmp (state_of (parse_config_blur_kern ext cfg st)) = cfgtmp st"
  "printed (state_of (parse_config_blur_kern ext cfg st)) = printed st"
  by (simp_all add: parse_config_blur_kern_def Let_def split: prod.splits option.splits)

lemma glx_swap_method_rest:
  "opts (state_of (parse_config_glx_swap_method ext cfg st)) = opts st"
  "cfgtmp (state_of (parse_config_glx_swap_method ext cfg st)) = cfgtmp st"
  "printed (state_of (parse_config_glx_swap_method ext cfg st)) = printed st"
  by (simp_all add: parse_config_glx_swap_method_def split: prod.splits option.splits)

lemma blur_glx_frame:
  assumes "\<And>l x. f (x\<lparr>blur_background := l\<rparr>) = f x"
    and "\<And>l x. f (x\<lparr>blur_background_frame := l\<rparr>) = f x"
    and "\<And>l x. f (x\<lparr>blur_background_fixed := l\<rparr>) = f x"
    and "\<And>l x. f (x\<lparr>blur_kerns := l\<rparr>) = f x"
    and "\<And>l x. f (x\<lparr>resize_damage := l\<rparr>) = f x"
    and "\<And>l x. f (x\<lparr>glx_no_stencil := l\<rparr>) = f x"
    and "\<And>l x. f (x\<lparr>glx_no_rebind_pixmap := l\<rparr>) = f x"
    and "\<And>l x. f (x\<lparr>glx_use_gpushader4 := l\<rparr>) = f x"
  shows "f (opts (state_of (parse_config_blur_glx ext cfg st))) = f (opts st)"
  using assms
  by (simp add: parse_config_blur_glx_def Let_def glx_swap_method_rest
      blur_kern_frame [where f = f] then_do_frame [where g = "\<lambda>s. f (opts s)"])

lemma blur_glx_rest:
  "cfgtmp (state_of (parse_config_blur_glx ext cfg st)) = cfgtmp st"
  "printed (state_of (parse_config_blur_glx ext cfg st)) = printed st"
  by (simp_all add: parse_config_blur_glx_def Let_def glx_swap_method_rest blur_kern_rest
      then_do_frame [where g = cfgtmp] then_do_frame [where g = printed])

lemma removed_rest:
  "opts (parse_config_removed cfg b st) = opts st"
  "cfgtmp (parse_config_removed cfg b st) = cfgtmp st"
  "ps (parse_config_removed cfg b st) = ps st"
  by (simp_all add: parse_config_removed_def Let_def)

lemma wintype_settings_frame:
  assumes "\<And>l x. f (x\<lparr>wintype_shadow := l\<rparr>) = f x"
    and "\<And>l x. f (x\<lparr>wintype_fade := l\<rparr>) = f x"
    and "\<And>l x. f (x\<lparr>wintype_focus := l\<rparr>) = f x"
    and "\<And>l x. f (x\<lparr>wintype_opacity := l\<rparr>) = f x"
  shows "f (fold (wintype_settings ext cfg) js opt) = f opt"
proof (induction js arbitrary: opt)
  case Nil
  show ?case by simp
next
  case (Cons j js)
  have "f (wintype_settings ext cfg j opt) = f opt"
    using assms by (simp add: wintype_settings_def split: option.splits)
  with Cons show ?case by simp
qed

lemma wintypes_frame:
  assumes "\<And>l x. f (x\<lparr>wintype_shadow := l\<rparr>) = f x"
    and "\<And>l x. f (x\<lparr>wintype_fade := l\<rparr>) = f x"
    and "\<And>l x. f (x\<lparr>wintype_focus := l\<rparr>) = f x"
    and "\<And>l x. f (x\<lparr>wintype_opacity := l\<rparr>) = f x"
  shows "f (opts (parse_config_wintypes ext cfg st)) = f (opts st)"
  using assms by (simp add: parse_config_wintypes_def wintype_settings_frame [where f = f])

lemma wintypes_rest:
  "cfgtmp (parse_config_wintypes ext cfg st) = cfgtmp st"
  "ps (parse_config_wintypes ext cfg st) = ps st"
  "printed (parse_config_wintypes ext cfg st) = printed st"
  by (simp_all add: parse_config_wintypes_def)

text \<open>
  A projection of the state that every part of the lookups leaves alone is left alone by
  all of them together, whether the process exits on the way or not.
\<close>

lemma lookups_state_frame:
  assumes "\<And>s. g (parse_config_scalars ext cfg s) = g s"
    and "\<And>s. g (state_of (parse_config_condlsts ext cfg s)) = g s"
    and "\<And>s. g (state_of (parse_config_blur_glx ext cfg s)) = g s"
    and "\<And>s. g (parse_config_removed cfg False s) = g s"
    and "\<And>s. g (parse_config_wintypes ext cfg s) = g s"
  shows "g (state_of (parse_config_lookups ext cfg st)) = g st"
  using assms
  by (simp add: parse_config_lookups_def then_do_frame [where g = g])

text \<open>
  A field written only between lines 217 and 317 has at the end the value it had after
  line 317.
\<close>

lemma lookups_frame:
  assumes "\<And>l x. f (x\<lparr>shadow_blacklist := l\<rparr>) = f x"
    and "\<And>l x. f (x\<lparr>fade_blacklist := l\<rparr>) = f x"
    and "\<And>l x. f (x\<lparr>focus_blacklist := l\<rparr>) = f x"
    and "\<And>l x. f (x\<lparr>invert_color_list := l\<rparr>) = f x"
    and "\<And>l x. f (x\<lparr>blur_background_blacklist := l\<rparr>) = f x"
    and "\<And>l x. f (x\<lparr>unredir_if_possible_blacklist := l\<rparr>) = f x"
    and "\<And>l x. f (x\<lparr>blur_background := l\<rparr>) = f x"
    and "\<And>l x. f (x\<lparr>blur_background_frame := l\<rparr>) = f x"
    and "\<And>l x. f (x\<lparr>blur_background_fixed := l\<rparr>) = f x"
    and "\<And>l x. f (x\<lparr>blur_kerns := l\<rparr>) = f x"
    and "\<And>l x. f (x\<lparr>resize_damage := l\<rparr>) = f x"
    and "\<And>l x. f (x\<lparr>glx_no_stencil := l\<rparr>) = f x"
    and "\<And>l x. f (x\<lparr>glx_no_rebind_pixmap := l\<rparr>) = f x"
    and "\<And>l x. f (x\<lparr>glx_use_gpushader4 := l\<rparr>) = f x"
    and "\<And>l x. f (x\<lparr>wintype_shadow := l\<rparr>) = f x"
    and "\<And>l x. f (x\<lparr>wintype_fade := l\<rparr>) = f x"
    and "\<And>l x. f (x\<lparr>wintype_focus := l\<rparr>) = f x"
    and "\<And>l x. f (x\<lparr>wintype_opacity := l\<rparr>) = f x"
  shows "f (opts (state_of (parse_config_lookups ext cfg st))) =
    f (opts (parse_config_scalars ext cfg st))"
  using assms
  by (simp add: parse_config_lookups_def removed_rest
      wintypes_frame [where f = f] blur_glx_frame [where f = f]
      condlsts_frame [where f = f] then_do_frame [where g = "\<lambda>s. f (opts s)"])

lemma lookups_cfgtmp:
  "cfgtmp (state_of (parse_config_lookups ext cfg st)) = cfgtmp (parse_config_scalars ext cfg st)"
  by (simp add: parse_config_lookups_def removed_rest wintypes_rest blur_glx_rest condlsts_rest
      then_do_frame [where g = cfgtmp])

text \<open>The first part of \<^verbatim>\<open>parse_config\<close>, when a file opens and parses.\<close>

lemma parse_config_read:
  assumes "stream (open_config_file (config_file (opts st)) True env) = Some f"
    and "config_read f = Inr cfg"
  shows "parse_config ext env config_read st =
    parse_config_lookups ext cfg
      (st\<lparr>opts := (opts st)\<lparr>config_file :=
         ppath_out (open_config_file (config_file (opts st)) True env)\<rparr>\<rparr>)"
  using assms by (simp add: parse_config_def Let_def)

subsection \<open>parse_config: a key that is absent\<close>

lemma absent_lookups:
  assumes "config_lookup cfg k = None"
  shows "config_lookup_int cfg k = None" and "config_lookup_float cfg k = None"
    and "config_lookup_bool cfg k = None" and "config_lookup_string cfg k = None"
    and "lcfg_lookup_bool cfg k v = (False, v)"
    and "parse_cfg_condlst ext cfg k sc = sc"
    and "parse_cfg_condlst_opct ext cfg k s = Returned s"
  using assms
  by (simp_all add: config_lookup_int_def config_lookup_float_def config_lookup_bool_def
      config_lookup_string_def setting_int_def setting_float_def setting_bool_def
      setting_string_def lcfg_lookup_bool_def parse_cfg_condlst_def parse_cfg_condlst_opct_def)

lemma lookups_scalar_fields:
  "fade_delta (opts (state_of (parse_config_lookups ext cfg st))) =
     fade_delta (opts (parse_config_scalars ext cfg st))"
  "fade_in_step (opts (state_of (parse_config_lookups ext cfg st))) =
     fade_in_step (opts (parse_config_scalars ext cfg st))"
  "fade_out_step (opts (state_of (parse_config_lookups ext cfg st))) =
     fade_out_step (opts (parse_config_scalars ext cfg st))"
  "shadow_radius (opts (state_of (parse_config_lookups ext cfg st))) =
     shadow_radius (opts (parse_config_scalars ext cfg st))"
  "shadow_opacity (opts (state_of (parse_config_lookups ext cfg st))) =
     shadow_opacity (opts (parse_config_scalars ext cfg st))"
  "shadow_offset_x (opts (state_of (parse_config_lookups ext cfg st))) =
     shadow_offset_x (opts (parse_config_scalars ext cfg st))"
  "shadow_offset_y (opts (state_of (parse_config_lookups ext cfg st))) =
     shadow_offset_y (opts (parse_config_scalars ext cfg st))"
  "inactive_opacity (opts (state_of (parse_config_lookups ext cfg st))) =
     inactive_opacity (opts (parse_config_scalars ext cfg st))"
  "active_opacity (opts (state_of (parse_config_lookups ext cfg st))) =
     active_opacity (opts (parse_config_scalars ext cfg st))"
  "frame_opacity (opts (state_of (parse_config_lookups ext cfg st))) =
     frame_opacity (opts (parse_config_scalars ext cfg st))"
  "no_fading_openclose (opts (state_of (parse_config_lookups ext cfg st))) =
     no_fading_openclose (opts (parse_config_scalars ext cfg st))"
  "no_fading_destroyed_argb (opts (state_of (parse_config_lookups ext cfg st))) =
     no_fading_destroyed_argb (opts (parse_config_scalars ext cfg st))"
  "shadow_red (opts (state_of (parse_config_lookups ext cfg st))) =
     shadow_red (opts (parse_config_scalars ext cfg st))"
  "shadow_green (opts (state_of (parse_config_lookups ext cfg st))) =
     shadow_green (opts (parse_config_scalars ext cfg st))"
  "shadow_blue (opts (state_of (parse_config_lookups ext cfg st))) =
     shadow_blue (opts (parse_config_scalars ext cfg st))"
  "shadow_exclude_reg_str (opts (state_of (parse_config_lookups ext cfg st))) =
     shadow_exclude_reg_str (opts (parse_config_scalars ext cfg st))"
  "inactive_opacity_override (opts (state_of (parse_config_lookups ext cfg st))) =
     inactive_opacity_override (opts (parse_config_scalars ext cfg st))"
  "inactive_dim (opts (state_of (parse_config_lookups ext cfg st))) =
     inactive_dim (opts (parse_config_scalars ext cfg st))"
  "mark_wmwin_focused (opts (state_of (parse_config_lookups ext cfg st))) =
     mark_wmwin_focused (opts (parse_config_scalars ext cfg st))"
  "mark_ovredir_focused (opts (state_of (parse_config_lookups ext cfg st))) =
     mark_ovredir_focused (opts (parse_config_scalars ext cfg st))"
  "shadow_ignore_shaped (opts (state_of (parse_config_lookups ext cfg st))) =
     shadow_ignore_shaped (opts (parse_config_scalars ext cfg st))"
  "detect_rounded_corners (opts (state_of (parse_config_lookups ext cfg st))) =
     detect_rounded_corners (opts (parse_config_scalars ext cfg st))"
  "xinerama_shadow_crop (opts (state_of (parse_config_lookups ext cfg st))) =
     xinerama_shadow_crop (opts (parse_config_scalars ext cfg st))"
  "detect_client_opacity (opts (state_of (parse_config_lookups ext cfg st))) =
     detect_client_opacity (opts (parse_config_scalars ext cfg st))"
  "refresh_rate (opts (state_of (parse_config_lookups ext cfg st))) =
     refresh_rate (opts (parse_config_scalars ext cfg st))"
  "vsync (opts (state_of (parse_config_lookups ext cfg st))) =
     vsync (opts (parse_config_scalars ext cfg st))"
  "backend (opts (state_of (parse_config_lookups ext cfg st))) =
     backend (opts (parse_config_scalars ext cfg st))"
  "alpha_step (opts (state_of (parse_config_lookups ext cfg st))) =
     alpha_step (opts (parse_config_scalars ext cfg st))"
  "sw_opti (opts (state_of (parse_config_lookups ext cfg st))) =
     sw_opti (opts (parse_config_scalars ext cfg st))"
  "use_ewmh_active_win (opts (state_of (parse_config_lookups ext cfg st))) =
     use_ewmh_active_win (opts (parse_config_scalars ext cfg st))"
  "unredir_if_possible (opts (state_of (parse_config_lookups ext cfg st))) =
     unredir_if_possible (opts (parse_config_scalars ext cfg st))"
  "unredir_if_possible_delay (opts (state_of (parse_config_lookups ext cfg st))) =
     unredir_if_possible_delay (opts (parse_config_scalars ext cfg st))"
  "inactive_dim_fixed (opts (state_of (parse_config_lookups ext cfg st))) =
     inactive_dim_fixed (opts (parse_config_scalars ext cfg st))"
  "detect_transient (opts (state_of (parse_config_lookups ext cfg st))) =
     detect_transient (opts (parse_config_scalars ext cfg st))"
  "detect_client_leader (opts (state_of (parse_config_lookups ext cfg st))) =
     detect_client_leader (opts (parse_config_scalars ext cfg st))"
  by (rule lookups_frame; simp)+

lemma scalars_absent:
  "config_lookup cfg ''fade-delta'' = None \<Longrightarrow>
     fade_delta (opts (state_of (parse_config_lookups ext cfg st))) = fade_delta (opts st)"
  "config_lookup cfg ''fade-in-step'' = None \<Longrightarrow>
     fade_in_step (opts (state_of (parse_config_lookups ext cfg st))) = fade_in_step (opts st)"
  "config_lookup cfg ''fade-out-step'' = None \<Longrightarrow>
     fade_out_step (opts (state_of (parse_config_lookups ext cfg st))) = fade_out_step (opts st)"
  "config_lookup cfg ''shadow-radius'' = None \<Longrightarrow>
     shadow_radius (opts (state_of (parse_config_lookups ext cfg st))) = shadow_radius (opts st)"
  "config_lookup cfg ''shadow-opacity'' = None \<Longrightarrow>
     shadow_opacity (opts (state_of (parse_config_lookups ext cfg st))) = shadow_opacity (opts st)"
  "config_lookup cfg ''shadow-offset-x'' = None \<Longrightarrow>
     shadow_offset_x (opts (state_of (parse_config_lookups ext cfg st))) = shadow_offset_x (opts st)"
  "config_lookup cfg ''shadow-offset-y'' = None \<Longrightarrow>
     shadow_offset_y (opts (state_of (parse_config_lookups ext cfg st))) = shadow_offset_y (opts st)"
  "config_lookup cfg ''inactive-opacity'' = None \<Longrightarrow>
     inactive_opacity (opts (state_of (parse_config_lookups ext cfg st))) = inactive_opacity (opts st)"
  "config_lookup cfg ''active-opacity'' = None \<Longrightarrow>
     active_opacity (opts (state_of (parse_config_lookups ext cfg st))) = active_opacity (opts st)"
  "config_lookup cfg ''frame-opacity'' = None \<Longrightarrow>
     frame_opacity (opts (state_of (parse_config_lookups ext cfg st))) = frame_opacity (opts st)"
  "config_lookup cfg ''no-fading-openclose'' = None \<Longrightarrow>
     no_fading_openclose (opts (state_of (parse_config_lookups ext cfg st))) = no_fading_openclose (opts st)"
  "config_lookup cfg ''no-fading-destroyed-argb'' = None \<Longrightarrow>
     no_fading_destroyed_argb (opts (state_of (parse_config_lookups ext cfg st))) = no_fading_destroyed_argb (opts st)"
  "config_lookup cfg ''shadow-red'' = None \<Longrightarrow>
     shadow_red (opts (state_of (parse_config_lookups ext cfg st))) = shadow_red (opts st)"
  "config_lookup cfg ''shadow-green'' = None \<Longrightarrow>
     shadow_green (opts (state_of (parse_config_lookups ext cfg st))) = shadow_green (opts st)"
  "config_lookup cfg ''shadow-blue'' = None \<Longrightarrow>
     shadow_blue (opts (state_of (parse_config_lookups ext cfg st))) = shadow_blue (opts st)"
  "config_lookup cfg ''shadow-exclude-reg'' = None \<Longrightarrow>
     shadow_exclude_reg_str (opts (state_of (parse_config_lookups ext cfg st))) = shadow_exclude_reg_str (opts st)"
  "config_lookup cfg ''inactive-opacity-override'' = None \<Longrightarrow>
     inactive_opacity_override (opts (state_of (parse_config_lookups ext cfg st))) = inactive_opacity_override (opts st)"
  "config_lookup cfg ''inactive-dim'' = None \<Longrightarrow>
     inactive_dim (opts (state_of (parse_config_lookups ext cfg st))) = inactive_dim (opts st)"
  "config_lookup cfg ''mark-wmwin-focused'' = None \<Longrightarrow>
     mark_wmwin_focused (opts (state_of (parse_config_lookups ext cfg st))) = mark_wmwin_focused (opts st)"
  "config_lookup cfg ''mark-ovredir-focused'' = None \<Longrightarrow>
     mark_ovredir_focused (opts (state_of (parse_config_lookups ext cfg st))) = mark_ovredir_focused (opts st)"
  "config_lookup cfg ''shadow-ignore-shaped'' = None \<Longrightarrow>
     shadow_ignore_shaped (opts (state_of (parse_config_lookups ext cfg st))) = shadow_ignore_shaped (opts st)"
  "config_lookup cfg ''detect-rounded-corners'' = None \<Longrightarrow>
     detect_rounded_corners (opts (state_of (parse_config_lookups ext cfg st))) = detect_rounded_corners (opts st)"
  "config_lookup cfg ''xinerama-shadow-crop'' = None \<Longrightarrow>
     xinerama_shadow_crop (opts (state_of (parse_config_lookups ext cfg st))) = xinerama_shadow_crop (opts st)"
  "config_lookup cfg ''detect-client-opacity'' = None \<Longrightarrow>
     detect_client_opacity (opts (state_of (parse_config_lookups ext cfg st))) = detect_client_opacity (opts st)"
  "config_lookup cfg ''refresh-rate'' = None \<Longrightarrow>
     refresh_rate (opts (state_of (parse_config_lookups ext cfg st))) = refresh_rate (opts st)"
  "config_lookup cfg ''vsync'' = None \<Longrightarrow>
     vsync (opts (state_of (parse_config_lookups ext cfg st))) = vsync (opts st)"
  "config_lookup cfg ''backend'' = None \<Longrightarrow>
     backend (opts (state_of (parse_config_lookups ext cfg st))) = backend (opts st)"
  "config_lookup cfg ''alpha-step'' = None \<Longrightarrow>
     alpha_step (opts (state_of (parse_config_lookups ext cfg st))) = alpha_step (opts st)"
  "config_lookup cfg ''sw-opti'' = None \<Longrightarrow>
     sw_opti (opts (state_of (parse_config_lookups ext cfg st))) = sw_opti (opts st)"
  "config_lookup cfg ''use-ewmh-active-win'' = None \<Longrightarrow>
     use_ewmh_active_win (opts (state_of (parse_config_lookups ext cfg st))) = use_ewmh_active_win (opts st)"
  "config_lookup cfg ''unredir-if-possible'' = None \<Longrightarrow>
     unredir_if_possible (opts (state_of (parse_config_lookups ext cfg st))) = unredir_if_possible (opts st)"
  "config_lookup cfg ''unredir-if-possible-delay'' = None \<Longrightarrow>
     unredir_if_possible_delay (opts (state_of (parse_config_lookups ext cfg st))) = unredir_if_possible_delay (opts st)"
  "config_lookup cfg ''inactive-dim-fixed'' = None \<Longrightarrow>
     inactive_dim_fixed (opts (state_of (parse_config_lookups ext cfg st))) = inactive_dim_fixed (opts st)"
  "config_lookup cfg ''detect-transient'' = None \<Longrightarrow>
     detect_transient (opts (state_of (parse_config_lookups ext cfg st))) = detect_transient (opts st)"
  "config_lookup cfg ''detect-client-leader'' = None \<Longrightarrow>
     detect_client_leader (opts (state_of (parse_config_lookups ext cfg st))) = detect_client_leader (opts st)"
  by (simp_all add: lookups_scalar_fields parse_config_scalars_def Let_def absent_lookups
      lookup_into_def)

lemma cfgtmp_absent:
  "config_lookup cfg ''no-dock-shadow'' = None \<Longrightarrow>
     no_dock_shadow (cfgtmp (state_of (parse_config_lookups ext cfg st))) = no_dock_shadow (cfgtmp st)"
  "config_lookup cfg ''no-dnd-shadow'' = None \<Longrightarrow>
     no_dnd_shadow (cfgtmp (state_of (parse_config_lookups ext cfg st))) = no_dnd_shadow (cfgtmp st)"
  "config_lookup cfg ''menu-opacity'' = None \<Longrightarrow>
     menu_opacity (cfgtmp (state_of (parse_config_lookups ext cfg st))) = menu_opacity (cfgtmp st)"
  by (simp_all add: lookups_cfgtmp parse_config_scalars_def Let_def absent_lookups
      lookup_into_def)

lemma condlsts_absent:
  "config_lookup cfg ''shadow-exclude'' = None \<Longrightarrow>
     shadow_blacklist (opts (state_of (parse_config_lookups ext cfg st))) = shadow_blacklist (opts st)"
  "config_lookup cfg ''fade-exclude'' = None \<Longrightarrow>
     fade_blacklist (opts (state_of (parse_config_lookups ext cfg st))) = fade_blacklist (opts st)"
  "config_lookup cfg ''focus-exclude'' = None \<Longrightarrow>
     focus_blacklist (opts (state_of (parse_config_lookups ext cfg st))) = focus_blacklist (opts st)"
  "config_lookup cfg ''invert-color-include'' = None \<Longrightarrow>
     invert_color_list (opts (state_of (parse_config_lookups ext cfg st))) = invert_color_list (opts st)"
  "config_lookup cfg ''blur-background-exclude'' = None \<Longrightarrow>
     blur_background_blacklist (opts (state_of (parse_config_lookups ext cfg st))) = blur_background_blacklist (opts st)"
  "config_lookup cfg ''unredir-if-possible-exclude'' = None \<Longrightarrow>
     unredir_if_possible_blacklist (opts (state_of (parse_config_lookups ext cfg st))) = unredir_if_possible_blacklist (opts st)"
  by (rule lookups_state_frame,
      simp add: parse_config_scalars_def Let_def,
      simp add: parse_config_condlsts_def Let_def absent_lookups split: prod.splits outcome.splits,
      (rule blur_glx_frame; simp),
      simp add: removed_rest,
      (rule wintypes_frame; simp))+

lemmas then_do_blur_glx =
  then_do_frame [where g = "\<lambda>s. blur_background (opts s)"]
  then_do_frame [where g = "\<lambda>s. blur_background_frame (opts s)"]
  then_do_frame [where g = "\<lambda>s. blur_background_fixed (opts s)"]
  then_do_frame [where g = "\<lambda>s. blur_kerns (opts s)"]
  then_do_frame [where g = "\<lambda>s. resize_damage (opts s)"]
  then_do_frame [where g = "\<lambda>s. glx_no_stencil (opts s)"]
  then_do_frame [where g = "\<lambda>s. glx_no_rebind_pixmap (opts s)"]
  then_do_frame [where g = "\<lambda>s. glx_use_gpushader4 (opts s)"]

lemma blur_glx_absent:
  "config_lookup cfg ''blur-background'' = None \<Longrightarrow>
     blur_background (opts (state_of (parse_config_lookups ext cfg st))) = blur_background (opts st)"
  "config_lookup cfg ''blur-background-frame'' = None \<Longrightarrow>
     blur_background_frame (opts (state_of (parse_config_lookups ext cfg st))) = blur_background_frame (opts st)"
  "config_lookup cfg ''blur-background-fixed'' = None \<Longrightarrow>
     blur_background_fixed (opts (state_of (parse_config_lookups ext cfg st))) = blur_background_fixed (opts st)"
  "config_lookup cfg ''blur-kern'' = None \<Longrightarrow>
     blur_kerns (opts (state_of (parse_config_lookups ext cfg st))) = blur_kerns (opts st)"
  "config_lookup cfg ''resize-damage'' = None \<Longrightarrow>
     resize_damage (opts (state_of (parse_config_lookups ext cfg st))) = resize_damage (opts st)"
  "config_lookup cfg ''glx-no-stencil'' = None \<Longrightarrow>
     glx_no_stencil (opts (state_of (parse_config_lookups ext cfg st))) = glx_no_stencil (opts st)"
  "config_lookup cfg ''glx-no-rebind-pixmap'' = None \<Longrightarrow>
     glx_no_rebind_pixmap (opts (state_of (parse_config_lookups ext cfg st))) = glx_no_rebind_pixmap (opts st)"
  "config_lookup cfg ''glx-use-gpushader4'' = None \<Longrightarrow>
     glx_use_gpushader4 (opts (state_of (parse_config_lookups ext cfg st))) = glx_use_gpushader4 (opts st)"
  by (rule lookups_state_frame,
      simp add: parse_config_scalars_def Let_def,
      (rule condlsts_frame; simp),
      simp add: parse_config_blur_glx_def parse_config_blur_kern_def Let_def absent_lookups
        glx_swap_method_rest lookup_into_def then_do_blur_glx split: option.splits prod.splits,
      simp add: removed_rest,
      (rule wintypes_frame; simp))+

lemma absent_member:
  assumes "config_setting_get_member g name = None"
  shows "config_setting_lookup_bool g name = None" and "config_setting_lookup_float g name = None"
  using assms
  by (simp_all add: config_setting_lookup_bool_def config_setting_lookup_float_def
      setting_bool_def setting_float_def)

lemma wintype_absent_step:
  "wintype_key_absent ext cfg i ''shadow'' \<Longrightarrow>
     wintype_shadow (wintype_settings ext cfg j opt) i = wintype_shadow opt i"
  "wintype_key_absent ext cfg i ''fade'' \<Longrightarrow>
     wintype_fade (wintype_settings ext cfg j opt) i = wintype_fade opt i"
  "wintype_key_absent ext cfg i ''focus'' \<Longrightarrow>
     wintype_focus (wintype_settings ext cfg j opt) i = wintype_focus opt i"
  "wintype_key_absent ext cfg i ''opacity'' \<Longrightarrow>
     wintype_opacity (wintype_settings ext cfg j opt) i = wintype_opacity opt i"
  by (auto simp: wintype_key_absent_def wintype_settings_def absent_member split: option.splits)

lemma wintype_absent_loop:
  "wintype_key_absent ext cfg i ''shadow'' \<Longrightarrow>
     wintype_shadow (fold (wintype_settings ext cfg) js opt) i = wintype_shadow opt i"
  "wintype_key_absent ext cfg i ''fade'' \<Longrightarrow>
     wintype_fade (fold (wintype_settings ext cfg) js opt) i = wintype_fade opt i"
  "wintype_key_absent ext cfg i ''focus'' \<Longrightarrow>
     wintype_focus (fold (wintype_settings ext cfg) js opt) i = wintype_focus opt i"
  "wintype_key_absent ext cfg i ''opacity'' \<Longrightarrow>
     wintype_opacity (fold (wintype_settings ext cfg) js opt) i = wintype_opacity opt i"
  by (induction js arbitrary: opt) (simp_all add: wintype_absent_step)

lemma wintypes_absent:
  "config_lookup cfg ''shadow'' = None \<Longrightarrow> wintype_key_absent ext cfg i ''shadow'' \<Longrightarrow>
     wintype_shadow (opts (state_of (parse_config_lookups ext cfg st))) i = wintype_shadow (opts st) i"
  "config_lookup cfg ''fading'' = None \<Longrightarrow> wintype_key_absent ext cfg i ''fade'' \<Longrightarrow>
     wintype_fade (opts (state_of (parse_config_lookups ext cfg st))) i = wintype_fade (opts st) i"
  "wintype_key_absent ext cfg i ''focus'' \<Longrightarrow>
     wintype_focus (opts (state_of (parse_config_lookups ext cfg st))) i = wintype_focus (opts st) i"
  "wintype_key_absent ext cfg i ''opacity'' \<Longrightarrow>
     wintype_opacity (opts (state_of (parse_config_lookups ext cfg st))) i = wintype_opacity (opts st) i"
  by (rule lookups_state_frame,
      simp add: parse_config_scalars_def Let_def absent_lookups,
      (rule condlsts_frame; simp),
      (rule blur_glx_frame; simp),
      simp add: removed_rest,
      simp add: parse_config_wintypes_def wintype_absent_loop)+

lemma session_absent:
  assumes "config_lookup cfg ''shadow-exclude'' = None"
    and "config_lookup cfg ''fade-exclude'' = None"
    and "config_lookup cfg ''focus-exclude'' = None"
    and "config_lookup cfg ''invert-color-include'' = None"
    and "config_lookup cfg ''blur-background-exclude'' = None"
    and "config_lookup cfg ''opacity-rule'' = None"
    and "config_lookup cfg ''unredir-if-possible-exclude'' = None"
    and "config_lookup cfg ''blur-kern'' = None"
    and "config_lookup cfg ''glx-swap-method'' = None"
  shows "ps (state_of (parse_config_lookups ext cfg st)) = ps st"
proof (rule lookups_state_frame)
  show "ps (parse_config_scalars ext cfg s) = ps s" for s
    by (simp add: parse_config_scalars_def Let_def)
  show "ps (state_of (parse_config_condlsts ext cfg s)) = ps s" for s
    using assms by (simp add: parse_config_condlsts_def Let_def absent_lookups)
  show "ps (state_of (parse_config_blur_glx ext cfg s)) = ps s" for s
    using assms
    by (simp add: parse_config_blur_glx_def parse_config_blur_kern_def
        parse_config_glx_swap_method_def Let_def absent_lookups)
  show "ps (parse_config_removed cfg False s) = ps s" for s
    by (simp add: removed_rest)
  show "ps (parse_config_wintypes ext cfg s) = ps s" for s
    by (simp add: wintypes_rest)
qed

lemma lcfg_lookup_bool_cases:
  "config_lookup_bool cfg path = None \<Longrightarrow> lcfg_lookup_bool cfg path val = (False, val)"
  "config_lookup_bool cfg path = Some ival \<Longrightarrow> lcfg_lookup_bool cfg path val = (True, ival)"
  by (simp_all add: lcfg_lookup_bool_def)

text \<open>
  C8: when \<^verbatim>\<open>parse_config\<close> has read a configuration, every field whose key is
  absent from it has at the end the value it had before, whether the function returns or
  the process exits on the way: the fields of \<^verbatim>\<open>*o\<close> written through a reader's
  pointer or under \<^verbatim>\<open>if (lookup)\<close>, the three fields of \<^verbatim>\<open>*pcfgtmp\<close>, the
  condition lists, the entries of the arrays indexed by window type (for which both the
  global key and the key in the window type's group must be absent), and the session when
  none of the keys that are parsed into it is present. \<^verbatim>\<open>lcfg_lookup_bool\<close>
  leaves \<^verbatim>\<open>*value\<close> as it was when the lookup fails and stores the value read
  when it succeeds. (\<^verbatim>\<open>config_file\<close> has no key: it is set to the path that
  was opened.)
\<close>

theorem parse_config_absent_keys:
  fixes ext :: "('c, 'k, 's) externs"
  assumes "stream (open_config_file (config_file (opts st)) True env) = Some f"
    and "config_read f = Inr cfg"
  defines "st' \<equiv> state_of (parse_config ext env config_read st)"
  shows "(config_lookup cfg ''fade-delta'' = None \<longrightarrow> fade_delta (opts st') = fade_delta (opts st))
    \<and> (config_lookup cfg ''fade-in-step'' = None \<longrightarrow> fade_in_step (opts st') = fade_in_step (opts st))
    \<and> (config_lookup cfg ''fade-out-step'' = None \<longrightarrow> fade_out_step (opts st') = fade_out_step (opts st))
    \<and> (config_lookup cfg ''shadow-radius'' = None \<longrightarrow> shadow_radius (opts st') = shadow_radius (opts st))
    \<and> (config_lookup cfg ''shadow-opacity'' = None \<longrightarrow> shadow_opacity (opts st') = shadow_opacity (opts st))
    \<and> (config_lookup cfg ''shadow-offset-x'' = None \<longrightarrow> shadow_offset_x (opts st') = shadow_offset_x (opts st))
    \<and> (config_lookup cfg ''shadow-offset-y'' = None \<longrightarrow> shadow_offset_y (opts st') = shadow_offset_y (opts st))
    \<and> (config_lookup cfg ''inactive-opacity'' = None \<longrightarrow> inactive_opacity (opts st') = inactive_opacity (opts st))
    \<and> (config_lookup cfg ''active-opacity'' = None \<longrightarrow> active_opacity (opts st') = active_opacity (opts st))
    \<and> (config_lookup cfg ''frame-opacity'' = None \<longrightarrow> frame_opacity (opts st') = frame_opacity (opts st))
    \<and> (config_lookup cfg ''no-fading-openclose'' = None \<longrightarrow> no_fading_openclose (opts st') = no_fading_openclose (opts st))
    \<and> (config_lookup cfg ''no-fading-destroyed-argb'' = None \<longrightarrow> no_fading_destroyed_argb (opts st') = no_fading_destroyed_argb (opts st))
    \<and> (config_lookup cfg ''shadow-red'' = None \<longrightarrow> shadow_red (opts st') = shadow_red (opts st))
    \<and> (config_lookup cfg ''shadow-green'' = None \<longrightarrow> shadow_green (opts st') = shadow_green (opts st))
    \<and> (config_lookup cfg ''shadow-blue'' = None \<longrightarrow> shadow_blue (opts st') = shadow_blue (opts st))
    \<and> (config_lookup cfg ''shadow-exclude-reg'' = None \<longrightarrow> shadow_exclude_reg_str (opts st') = shadow_exclude_reg_str (opts st))
    \<and> (config_lookup cfg ''inactive-opacity-override'' = None \<longrightarrow> inactive_opacity_override (opts st') = inactive_opacity_override (opts st))
    \<and> (config_lookup cfg ''inactive-dim'' = None \<longrightarrow> inactive_dim (opts st') = inactive_dim (opts st))
    \<and> (config_lookup cfg ''mark-wmwin-focused'' = None \<longrightarrow> mark_wmwin_focused (opts st') = mark_wmwin_focused (opts st))
    \<and> (config_lookup cfg ''mark-ovredir-focused'' = None \<longrightarrow> mark_ovredir_focused (opts st') = mark_ovredir_focused (opts st))
    \<and> (config_lookup cfg ''shadow-ignore-shaped'' = None \<longrightarrow> shadow_ignore_shaped (opts st') = shadow_ignore_shaped (opts st))
    \<and> (config_lookup cfg ''detect-rounded-corners'' = None \<longrightarrow> detect_rounded_corners (opts st') = detect_rounded_corners (opts st))
    \<and> (config_lookup cfg ''xinerama-shadow-crop'' = None \<longrightarrow> xinerama_shadow_crop (opts st') = xinerama_shadow_crop (opts st))
    \<and> (config_lookup cfg ''detect-client-opacity'' = None \<longrightarrow> detect_client_opacity (opts st') = detect_client_opacity (opts st))
    \<and> (config_lookup cfg ''refresh-rate'' = None \<longrightarrow> refresh_rate (opts st') = refresh_rate (opts st))
    \<and> (config_lookup cfg ''vsync'' = None \<longrightarrow> vsync (opts st') = vsync (opts st))
    \<and> (config_lookup cfg ''backend'' = None \<longrightarrow> backend (opts st') = backend (opts st))
    \<and> (config_lookup cfg ''alpha-step'' = None \<longrightarrow> alpha_step (opts st') = alpha_step (opts st))
    \<and> (config_lookup cfg ''sw-opti'' = None \<longrightarrow> sw_opti (opts st') = sw_opti (opts st))
    \<and> (config_lookup cfg ''use-ewmh-active-win'' = None \<longrightarrow> use_ewmh_active_win (opts st') = use_ewmh_active_win (opts st))
    \<and> (config_lookup cfg ''unredir-if-possible'' = None \<longrightarrow> unredir_if_possible (opts st') = unredir_if_possible (opts st))
    \<and> (config_lookup cfg ''unredir-if-possible-delay'' = None \<longrightarrow> unredir_if_possible_delay (opts st') = unredir_if_possible_delay (opts st))
    \<and> (config_lookup cfg ''inactive-dim-fixed'' = None \<longrightarrow> inactive_dim_fixed (opts st') = inactive_dim_fixed (opts st))
    \<and> (config_lookup cfg ''detect-transient'' = None \<longrightarrow> detect_transient (opts st') = detect_transient (opts st))
    \<and> (config_lookup cfg ''detect-client-leader'' = None \<longrightarrow> detect_client_leader (opts st') = detect_client_leader (opts st))
    \<and> (config_lookup cfg ''shadow-exclude'' = None \<longrightarrow> shadow_blacklist (opts st') = shadow_blacklist (opts st))
    \<and> (config_lookup cfg ''fade-exclude'' = None \<longrightarrow> fade_blacklist (opts st') = fade_blacklist (opts st))
    \<and> (config_lookup cfg ''focus-exclude'' = None \<longrightarrow> focus_blacklist (opts st') = focus_blacklist (opts st))
    \<and> (config_lookup cfg ''invert-color-include'' = None \<longrightarrow> invert_color_list (opts st') = invert_color_list (opts st))
    \<and> (config_lookup cfg ''blur-background-exclude'' = None \<longrightarrow> blur_background_blacklist (opts st') = blur_background_blacklist (opts st))
    \<and> (config_lookup cfg ''unredir-if-possible-exclude'' = None \<longrightarrow> unredir_if_possible_blacklist (opts st') = unredir_if_possible_blacklist (opts st))
    \<and> (config_lookup cfg ''blur-background'' = None \<longrightarrow> blur_background (opts st') = blur_background (opts st))
    \<and> (config_lookup cfg ''blur-background-frame'' = None \<longrightarrow> blur_background_frame (opts st') = blur_background_frame (opts st))
    \<and> (config_lookup cfg ''blur-background-fixed'' = None \<longrightarrow> blur_background_fixed (opts st') = blur_background_fixed (opts st))
    \<and> (config_lookup cfg ''blur-kern'' = None \<longrightarrow> blur_kerns (opts st') = blur_kerns (opts st))
    \<and> (config_lookup cfg ''resize-damage'' = None \<longrightarrow> resize_damage (opts st') = resize_damage (opts st))
    \<and> (config_lookup cfg ''glx-no-stencil'' = None \<longrightarrow> glx_no_stencil (opts st') = glx_no_stencil (opts st))
    \<and> (config_lookup cfg ''glx-no-rebind-pixmap'' = None \<longrightarrow> glx_no_rebind_pixmap (opts st') = glx_no_rebind_pixmap (opts st))
    \<and> (config_lookup cfg ''glx-use-gpushader4'' = None \<longrightarrow> glx_use_gpushader4 (opts st') = glx_use_gpushader4 (opts st))
    \<and> (config_lookup cfg ''no-dock-shadow'' = None \<longrightarrow> no_dock_shadow (cfgtmp st') = no_dock_shadow (cfgtmp st))
    \<and> (config_lookup cfg ''no-dnd-shadow'' = None \<longrightarrow> no_dnd_shadow (cfgtmp st') = no_dnd_shadow (cfgtmp st))
    \<and> (config_lookup cfg ''menu-opacity'' = None \<longrightarrow> menu_opacity (cfgtmp st') = menu_opacity (cfgtmp st))
    \<and> (\<forall>i. config_lookup cfg ''shadow'' = None \<and> wintype_key_absent ext cfg i ''shadow'' \<longrightarrow>
          wintype_shadow (opts st') i = wintype_shadow (opts st) i)
    \<and> (\<forall>i. config_lookup cfg ''fading'' = None \<and> wintype_key_absent ext cfg i ''fade'' \<longrightarrow>
          wintype_fade (opts st') i = wintype_fade (opts st) i)
    \<and> (\<forall>i. wintype_key_absent ext cfg i ''focus'' \<longrightarrow>
          wintype_focus (opts st') i = wintype_focus (opts st) i)
    \<and> (\<forall>i. wintype_key_absent ext cfg i ''opacity'' \<longrightarrow>
          wintype_opacity (opts st') i = wintype_opacity (opts st) i)
    \<and> (config_lookup cfg ''shadow-exclude'' = None
        \<and> config_lookup cfg ''fade-exclude'' = None
        \<and> config_lookup cfg ''focus-exclude'' = None
        \<and> config_lookup cfg ''invert-color-include'' = None
        \<and> config_lookup cfg ''blur-background-exclude'' = None
        \<and> config_lookup cfg ''opacity-rule'' = None
        \<and> config_lookup cfg ''unredir-if-possible-exclude'' = None
        \<and> config_lookup cfg ''blur-kern'' = None
        \<and> config_lookup cfg ''glx-swap-method'' = None \<longrightarrow>
          ps st' = ps st)
    \<and> (\<forall>path val. config_lookup_bool cfg path = None \<longrightarrow> lcfg_lookup_bool cfg path val = (False, val))
    \<and> (\<forall>path val ival. config_lookup_bool cfg path = Some ival \<longrightarrow>
          lcfg_lookup_bool cfg path val = (True, ival))"
proof -
  note rd = parse_config_read [where config_read = config_read and ext = ext, OF assms(1,2)]
  show ?thesis
    unfolding st'_def rd
    by (intro conjI impI allI)
      (simp_all add: scalars_absent cfgtmp_absent condlsts_absent blur_glx_absent wintypes_absent
        session_absent lcfg_lookup_bool_cases)
qed


lemma open_sample:
  "open_config_file (config_file (opts sample_state)) True sample_env =
     \<lparr>stream = Some ''/etc/compton.conf'', ppath_out = Some ''/etc/compton.conf'',
      syscalls = [Fopen ''/etc/compton.conf'']\<rparr>"
  by (simp add: open_config_file_def sample_env_def sample_state_def sample_options_def)

theorem parse_config_absent_keys_witness:
  "opts (state_of (parse_config sample_externs sample_env (\<lambda>f. Inr (\<lambda>path. None)) sample_state)) =
     sample_options
   \<and> cfgtmp (state_of (parse_config sample_externs sample_env (\<lambda>f. Inr (\<lambda>path. None)) sample_state)) =
     cfgtmp sample_state
   \<and> ps (state_of (parse_config sample_externs sample_env (\<lambda>f. Inr (\<lambda>path. None)) sample_state)) =
     ps sample_state"
proof -
  let ?rd = "\<lambda>f::string. Inr (\<lambda>path. None) :: (nat \<times> string) + config_t"
  let ?st' = "state_of (parse_config sample_externs sample_env ?rd sample_state)"
  have o: "stream (open_config_file (config_file (opts sample_state)) True sample_env) =
      Some ''/etc/compton.conf''"
    by (simp add: open_sample)
  have r: "?rd ''/etc/compton.conf'' = Inr (\<lambda>path. None)"
    by simp
  have a: "config_lookup (\<lambda>path. None) k = None" for k
    by (simp add: config_lookup_def)
  have w: "wintype_key_absent sample_externs (\<lambda>path. None) i name" for i name
    by (simp add: wintype_key_absent_def a)
  have "config_file (opts ?st') = Some ''/etc/compton.conf''"
    by (simp add: parse_config_read [where config_read = ?rd, OF o r] open_sample
        lookups_frame [where f = config_file] parse_config_scalars_def Let_def)
  then have cf: "config_file (opts ?st') = config_file (opts sample_state)"
    by (simp add: sample_state_def sample_options_def)
  note t = parse_config_absent_keys [where ext = sample_externs and config_read = ?rd, OF o r,
      simplified a w simp_thms]
  have t': "opts ?st' = opts sample_state"
    by (intro options_t.equality) (simp_all add: t cf fun_eq_iff)
  have t'': "cfgtmp ?st' = cfgtmp sample_state"
    by (intro options_tmp.equality) (simp_all add: t)
  from t t' t'' show ?thesis by (simp add: sample_state_def)
qed

subsection \<open>parse_config: the opacity options\<close>

lemma normalize_d_range: "0 \<le> normalize_d d \<and> normalize_d d \<le> 1"
  by (simp add: normalize_d_def)

lemma normalize_d_clamp: "normalize_d d = max 0 (min 1 d)"
  by (simp add: normalize_d_def)

lemma round_half_even_bounds: "\<lfloor>y\<rfloor> \<le> round_half_even y \<and> round_half_even y \<le> \<lceil>y\<rceil>"
proof -
  have "\<lfloor>y\<rfloor> + 1 \<le> \<lceil>y\<rceil>" if "0 < y - of_int \<lfloor>y\<rfloor>"
    using that by linarith
  moreover have "\<lfloor>y\<rfloor> \<le> \<lceil>y\<rceil>" by linarith
  ultimately show ?thesis
    by (auto simp: round_half_even_def)
qed

lemma round_half_even_int [simp]: "round_half_even (of_int n) = n"
  by (simp add: round_half_even_def)

lemma round_half_even_le:
  assumes "y \<le> of_int n"
  shows "round_half_even y \<le> n"
proof -
  from assms have "\<lceil>y\<rceil> \<le> n" by (simp add: ceiling_le_iff)
  with round_half_even_bounds [of y] show ?thesis by linarith
qed

lemma round_half_even_nonneg:
  assumes "0 \<le> y"
  shows "0 \<le> round_half_even y"
proof -
  from assms have "0 \<le> \<lfloor>y\<rfloor>" by simp
  with round_half_even_bounds [of y] show ?thesis by linarith
qed

text \<open>
  A value up to \<^verbatim>\<open>OPAQUE\<close> has a unit in the last place of at most \<^verbatim>\<open>2^-21\<close>,
  so that \<^verbatim>\<open>OPAQUE\<close> is a multiple of it.
\<close>

lemma ulp_exponent_le:
  assumes "0 < x" and "x \<le> real OPAQUE"
  shows "ulp_exponent x \<le> - 21"
proof -
  from assms have "x < 2 powr 32" by (simp add: OPAQUE_def)
  with assms(1) have "log 2 x < 32" by (simp add: log_less_iff)
  then have "\<lfloor>log 2 x\<rfloor> \<le> 31" by (simp add: floor_le_iff)
  with assms(1) show ?thesis by (simp add: ulp_exponent_def)
qed

lemma powr_neg_int_multiple:
  assumes "e \<le> 0"
  shows "(z::real) / 2 powr of_int e = z * 2 ^ nat (- e)"
proof -
  have "2 powr of_int e = 1 / (2::real) ^ nat (- e)"
    using assms by (simp add: powr_real_of_int inverse_eq_divide)
  then show ?thesis by (simp add: field_simps)
qed

lemma binary64_round_bounds:
  assumes "0 \<le> x" and "x \<le> real OPAQUE"
  shows "0 \<le> binary64_round x \<and> binary64_round x \<le> real OPAQUE"
proof (cases "x = 0")
  case True
  then show ?thesis by (simp add: binary64_round_def)
next
  case False
  with assms have pos: "0 < x" by simp
  let ?e = "ulp_exponent x"
  let ?u = "2 powr of_int ?e :: real"
  have e: "?e \<le> 0" using ulp_exponent_le [OF pos assms(2)] by simp
  have u: "0 < ?u" by simp
  have "0 \<le> x / ?u" using assms(1) by simp
  then have lo: "0 \<le> round_half_even (x / ?u)" by (rule round_half_even_nonneg)
  have "x / ?u \<le> real OPAQUE / ?u" using assms(2) u by (simp add: divide_right_mono)
  also have "real OPAQUE / ?u = of_int (int OPAQUE * 2 ^ nat (- ?e))"
    using powr_neg_int_multiple [OF e, of "real OPAQUE"] by simp
  finally have "round_half_even (x / ?u) \<le> int OPAQUE * 2 ^ nat (- ?e)"
    by (rule round_half_even_le)
  then have "real_of_int (round_half_even (x / ?u)) \<le> real_of_int (int OPAQUE * 2 ^ nat (- ?e))"
    by (simp only: of_int_le_iff)
  also have "\<dots> = real OPAQUE / ?u"
    using powr_neg_int_multiple [OF e, of "real OPAQUE"] by simp
  finally have "?u * real_of_int (round_half_even (x / ?u)) \<le> real OPAQUE"
    using u by (simp add: field_simps)
  with lo u False show ?thesis by (simp add: binary64_round_def)
qed

lemma binary64_round_OPAQUE: "binary64_round (real OPAQUE) = real OPAQUE"
proof -
  let ?e = "ulp_exponent (real OPAQUE)"
  let ?u = "2 powr of_int ?e :: real"
  have pos: "0 < real OPAQUE" by (simp add: OPAQUE_def)
  have e: "?e \<le> 0" using ulp_exponent_le [OF pos] by simp
  have "real OPAQUE / ?u = of_int (int OPAQUE * 2 ^ nat (- ?e))"
    using powr_neg_int_multiple [OF e, of "real OPAQUE"] by simp
  then have "real_of_int (round_half_even (real OPAQUE / ?u)) = real OPAQUE / ?u"
    by (simp only: round_half_even_int)
  with pos show ?thesis by (simp add: binary64_round_def)
qed

lemma double_mul_normalize_d:
  "0 \<le> double_mul (normalize_d d) (real OPAQUE)"
  "double_mul (normalize_d d) (real OPAQUE) \<le> real OPAQUE"
  "1 \<le> d \<Longrightarrow> double_mul (normalize_d d) (real OPAQUE) = real OPAQUE"
  "d \<le> 0 \<Longrightarrow> double_mul (normalize_d d) (real OPAQUE) = 0"
proof -
  have "normalize_d d * real OPAQUE \<le> 1 * real OPAQUE"
    by (intro mult_right_mono) (simp_all add: normalize_d_def)
  then have r: "0 \<le> normalize_d d * real OPAQUE" "normalize_d d * real OPAQUE \<le> real OPAQUE"
    by (simp_all add: normalize_d_def)
  from binary64_round_bounds [OF r]
  show "0 \<le> double_mul (normalize_d d) (real OPAQUE)"
    and "double_mul (normalize_d d) (real OPAQUE) \<le> real OPAQUE"
    by (simp_all add: double_mul_def)
  show "double_mul (normalize_d d) (real OPAQUE) = real OPAQUE" if "1 \<le> d"
    using that by (simp add: double_mul_def normalize_d_def binary64_round_OPAQUE)
  show "double_mul (normalize_d d) (real OPAQUE) = 0" if "d \<le> 0"
    using that by (simp add: double_mul_def normalize_d_def binary64_round_def)
qed

lemma unat_double_to_opacity:
  "unat (double_to_opacity (double_mul (normalize_d d) (real OPAQUE))) =
     nat \<lfloor>double_mul (normalize_d d) (real OPAQUE)\<rfloor>"
proof -
  let ?x = "double_mul (normalize_d d) (real OPAQUE)"
  have lo: "0 \<le> ?x" by (rule double_mul_normalize_d)
  have "?x \<le> real OPAQUE" by (rule double_mul_normalize_d)
  then have hi: "?x \<le> 4294967295" by (simp add: OPAQUE_def)
  from lo have f0: "0 \<le> \<lfloor>?x\<rfloor>" by simp
  from hi have "\<lfloor>?x\<rfloor> \<le> 4294967295" by (simp add: floor_le_iff)
  then have f1: "\<lfloor>?x\<rfloor> < 2 ^ 32" by simp
  have "uint (word_of_int \<lfloor>?x\<rfloor> :: 32 word) = \<lfloor>?x\<rfloor>"
    using f0 f1 by (simp add: uint_word_of_int take_bit_int_eq_self)
  then show ?thesis
    by (simp add: double_to_opacity_def unat_eq_nat_uint)
qed

lemma round_half_even_err: "\<bar>of_int (round_half_even y) - y\<bar> \<le> 1 / 2"
  unfolding round_half_even_def by (auto simp: abs_if) linarith+

lemma binary64_round_err:
  assumes "0 \<le> x" and "x \<le> real OPAQUE"
  shows "\<bar>binary64_round x - x\<bar> \<le> 1 / 2 ^ 22"
proof (cases "x = 0")
  case True
  then show ?thesis by (simp add: binary64_round_def)
next
  case False
  with assms have pos: "0 < x" by simp
  define u :: real where "u = 2 powr of_int (ulp_exponent x)"
  have u0: "0 < u" by (simp add: u_def)
  from ulp_exponent_le [OF pos assms(2)] have "u \<le> 2 powr of_int (- 21)"
    unfolding u_def by (intro powr_mono) simp_all
  then have u1: "u \<le> 1 / 2 ^ 21"
    by (simp add: powr_minus inverse_eq_divide)
  have "binary64_round x - x = u * (of_int (round_half_even (x / u)) - x / u)"
    using False u0 by (simp add: binary64_round_def u_def algebra_simps)
  then have "\<bar>binary64_round x - x\<bar> = u * \<bar>of_int (round_half_even (x / u)) - x / u\<bar>"
    using u0 by (simp add: abs_mult)
  also have "\<dots> \<le> u * (1 / 2)"
    using u0 round_half_even_err [of "x / u"] by (intro mult_left_mono) simp_all
  also have "\<dots> \<le> 1 / 2 ^ 21 * (1 / 2)"
    using u1 by (intro mult_right_mono) simp_all
  finally show ?thesis by simp
qed

lemma double_mul_normalize_d_err:
  "\<bar>double_mul (normalize_d d) (real OPAQUE) - normalize_d d * real OPAQUE\<bar> \<le> 1 / 2 ^ 22"
proof -
  have "normalize_d d * real OPAQUE \<le> 1 * real OPAQUE"
    by (intro mult_right_mono) (simp_all add: normalize_d_def)
  then have "0 \<le> normalize_d d * real OPAQUE" "normalize_d d * real OPAQUE \<le> real OPAQUE"
    by (simp_all add: normalize_d_def)
  then show ?thesis
    unfolding double_mul_def by (rule binary64_round_err)
qed

text \<open>
  A value from \<^verbatim>\<open>2^n\<close> up to \<^verbatim>\<open>2^(n + 1)\<close> is rounded to a multiple of
  \<^verbatim>\<open>2^(n - 52)\<close>.
\<close>

lemma binary64_round_binade:
  assumes "2 ^ n \<le> x" and "x < 2 ^ Suc n" and "n \<le> 52"
  shows "binary64_round x = of_int (round_half_even (x * 2 ^ (52 - n))) / 2 ^ (52 - n)"
proof -
  have "(0::real) < 2 ^ n" by simp
  with assms(1) have pos: "0 < x" by linarith
  have "2 powr real_of_int (int n) = (2::real) ^ n"
    and "2 powr real_of_int (int n + 1) = (2::real) ^ Suc n"
    by (simp_all add: powr_realpow powr_add)
  with assms have "2 powr real_of_int (int n) \<le> x \<and> x < 2 powr real_of_int (int n + 1)"
    by simp
  with pos have "\<lfloor>log 2 x\<rfloor> = int n"
    using floor_log_eq_powr_iff [of x 2 "int n"] by simp
  with pos have e: "ulp_exponent x = - int (52 - n)"
    using assms(3) by (simp add: ulp_exponent_def)
  have u: "2 powr real_of_int (- int (52 - n)) = 1 / (2::real) ^ (52 - n)"
    by (simp add: powr_minus powr_realpow inverse_eq_divide)
  from pos show ?thesis
    unfolding binary64_round_def e u by simp
qed

lemma double_mul_six_tenths:
  "double_mul (normalize_d (5404319552844595 / 9007199254740992)) (real OPAQUE) = 2576980377"
proof -
  let ?x = "5404319552844595 / 9007199254740992 * 4294967295 :: real"
  have "binary64_round ?x = of_int (round_half_even (?x * 2 ^ (52 - 31))) / 2 ^ (52 - 31)"
    by (rule binary64_round_binade) simp_all
  moreover have "round_half_even (?x * 2 ^ (52 - 31)) = 5404319551586304"
    by (simp add: round_half_even_def)
  ultimately show ?thesis
    by (simp add: double_mul_def normalize_d_def OPAQUE_def)
qed

lemma double_mul_half:
  "double_mul (normalize_d (1 / 2)) (real OPAQUE) = 4294967295 / 2"
proof -
  let ?x = "1 / 2 * 4294967295 :: real"
  have "binary64_round ?x = of_int (round_half_even (?x * 2 ^ (52 - 30))) / 2 ^ (52 - 30)"
    by (rule binary64_round_binade) simp_all
  moreover have "round_half_even (?x * 2 ^ (52 - 30)) = 4294967295 * 2 ^ 21"
    by (simp add: round_half_even_def)
  ultimately show ?thesis
    by (simp add: double_mul_def normalize_d_def OPAQUE_def)
qed

lemma wintype_opacity_other_step:
  "j \<noteq> i \<Longrightarrow> wintype_opacity (wintype_settings ext cfg j opt) i = wintype_opacity opt i"
  by (simp add: wintype_settings_def split: option.splits)

lemma wintype_opacity_other:
  "i \<notin> set js \<Longrightarrow> wintype_opacity (fold (wintype_settings ext cfg) js opt) i = wintype_opacity opt i"
  by (induction js arbitrary: opt) (simp_all add: wintype_opacity_other_step)

lemma upt_split_at: "i < n \<Longrightarrow> [0..<n] = [0..<i] @ i # [Suc i..<n]"
  using upt_add_eq_append [of 0 i "n - i"] upt_conv_Cons [of i n] by simp

lemma wintype_opacity_loop:
  assumes "i < n"
    and "config_lookup cfg (''wintypes.'' @ WINTYPES ext i) = Some g"
    and "config_setting_lookup_float g ''opacity'' = Some d"
  shows "wintype_opacity (fold (wintype_settings ext cfg) [0..<n] opt) i = normalize_d d"
proof -
  have "wintype_opacity (wintype_settings ext cfg i opt') i = normalize_d d" for opt'
    using assms(2,3) by (simp add: wintype_settings_def)
  with assms(1) show ?thesis
    by (simp add: upt_split_at [OF assms(1)] wintype_opacity_other)
qed

text \<open>When the lookups return, the loop over the window types was the last thing done.\<close>

lemma lookups_returned:
  assumes "exit_code (parse_config_lookups ext cfg st) = None"
  shows "\<exists>s. parse_config_lookups ext cfg st = Returned (parse_config_wintypes ext cfg s)"
proof (cases "parse_config_condlsts ext cfg (parse_config_scalars ext cfg st)")
  case (Exited c s)
  with assms show ?thesis by (simp add: parse_config_lookups_def)
next
  case r1: (Returned s1)
  show ?thesis
  proof (cases "parse_config_blur_glx ext cfg s1")
    case (Exited c s)
    with assms r1 show ?thesis by (simp add: parse_config_lookups_def)
  next
    case (Returned s2)
    with r1 have "parse_config_lookups ext cfg st =
        Returned (parse_config_wintypes ext cfg (parse_config_removed cfg False s2))"
      by (simp add: parse_config_lookups_def)
    then show ?thesis ..
  qed
qed

text \<open>
  C2, as the code has it: when \<^verbatim>\<open>parse_config\<close> has read a configuration,
  \<^verbatim>\<open>fade-in-step\<close>, \<^verbatim>\<open>fade-out-step\<close>, \<^verbatim>\<open>inactive-opacity\<close> and
  \<^verbatim>\<open>active-opacity\<close> are stored as the \<^verbatim>\<open>opacity_t\<close> that the double
  \<^verbatim>\<open>normalize_d(dval) * OPAQUE\<close> converts to: the value clamped to the range from
  0 to 1, times \<^verbatim>\<open>OPAQUE\<close>, rounded to the nearest double, the fraction dropped.
  That double lies between 0 and \<^verbatim>\<open>OPAQUE\<close>, within \<^verbatim>\<open>2^-22\<close> of the exact
  product; it is \<^verbatim>\<open>OPAQUE\<close> for a value of 1 or more and 0 for a value of 0 or
  less. The opacity of a window type is stored clamped (when the function returns, the
  loop over the window types being its last step); \<^verbatim>\<open>shadow-opacity\<close> and
  \<^verbatim>\<open>frame-opacity\<close> are stored as they are read, not clamped. No value is
  rejected.
\<close>

theorem parse_config_opacity_values:
  fixes ext :: "('c, 'k, 's) externs"
  assumes "stream (open_config_file (config_file (opts st)) True env) = Some f"
    and "config_read f = Inr cfg"
  defines "st' \<equiv> state_of (parse_config ext env config_read st)"
  shows "(\<forall>d. config_lookup_float cfg ''fade-in-step'' = Some d \<longrightarrow>
            unat (fade_in_step (opts st')) = nat \<lfloor>double_mul (normalize_d d) (real OPAQUE)\<rfloor>)
    \<and> (\<forall>d. config_lookup_float cfg ''fade-out-step'' = Some d \<longrightarrow>
            unat (fade_out_step (opts st')) = nat \<lfloor>double_mul (normalize_d d) (real OPAQUE)\<rfloor>)
    \<and> (\<forall>d. config_lookup_float cfg ''inactive-opacity'' = Some d \<longrightarrow>
            unat (inactive_opacity (opts st')) = nat \<lfloor>double_mul (normalize_d d) (real OPAQUE)\<rfloor>)
    \<and> (\<forall>d. config_lookup_float cfg ''active-opacity'' = Some d \<longrightarrow>
            unat (active_opacity (opts st')) = nat \<lfloor>double_mul (normalize_d d) (real OPAQUE)\<rfloor>)
    \<and> (\<forall>d. config_lookup_float cfg ''shadow-opacity'' = Some d \<longrightarrow> shadow_opacity (opts st') = d)
    \<and> (\<forall>d. config_lookup_float cfg ''frame-opacity'' = Some d \<longrightarrow> frame_opacity (opts st') = d)
    \<and> (\<forall>i g d. exit_code (parse_config ext env config_read st) = None \<and> i < NUM_WINTYPES
            \<and> config_lookup cfg (''wintypes.'' @ WINTYPES ext i) = Some g
            \<and> config_setting_lookup_float g ''opacity'' = Some d \<longrightarrow>
            wintype_opacity (opts st') i = normalize_d d)
    \<and> (\<forall>d. normalize_d d = max 0 (min 1 d))
    \<and> (\<forall>d. 0 \<le> double_mul (normalize_d d) (real OPAQUE)
            \<and> double_mul (normalize_d d) (real OPAQUE) \<le> real OPAQUE
            \<and> \<bar>double_mul (normalize_d d) (real OPAQUE) - normalize_d d * real OPAQUE\<bar> \<le> 1 / 2 ^ 22)
    \<and> (\<forall>d. 1 \<le> d \<longrightarrow> double_mul (normalize_d d) (real OPAQUE) = real OPAQUE)
    \<and> (\<forall>d. d \<le> 0 \<longrightarrow> double_mul (normalize_d d) (real OPAQUE) = 0)"
proof -
  note rd = parse_config_read [where config_read = config_read and ext = ext, OF assms(1,2)]
  have w: "wintype_opacity (opts st') i = normalize_d d"
    if "exit_code (parse_config ext env config_read st) = None" "i < NUM_WINTYPES"
      "config_lookup cfg (''wintypes.'' @ WINTYPES ext i) = Some g"
      "config_setting_lookup_float g ''opacity'' = Some d" for i g d
  proof -
    from that(1) obtain s where "parse_config ext env config_read st =
        Returned (parse_config_wintypes ext cfg s)"
      unfolding rd by (blast dest: lookups_returned)
    with that(2-4) show ?thesis
      by (simp add: st'_def parse_config_wintypes_def wintype_opacity_loop)
  qed
  have s: "\<And>d. config_lookup_float cfg ''fade-in-step'' = Some d \<Longrightarrow>
            unat (fade_in_step (opts st')) = nat \<lfloor>double_mul (normalize_d d) (real OPAQUE)\<rfloor>"
    "\<And>d. config_lookup_float cfg ''fade-out-step'' = Some d \<Longrightarrow>
            unat (fade_out_step (opts st')) = nat \<lfloor>double_mul (normalize_d d) (real OPAQUE)\<rfloor>"
    "\<And>d. config_lookup_float cfg ''inactive-opacity'' = Some d \<Longrightarrow>
            unat (inactive_opacity (opts st')) = nat \<lfloor>double_mul (normalize_d d) (real OPAQUE)\<rfloor>"
    "\<And>d. config_lookup_float cfg ''active-opacity'' = Some d \<Longrightarrow>
            unat (active_opacity (opts st')) = nat \<lfloor>double_mul (normalize_d d) (real OPAQUE)\<rfloor>"
    "\<And>d. config_lookup_float cfg ''shadow-opacity'' = Some d \<Longrightarrow> shadow_opacity (opts st') = d"
    "\<And>d. config_lookup_float cfg ''frame-opacity'' = Some d \<Longrightarrow> frame_opacity (opts st') = d"
    by (simp_all add: st'_def rd lookups_scalar_fields parse_config_scalars_def Let_def
        unat_double_to_opacity lookup_into_def)
  have m: "\<And>d. 0 \<le> double_mul (normalize_d d) (real OPAQUE)
            \<and> double_mul (normalize_d d) (real OPAQUE) \<le> real OPAQUE
            \<and> \<bar>double_mul (normalize_d d) (real OPAQUE) - normalize_d d * real OPAQUE\<bar> \<le> 1 / 2 ^ 22"
    "\<And>d. 1 \<le> d \<Longrightarrow> double_mul (normalize_d d) (real OPAQUE) = real OPAQUE"
    "\<And>d. d \<le> 0 \<Longrightarrow> double_mul (normalize_d d) (real OPAQUE) = 0"
    by (simp_all only: double_mul_normalize_d double_mul_normalize_d_err simp_thms)
  from s w normalize_d_clamp m show ?thesis by blast
qed

lemma condlsts_returns:
  "config_lookup cfg ''opacity-rule'' = None \<Longrightarrow>
     exit_code (parse_config_condlsts ext cfg st) = None"
  by (simp add: parse_config_condlsts_def Let_def absent_lookups split: prod.splits)

lemma blur_glx_returns:
  "config_lookup cfg ''blur-kern'' = None \<Longrightarrow> config_lookup cfg ''glx-swap-method'' = None \<Longrightarrow>
     exit_code (parse_config_blur_glx ext cfg st) = None"
  by (simp add: parse_config_blur_glx_def parse_config_blur_kern_def
      parse_config_glx_swap_method_def Let_def absent_lookups)

lemma lookups_returns:
  assumes "config_lookup cfg ''opacity-rule'' = None"
    and "config_lookup cfg ''blur-kern'' = None"
    and "config_lookup cfg ''glx-swap-method'' = None"
  shows "exit_code (parse_config_lookups ext cfg st) = None"
proof (cases "parse_config_condlsts ext cfg (parse_config_scalars ext cfg st)")
  case (Exited c s)
  with condlsts_returns [OF assms(1), of ext "parse_config_scalars ext cfg st"]
  show ?thesis by simp
next
  case r1: (Returned s1)
  show ?thesis
  proof (cases "parse_config_blur_glx ext cfg s1")
    case (Exited c s)
    with blur_glx_returns [OF assms(2,3), of ext s1] show ?thesis by simp
  next
    case (Returned s2)
    with r1 show ?thesis by (simp add: parse_config_lookups_def)
  qed
qed

lemma opacity_cfg_lookups:
  "config_lookup_float opacity_cfg ''fade-in-step'' = Some 2"
  "config_lookup_float opacity_cfg ''fade-out-step'' = Some (- 1)"
  "config_lookup_float opacity_cfg ''inactive-opacity'' = Some (5404319552844595 / 9007199254740992)"
  "config_lookup_float opacity_cfg ''active-opacity'' = Some (1 / 2)"
  "config_lookup_float opacity_cfg ''shadow-opacity'' = Some 2"
  "config_lookup_float opacity_cfg ''frame-opacity'' = Some (- 3)"
  "config_lookup opacity_cfg (''wintypes.'' @ WINTYPES sample_externs 2) =
     Some (CGroup [(''opacity'', CFloat 5)])"
  "config_setting_lookup_float (CGroup [(''opacity'', CFloat 5)]) ''opacity'' = Some 5"
  "config_lookup opacity_cfg ''opacity-rule'' = None"
  "config_lookup opacity_cfg ''blur-kern'' = None"
  "config_lookup opacity_cfg ''glx-swap-method'' = None"
  by (simp_all add: opacity_cfg_def config_lookup_float_def config_lookup_def setting_float_def
      sample_externs_def config_setting_lookup_float_def config_setting_get_member_def)

theorem parse_config_opacity_values_witness:
  "unat (fade_in_step (opts (state_of
      (parse_config sample_externs sample_env (\<lambda>f. Inr opacity_cfg) sample_state)))) = 4294967295
   \<and> unat (fade_out_step (opts (state_of
      (parse_config sample_externs sample_env (\<lambda>f. Inr opacity_cfg) sample_state)))) = 0
   \<and> unat (inactive_opacity (opts (state_of
      (parse_config sample_externs sample_env (\<lambda>f. Inr opacity_cfg) sample_state)))) = 2576980377
   \<and> unat (active_opacity (opts (state_of
      (parse_config sample_externs sample_env (\<lambda>f. Inr opacity_cfg) sample_state)))) = 2147483647
   \<and> shadow_opacity (opts (state_of
      (parse_config sample_externs sample_env (\<lambda>f. Inr opacity_cfg) sample_state))) = 2
   \<and> frame_opacity (opts (state_of
      (parse_config sample_externs sample_env (\<lambda>f. Inr opacity_cfg) sample_state))) = - 3
   \<and> wintype_opacity (opts (state_of
      (parse_config sample_externs sample_env (\<lambda>f. Inr opacity_cfg) sample_state))) 2 = 1
   \<and> double_mul (normalize_d 2) (real OPAQUE) = 4294967295
   \<and> double_mul (normalize_d (- 1)) (real OPAQUE) = 0
   \<and> \<lfloor>normalize_d (5404319552844595 / 9007199254740992) * real OPAQUE\<rfloor> = 2576980376"
proof -
  let ?rd = "\<lambda>f::string. Inr opacity_cfg :: (nat \<times> string) + config_t"
  have o: "stream (open_config_file (config_file (opts sample_state)) True sample_env) =
      Some ''/etc/compton.conf''"
    by (simp add: open_sample)
  have r: "?rd ''/etc/compton.conf'' = Inr opacity_cfg"
    by simp
  have e: "exit_code (parse_config sample_externs sample_env ?rd sample_state) = None"
    by (simp add: parse_config_read [where config_read = ?rd, OF o r] lookups_returns
        opacity_cfg_lookups)
  have x: "\<lfloor>normalize_d (5404319552844595 / 9007199254740992) * real OPAQUE\<rfloor> = 2576980376"
    by (simp add: normalize_d_def OPAQUE_def)
  have n: "nat \<lfloor>double_mul (normalize_d (5404319552844595 / 9007199254740992)) (real OPAQUE)\<rfloor> =
      2576980377"
    "nat \<lfloor>double_mul (normalize_d (1 / 2)) (real OPAQUE)\<rfloor> = 2147483647"
    by (simp_all add: double_mul_six_tenths double_mul_half)
  have n5: "normalize_d 5 = 1"
    by (simp add: normalize_d_def)
  have i: "2 < NUM_WINTYPES" by (simp add: NUM_WINTYPES_def)
  note t = parse_config_opacity_values [where ext = sample_externs and config_read = ?rd, OF o r]
  let ?o = "opts (state_of (parse_config sample_externs sample_env ?rd sample_state))"
  from t have "\<forall>d. 1 \<le> d \<longrightarrow> double_mul (normalize_d d) (real OPAQUE) = real OPAQUE"
    by blast
  then have hi: "double_mul (normalize_d 2) (real OPAQUE) = real OPAQUE"
    by simp
  from t have "\<forall>d. d \<le> 0 \<longrightarrow> double_mul (normalize_d d) (real OPAQUE) = 0"
    by blast
  then have lo: "double_mul (normalize_d (- 1)) (real OPAQUE) = 0"
    by simp
  from t opacity_cfg_lookups(1)
  have "unat (fade_in_step ?o) = nat \<lfloor>double_mul (normalize_d 2) (real OPAQUE)\<rfloor>"
    by blast
  then have "unat (fade_in_step ?o) = 4294967295"
    unfolding hi by (simp add: OPAQUE_def)
  moreover from t opacity_cfg_lookups(2)
  have "unat (fade_out_step ?o) = nat \<lfloor>double_mul (normalize_d (- 1)) (real OPAQUE)\<rfloor>"
    by blast
  then have "unat (fade_out_step ?o) = 0"
    unfolding lo by simp
  moreover from t opacity_cfg_lookups(3)
  have "unat (inactive_opacity ?o) =
      nat \<lfloor>double_mul (normalize_d (5404319552844595 / 9007199254740992)) (real OPAQUE)\<rfloor>"
    by blast
  moreover from t opacity_cfg_lookups(4)
  have "unat (active_opacity ?o) = nat \<lfloor>double_mul (normalize_d (1 / 2)) (real OPAQUE)\<rfloor>"
    by blast
  moreover from t opacity_cfg_lookups(5) have "shadow_opacity ?o = 2"
    by blast
  moreover from t opacity_cfg_lookups(6) have "frame_opacity ?o = - 3"
    by blast
  moreover from t e i opacity_cfg_lookups(7,8) have "wintype_opacity ?o 2 = normalize_d 5"
    by blast
  moreover have "double_mul (normalize_d 2) (real OPAQUE) = 4294967295"
    unfolding hi by (simp add: OPAQUE_def)
  ultimately show ?thesis
    by (simp only: n n5 lo x simp_thms)
qed

text \<open>
  C2 as stated fails for \<^verbatim>\<open>shadow-opacity\<close> (and \<^verbatim>\<open>frame-opacity\<close>):
  \<^verbatim>\<open>config_lookup_float(&cfg, "shadow-opacity", &o->shadow_opacity)\<close> stores the
  value as it is read, so 2.0 is stored as 2.0 and not as its clamped value 1.0.
\<close>

theorem shadow_opacity_not_clamped:
  "shadow_opacity (opts (state_of
      (parse_config sample_externs sample_env (\<lambda>f. Inr [''shadow-opacity'' \<mapsto> CFloat 2]) sample_state))) = 2
   \<and> normalize_d 2 = 1"
proof -
  let ?cfg = "[''shadow-opacity'' \<mapsto> CFloat 2] :: config_t"
  let ?rd = "\<lambda>f::string. Inr ?cfg :: (nat \<times> string) + config_t"
  have o: "stream (open_config_file (config_file (opts sample_state)) True sample_env) =
      Some ''/etc/compton.conf''"
    by (simp add: open_sample)
  have r: "?rd ''/etc/compton.conf'' = Inr ?cfg"
    by simp
  have l: "config_lookup_float ?cfg ''shadow-opacity'' = Some 2"
    by (simp add: config_lookup_float_def config_lookup_def setting_float_def)
  show ?thesis
    by (simp add: parse_config_read [where config_read = ?rd, OF o r] lookups_scalar_fields
        parse_config_scalars_def Let_def l lookup_into_def normalize_d_def)
qed

subsection \<open>parse_config: patterns that do not parse\<close>

lemma opct_loop_code:
  "exit_code (opct_loop ext pats s) = None \<or> exit_code (opct_loop ext pats s) = Some 1"
  by (induction pats arbitrary: s) (simp_all split: prod.splits)

lemma opct_loop_exit:
  "\<exists>p\<in>set pats. \<forall>s. \<not> fst (parse_rule_opacity ext s p) \<Longrightarrow>
     exit_code (opct_loop ext pats s) = Some 1"
proof (induction pats arbitrary: s)
  case Nil
  then show ?case by simp
next
  case (Cons p pats)
  obtain ok s' where r: "parse_rule_opacity ext s p = (ok, s')"
    by (cases "parse_rule_opacity ext s p")
  show ?case
  proof (cases ok)
    case False
    with r show ?thesis by simp
  next
    case True
    with r have "fst (parse_rule_opacity ext s p)" by simp
    with Cons.prems have "\<exists>p\<in>set pats. \<forall>s. \<not> fst (parse_rule_opacity ext s p)"
      by auto
    from Cons.IH [OF this] True r show ?thesis by simp
  qed
qed

lemma condlst_opct_code:
  "exit_code (parse_cfg_condlst_opct ext cfg name s) = None
    \<or> exit_code (parse_cfg_condlst_opct ext cfg name s) = Some 1"
  using opct_loop_code [of ext _ s]
  by (simp add: parse_cfg_condlst_opct_def split: option.splits setting.splits)

lemma condlst_opct_exit:
  assumes "config_lookup cfg name = Some (CArray elems)"
    and "\<exists>e\<in>set elems. \<forall>s. \<not> fst (parse_rule_opacity ext s (setting_string (Some e)))"
  shows "exit_code (parse_cfg_condlst_opct ext cfg name s) = Some 1"
proof -
  from assms(2) have "\<exists>p\<in>set (string_elems_downwards elems). \<forall>s. \<not> fst (parse_rule_opacity ext s p)"
    by (auto simp: string_elems_downwards_def)
  from opct_loop_exit [OF this] assms(1) show ?thesis
    by (simp add: parse_cfg_condlst_opct_def)
qed

lemma opct_exited_one:
  "parse_cfg_condlst_opct ext cfg name s = Exited c s' \<Longrightarrow> c = 1"
  using condlst_opct_code [of ext cfg name s] by simp

lemma opct_not_returned:
  assumes "config_lookup cfg name = Some (CArray elems)"
    and "\<exists>e\<in>set elems. \<forall>s. \<not> fst (parse_rule_opacity ext s (setting_string (Some e)))"
  shows "parse_cfg_condlst_opct ext cfg name s \<noteq> Returned s'"
  using condlst_opct_exit [OF assms, of s] by auto

lemma condlsts_code:
  "exit_code (parse_config_condlsts ext cfg st) = None
    \<or> exit_code (parse_config_condlsts ext cfg st) = Some 1"
  by (simp add: parse_config_condlsts_def Let_def split: prod.splits outcome.splits)
    (blast dest: opct_exited_one)

lemma condlsts_exit:
  assumes "config_lookup cfg ''opacity-rule'' = Some (CArray elems)"
    and "\<exists>e\<in>set elems. \<forall>s. \<not> fst (parse_rule_opacity ext s (setting_string (Some e)))"
  shows "exit_code (parse_config_condlsts ext cfg st) = Some 1"
  by (simp add: parse_config_condlsts_def Let_def opct_not_returned [OF assms]
      split: prod.splits outcome.splits)
    (blast dest: opct_exited_one)

lemma exit_code_blur_kern:
  "exit_code (parse_config_blur_kern ext cfg st) =
     (case config_lookup_string cfg ''blur-kern'' of
        None \<Rightarrow> None
      | Some sval \<Rightarrow>
          if fst (parse_conv_kern_lst ext (ps st) sval (blur_kerns (opts st))) then None else Some 1)"
  by (simp add: parse_config_blur_kern_def Let_def split: option.splits prod.splits)

lemma exit_code_glx_swap_method:
  "exit_code (parse_config_glx_swap_method ext cfg st) =
     (case config_lookup_string cfg ''glx-swap-method'' of
        None \<Rightarrow> None
      | Some sval \<Rightarrow> if fst (parse_glx_swap_method ext (ps st) sval) then None else Some 1)"
  by (simp add: parse_config_glx_swap_method_def split: option.splits prod.splits)

lemma then_do_code:
  assumes "exit_code x = None \<or> exit_code x = Some 1"
    and "\<And>s. exit_code (F s) = None \<or> exit_code (F s) = Some 1"
  shows "exit_code (then_do x F) = None \<or> exit_code (then_do x F) = Some 1"
  using assms by (cases x) simp_all

lemma then_do_exit:
  "exit_code x = Some c \<Longrightarrow> exit_code (then_do x F) = Some c"
  by (cases x) simp_all

lemma blur_glx_code:
  "exit_code (parse_config_blur_glx ext cfg st) = None
    \<or> exit_code (parse_config_blur_glx ext cfg st) = Some 1"
  unfolding parse_config_blur_glx_def Let_def
  by (intro then_do_code)
    (simp_all add: exit_code_blur_kern exit_code_glx_swap_method split: option.splits)

lemma blur_glx_exit:
  assumes "config_lookup_string cfg ''blur-kern'' = Some sval"
    and "\<forall>s kerns. \<not> fst (parse_conv_kern_lst ext s sval kerns)"
  shows "exit_code (parse_config_blur_glx ext cfg st) = Some 1"
  unfolding parse_config_blur_glx_def Let_def
  using assms by (intro then_do_exit) (simp add: exit_code_blur_kern)

lemma exit_code_lookups:
  "exit_code (parse_config_lookups ext cfg st) =
     (case parse_config_condlsts ext cfg (parse_config_scalars ext cfg st) of
        Exited c s \<Rightarrow> Some c
      | Returned s \<Rightarrow> exit_code (parse_config_blur_glx ext cfg s))"
  by (simp add: parse_config_lookups_def exit_code_then_do split: outcome.splits)

lemma lookups_code:
  "exit_code (parse_config_lookups ext cfg st) = None
    \<or> exit_code (parse_config_lookups ext cfg st) = Some 1"
  unfolding parse_config_lookups_def
  by (intro then_do_code condlsts_code blur_glx_code) simp

lemma lookups_exit_rule:
  assumes "config_lookup cfg ''opacity-rule'' = Some (CArray elems)"
    and "\<exists>e\<in>set elems. \<forall>s. \<not> fst (parse_rule_opacity ext s (setting_string (Some e)))"
  shows "exit_code (parse_config_lookups ext cfg st) = Some 1"
  unfolding parse_config_lookups_def
  by (intro then_do_exit condlsts_exit [OF assms])

lemma lookups_exit_kern:
  assumes "config_lookup_string cfg ''blur-kern'' = Some sval"
    and "\<forall>s kerns. \<not> fst (parse_conv_kern_lst ext s sval kerns)"
  shows "exit_code (parse_config_lookups ext cfg st) = Some 1"
proof (cases "parse_config_condlsts ext cfg (parse_config_scalars ext cfg st)")
  case (Returned s)
  with blur_glx_exit [OF assms, of s] show ?thesis by (simp add: exit_code_lookups)
next
  case (Exited c s)
  with lookups_code [of ext cfg st] show ?thesis by (simp add: exit_code_lookups)
qed

text \<open>
  C1, as the code has it: when \<^verbatim>\<open>parse_config\<close> has read a configuration in which
  an element of the \<^verbatim>\<open>opacity-rule\<close> array does not parse, or in which the
  \<^verbatim>\<open>blur-kern\<close> string does not parse, the process is ended with
  \<^verbatim>\<open>exit(1)\<close>: \<^verbatim>\<open>parse_config\<close> does not return. (A pattern does not parse
  when the parser refuses it whatever the session is.)
\<close>

theorem parse_config_exits_on_bad_pattern:
  fixes ext :: "('c, 'k, 's) externs"
  assumes "stream (open_config_file (config_file (opts st)) True env) = Some f"
    and "config_read f = Inr cfg"
  shows "(\<forall>elems. config_lookup cfg ''opacity-rule'' = Some (CArray elems)
            \<and> (\<exists>e\<in>set elems. \<forall>s. \<not> fst (parse_rule_opacity ext s (setting_string (Some e)))) \<longrightarrow>
          exit_code (parse_config ext env config_read st) = Some 1)
    \<and> (\<forall>sval. config_lookup_string cfg ''blur-kern'' = Some sval
            \<and> (\<forall>s kerns. \<not> fst (parse_conv_kern_lst ext s sval kerns)) \<longrightarrow>
          exit_code (parse_config ext env config_read st) = Some 1)"
  unfolding parse_config_read [where config_read = config_read and ext = ext, OF assms]
  by (blast intro: lookups_exit_rule lookups_exit_kern)

lemma sample_cfg_lookups:
  "config_lookup bad_rule_cfg ''opacity-rule'' =
     Some (CArray [CString ''90:class_g = URxvt'', CString ''URxvt''])"
  "config_lookup bad_elem_cfg ''opacity-rule'' = Some (CArray [CInt 90])"
  "config_lookup_string bad_kern_cfg ''blur-kern'' = Some []"
  by (simp_all add: bad_rule_cfg_def bad_elem_cfg_def bad_kern_cfg_def config_lookup_def
      config_lookup_string_def setting_string_def)

lemma sample_parsers_fail:
  "\<not> fst (parse_rule_opacity sample_externs s (setting_string (Some (CString ''URxvt''))))"
  "\<not> fst (parse_rule_opacity sample_externs s (setting_string (Some (CInt 90))))"
  "\<not> fst (parse_conv_kern_lst sample_externs s [] kerns)"
  by (simp_all add: sample_externs_def setting_string_def)

theorem parse_config_exits_on_bad_pattern_witness:
  "exit_code (parse_config sample_externs sample_env (\<lambda>f. Inr bad_elem_cfg) sample_state) = Some 1
   \<and> exit_code (parse_config sample_externs sample_env (\<lambda>f. Inr bad_kern_cfg) sample_state) = Some 1"
proof -
  have o: "stream (open_config_file (config_file (opts sample_state)) True sample_env) =
      Some ''/etc/compton.conf''"
    by (simp add: open_sample)
  have e: "\<exists>e\<in>set [CInt 90]. \<forall>s. \<not> fst (parse_rule_opacity sample_externs s (setting_string (Some e)))"
    by (simp add: sample_parsers_fail)
  have k: "\<forall>s kerns. \<not> fst (parse_conv_kern_lst sample_externs s [] kerns)"
    by (simp add: sample_parsers_fail)
  from parse_config_exits_on_bad_pattern
    [where ext = sample_externs and config_read = "\<lambda>f. Inr bad_elem_cfg" and cfg = bad_elem_cfg, OF o]
    sample_cfg_lookups(2) e
  have "exit_code (parse_config sample_externs sample_env (\<lambda>f. Inr bad_elem_cfg) sample_state) = Some 1"
    by blast
  moreover from parse_config_exits_on_bad_pattern
    [where ext = sample_externs and config_read = "\<lambda>f. Inr bad_kern_cfg" and cfg = bad_kern_cfg, OF o]
    sample_cfg_lookups(3) k
  have "exit_code (parse_config sample_externs sample_env (\<lambda>f. Inr bad_kern_cfg) sample_state) = Some 1"
    by blast
  ultimately show ?thesis by simp
qed

text \<open>
  C1 as stated fails: with an \<^verbatim>\<open>opacity-rule\<close> array whose last element is refused
  by \<^verbatim>\<open>parse_rule_opacity\<close>, \<^verbatim>\<open>parse_cfg_condlst_opct\<close> calls
  \<^verbatim>\<open>exit(1)\<close> and \<^verbatim>\<open>parse_config\<close> never returns.
\<close>

theorem parse_config_bad_rule_exits:
  "exit_code (parse_config sample_externs sample_env (\<lambda>f. Inr bad_rule_cfg) sample_state) = Some 1
   \<and> fst (parse_rule_opacity sample_externs [] (Some ''URxvt'')) = False"
proof -
  let ?rd = "\<lambda>f::string. Inr bad_rule_cfg :: (nat \<times> string) + config_t"
  have o: "stream (open_config_file (config_file (opts sample_state)) True sample_env) =
      Some ''/etc/compton.conf''"
    by (simp add: open_sample)
  have r: "?rd ''/etc/compton.conf'' = Inr bad_rule_cfg"
    by simp
  have e: "\<exists>e\<in>set [CString ''90:class_g = URxvt'', CString ''URxvt''].
      \<forall>s. \<not> fst (parse_rule_opacity sample_externs s (setting_string (Some e)))"
    by (simp add: sample_parsers_fail)
  have "exit_code (parse_config sample_externs sample_env ?rd sample_state) = Some 1"
    unfolding parse_config_read [where config_read = ?rd, OF o r]
    by (rule lookups_exit_rule [OF sample_cfg_lookups(1) e])
  moreover have "fst (parse_rule_opacity sample_externs [] (Some ''URxvt'')) = False"
    by (simp add: sample_externs_def)
  ultimately show ?thesis by simp
qed

subsection \<open>parse_config: the removed options\<close>

lemma other_key:
  assumes "k \<in> set removed_options" and "p \<notin> set removed_options"
  shows "config_lookup (cfg(k := x)) p = config_lookup cfg p"
    and "config_lookup_int (cfg(k := x)) p = config_lookup_int cfg p"
    and "config_lookup_float (cfg(k := x)) p = config_lookup_float cfg p"
    and "config_lookup_bool (cfg(k := x)) p = config_lookup_bool cfg p"
    and "config_lookup_string (cfg(k := x)) p = config_lookup_string cfg p"
    and "lcfg_lookup_bool (cfg(k := x)) p v = lcfg_lookup_bool cfg p v"
    and "parse_cfg_condlst ext (cfg(k := x)) p sc = parse_cfg_condlst ext cfg p sc"
    and "parse_cfg_condlst_opct ext (cfg(k := x)) p s = parse_cfg_condlst_opct ext cfg p s"
proof -
  from assms have "p \<noteq> k" by blast
  then show "config_lookup (cfg(k := x)) p = config_lookup cfg p"
    and "config_lookup_int (cfg(k := x)) p = config_lookup_int cfg p"
    and "config_lookup_float (cfg(k := x)) p = config_lookup_float cfg p"
    and "config_lookup_bool (cfg(k := x)) p = config_lookup_bool cfg p"
    and "config_lookup_string (cfg(k := x)) p = config_lookup_string cfg p"
    and "lcfg_lookup_bool (cfg(k := x)) p v = lcfg_lookup_bool cfg p v"
    and "parse_cfg_condlst ext (cfg(k := x)) p sc = parse_cfg_condlst ext cfg p sc"
    and "parse_cfg_condlst_opct ext (cfg(k := x)) p s = parse_cfg_condlst_opct ext cfg p s"
    by (simp_all add: config_lookup_def config_lookup_int_def config_lookup_float_def
        config_lookup_bool_def config_lookup_string_def lcfg_lookup_bool_def
        parse_cfg_condlst_def parse_cfg_condlst_opct_def)
qed

lemmas removed_options_lit = removed_options_def reported_if_set_def reported_if_true_def

lemma scalars_removed_key:
  assumes "k \<in> set removed_options"
  shows "parse_config_scalars ext (cfg(k := x)) st = parse_config_scalars ext cfg st"
  by (simp add: parse_config_scalars_def other_key [OF assms] removed_options_lit)

lemma condlsts_removed_key:
  assumes "k \<in> set removed_options"
  shows "parse_config_condlsts ext (cfg(k := x)) st = parse_config_condlsts ext cfg st"
  by (simp add: parse_config_condlsts_def other_key [OF assms] removed_options_lit
      cong: outcome.case_cong)

lemma blur_glx_removed_key:
  assumes "k \<in> set removed_options"
  shows "parse_config_blur_glx ext (cfg(k := x)) st = parse_config_blur_glx ext cfg st"
  by (simp add: parse_config_blur_glx_def parse_config_blur_kern_def
      parse_config_glx_swap_method_def other_key [OF assms] removed_options_lit)

lemma wintypes_removed_key:
  assumes "k \<in> set removed_options"
  shows "parse_config_wintypes ext (cfg(k := x)) st = parse_config_wintypes ext cfg st"
proof -
  have "wintype_settings ext (cfg(k := x)) i = wintype_settings ext cfg i" for i
    by (simp add: wintype_settings_def fun_eq_iff other_key [OF assms] removed_options_lit)
  then have "wintype_settings ext (cfg(k := x)) = wintype_settings ext cfg"
    by (rule ext)
  then show ?thesis by (simp add: parse_config_wintypes_def)
qed

lemma lookups_removed_key:
  assumes "k \<in> set removed_options"
  shows "parse_config_lookups ext (cfg(k := x)) st =
     then_do (parse_config_condlsts ext cfg (parse_config_scalars ext cfg st)) (\<lambda>st.
       then_do (parse_config_blur_glx ext cfg st) (\<lambda>st.
         Returned (parse_config_wintypes ext cfg (parse_config_removed (cfg(k := x)) False st))))"
  by (simp add: parse_config_lookups_def scalars_removed_key [OF assms]
      condlsts_removed_key [OF assms] blur_glx_removed_key [OF assms]
      wintypes_removed_key [OF assms])

lemma then_do_state_cong:
  "(\<And>s. g (state_of (F s)) = g (state_of (F' s))) \<Longrightarrow>
     g (state_of (then_do x F)) = g (state_of (then_do x F'))"
  by (cases x) simp_all

lemma then_do_code_cong:
  "(\<And>s. exit_code (F s) = exit_code (F' s)) \<Longrightarrow>
     exit_code (then_do x F) = exit_code (then_do x F')"
  by (cases x) simp_all

lemma lookups_removed_same:
  assumes "k \<in> set removed_options"
  shows "exit_code (parse_config_lookups ext (cfg(k := x)) st) =
      exit_code (parse_config_lookups ext (cfg(k := y)) st)"
    and "opts (state_of (parse_config_lookups ext (cfg(k := x)) st)) =
      opts (state_of (parse_config_lookups ext (cfg(k := y)) st))"
    and "cfgtmp (state_of (parse_config_lookups ext (cfg(k := x)) st)) =
      cfgtmp (state_of (parse_config_lookups ext (cfg(k := y)) st))"
    and "ps (state_of (parse_config_lookups ext (cfg(k := x)) st)) =
      ps (state_of (parse_config_lookups ext (cfg(k := y)) st))"
  unfolding lookups_removed_key [OF assms]
  by (intro then_do_code_cong then_do_state_cong [where g = opts]
      then_do_state_cong [where g = cfgtmp] then_do_state_cong [where g = ps];
      simp add: parse_config_wintypes_def removed_rest)+

lemma warn_steps:
  "snd (warn_if_present cfg name bm) =
     snd bm @ (if config_lookup_bool cfg name \<noteq> None then [Removed_option name] else [])"
  "snd (warn_if_true cfg name bm) =
     snd bm @ (if config_lookup_bool cfg name = Some True then [Deprecated_option name] else [])"
  by (auto simp: warn_if_present_def warn_if_true_def lcfg_lookup_bool_def split: option.splits)

lemma removed_printed:
  "printed (parse_config_removed cfg b st) = printed st @ removed_warnings cfg"
  by (simp add: parse_config_removed_def Let_def warn_steps removed_warnings_def
      reported_if_set_def reported_if_true_def)

lemma scalars_printed:
  "printed (parse_config_scalars ext cfg st) = printed st"
  by (simp add: parse_config_scalars_def Let_def)

lemma lookups_printed:
  assumes "exit_code (parse_config_lookups ext cfg st) = None"
  shows "printed (state_of (parse_config_lookups ext cfg st)) = printed st @ removed_warnings cfg"
proof (cases "parse_config_condlsts ext cfg (parse_config_scalars ext cfg st)")
  case (Exited c s)
  with assms show ?thesis by (simp add: parse_config_lookups_def)
next
  case r1: (Returned s1)
  with condlsts_rest(2) [of ext cfg "parse_config_scalars ext cfg st"]
  have p1: "printed s1 = printed st" by (simp add: scalars_printed)
  show ?thesis
  proof (cases "parse_config_blur_glx ext cfg s1")
    case (Exited c s)
    with assms r1 show ?thesis by (simp add: parse_config_lookups_def)
  next
    case (Returned s2)
    with blur_glx_rest(2) [of ext cfg s1] p1 have "printed s2 = printed st" by simp
    with r1 Returned show ?thesis
      by (simp add: parse_config_lookups_def wintypes_rest removed_printed)
  qed
qed

text \<open>
  The exits of lines 147, 343 and 353 come before the warnings of lines 357 to 373: a
  process that exits there has printed none of them.
\<close>

lemma lookups_printed_exit:
  assumes "exit_code (parse_config_lookups ext cfg st) \<noteq> None"
  shows "printed (state_of (parse_config_lookups ext cfg st)) = printed st"
proof (cases "parse_config_condlsts ext cfg (parse_config_scalars ext cfg st)")
  case (Exited c s)
  with condlsts_rest(2) [of ext cfg "parse_config_scalars ext cfg st"]
  have "printed s = printed st" by (simp add: scalars_printed)
  with Exited show ?thesis by (simp add: parse_config_lookups_def)
next
  case r1: (Returned s1)
  with condlsts_rest(2) [of ext cfg "parse_config_scalars ext cfg st"]
  have p1: "printed s1 = printed st" by (simp add: scalars_printed)
  show ?thesis
  proof (cases "parse_config_blur_glx ext cfg s1")
    case (Exited c s)
    with blur_glx_rest(2) [of ext cfg s1] p1 have "printed s = printed st" by simp
    with r1 Exited show ?thesis by (simp add: parse_config_lookups_def)
  next
    case (Returned s2)
    with assms r1 show ?thesis by (simp add: parse_config_lookups_def)
  qed
qed

lemma in_removed_warnings:
  "Removed_option k \<in> set (removed_warnings cfg) \<longleftrightarrow>
     k \<in> set reported_if_set \<and> config_lookup_bool cfg k \<noteq> None"
  "Deprecated_option k \<in> set (removed_warnings cfg) \<longleftrightarrow>
     k \<in> set reported_if_true \<and> config_lookup_bool cfg k = Some True"
  by (auto simp: removed_warnings_def)

lemma lookup_bool_set:
  "config_lookup_bool (cfg(k \<mapsto> v)) k \<noteq> None \<longleftrightarrow> (\<exists>b. v = CBool b)"
  "config_lookup_bool (cfg(k \<mapsto> v)) k = Some True \<longleftrightarrow> v = CBool True"
  "config_lookup_bool (cfg(k := None)) k = None"
  "(\<exists>y. config_lookup_bool (cfg(k \<mapsto> v)) k = Some y) \<longleftrightarrow> (\<exists>b. v = CBool b)"
  by (simp_all add: config_lookup_bool_def config_lookup_def setting_bool_def split: setting.splits)

text \<open>
  C3, as the code has it: let \<^verbatim>\<open>k\<close> be one of \<^verbatim>\<open>clear-shadow\<close>,
  \<^verbatim>\<open>paint-on-overlay\<close>, \<^verbatim>\<open>glx-use-copysubbuffermesa\<close>,
  \<^verbatim>\<open>glx-copy-from-front\<close>, \<^verbatim>\<open>xrender-sync\<close> and
  \<^verbatim>\<open>xrender-sync-fence\<close>. Reading a configuration that sets \<^verbatim>\<open>k\<close> and
  reading the same configuration without \<^verbatim>\<open>k\<close> end the same way (return, or the
  same exit) with the same options, the same \<^verbatim>\<open>*pcfgtmp\<close> and the same session.
  When \<^verbatim>\<open>parse_config\<close> returns, what it printed is what was printed before
  followed by the warnings the configuration calls for; among them there is one for
  \<^verbatim>\<open>k\<close> exactly when \<^verbatim>\<open>k\<close> is one of the first two options and is set to a
  boolean, or one of the other four and is set to true, and none without \<^verbatim>\<open>k\<close>.
  When the process exits instead (an opacity rule, a blur kernel or a swap method that
  does not parse), no warning has been printed, with \<^verbatim>\<open>k\<close> or without.
\<close>

theorem parse_config_removed_option:
  fixes ext :: "('c, 'k, 's) externs"
  assumes "k \<in> set removed_options"
    and "stream (open_config_file (config_file (opts st)) True env) = Some f"
    and "config_read f = Inr (cfg(k \<mapsto> v))"
    and "config_read' f = Inr (cfg(k := None))"
  defines "A \<equiv> parse_config ext env config_read st"
    and "B \<equiv> parse_config ext env config_read' st"
  shows "exit_code A = exit_code B
    \<and> opts (state_of A) = opts (state_of B)
    \<and> cfgtmp (state_of A) = cfgtmp (state_of B)
    \<and> ps (state_of A) = ps (state_of B)
    \<and> (exit_code A = None \<longrightarrow>
          printed (state_of A) = printed st @ removed_warnings (cfg(k \<mapsto> v))
          \<and> printed (state_of B) = printed st @ removed_warnings (cfg(k := None)))
    \<and> (exit_code A \<noteq> None \<longrightarrow>
          printed (state_of A) = printed st \<and> printed (state_of B) = printed st)
    \<and> (Removed_option k \<in> set (removed_warnings (cfg(k \<mapsto> v))) \<longleftrightarrow>
          k \<in> set reported_if_set \<and> (\<exists>b. v = CBool b))
    \<and> (Deprecated_option k \<in> set (removed_warnings (cfg(k \<mapsto> v))) \<longleftrightarrow>
          k \<in> set reported_if_true \<and> v = CBool True)
    \<and> Removed_option k \<notin> set (removed_warnings (cfg(k := None)))
    \<and> Deprecated_option k \<notin> set (removed_warnings (cfg(k := None)))"
proof -
  note a = parse_config_read [where config_read = config_read and ext = ext, OF assms(2,3)]
  note b = parse_config_read [where config_read = config_read' and ext = ext, OF assms(2,4)]
  note same = lookups_removed_same [OF assms(1), where x = "Some v" and y = None and cfg = cfg
      and ext = ext]
  have e: "exit_code A = exit_code B" and o: "opts (state_of A) = opts (state_of B)"
    and t: "cfgtmp (state_of A) = cfgtmp (state_of B)" and s: "ps (state_of A) = ps (state_of B)"
    unfolding A_def B_def a b by (rule same)+
  have p: "printed (state_of A) = printed st @ removed_warnings (cfg(k \<mapsto> v))
      \<and> printed (state_of B) = printed st @ removed_warnings (cfg(k := None))"
    if "exit_code A = None"
  proof -
    from that e have "exit_code B = None" by simp
    with that show ?thesis
      unfolding A_def B_def a b by (simp add: lookups_printed)
  qed
  have q: "printed (state_of A) = printed st \<and> printed (state_of B) = printed st"
    if "exit_code A \<noteq> None"
  proof -
    from that e have "exit_code B \<noteq> None" by simp
    with that show ?thesis
      unfolding A_def B_def a b by (simp add: lookups_printed_exit)
  qed
  from e o t s p q show ?thesis
    by (simp add: in_removed_warnings lookup_bool_set)
qed

theorem parse_config_removed_option_witness:
  "printed (state_of (parse_config sample_externs sample_env
      (\<lambda>f. Inr ((\<lambda>path. None)(''clear-shadow'' \<mapsto> CBool False))) sample_state)) =
     [Removed_option ''clear-shadow'']
   \<and> printed (state_of (parse_config sample_externs sample_env
      (\<lambda>f. Inr ((\<lambda>path. None)(''clear-shadow'' := None))) sample_state)) = []
   \<and> opts (state_of (parse_config sample_externs sample_env
      (\<lambda>f. Inr ((\<lambda>path. None)(''clear-shadow'' \<mapsto> CBool False))) sample_state)) =
     opts (state_of (parse_config sample_externs sample_env
      (\<lambda>f. Inr ((\<lambda>path. None)(''clear-shadow'' := None))) sample_state))
   \<and> exit_code (parse_config sample_externs sample_env
      (\<lambda>f. Inr (bad_rule_cfg(''clear-shadow'' \<mapsto> CBool True))) sample_state) = Some 1
   \<and> exit_code (parse_config sample_externs sample_env
      (\<lambda>f. Inr (bad_rule_cfg(''clear-shadow'' := None))) sample_state) = Some 1
   \<and> printed (state_of (parse_config sample_externs sample_env
      (\<lambda>f. Inr (bad_rule_cfg(''clear-shadow'' \<mapsto> CBool True))) sample_state)) = []"
proof -
  let ?c = "\<lambda>path::string. None :: setting option"
  let ?rd = "\<lambda>f::string. Inr (?c(''clear-shadow'' \<mapsto> CBool False)) :: (nat \<times> string) + config_t"
  let ?rd' = "\<lambda>f::string. Inr (?c(''clear-shadow'' := None)) :: (nat \<times> string) + config_t"
  let ?xd = "\<lambda>f::string. Inr (bad_rule_cfg(''clear-shadow'' \<mapsto> CBool True))
      :: (nat \<times> string) + config_t"
  let ?xd' = "\<lambda>f::string. Inr (bad_rule_cfg(''clear-shadow'' := None)) :: (nat \<times> string) + config_t"
  have k: "''clear-shadow'' \<in> set removed_options"
    by (simp add: removed_options_def reported_if_set_def)
  have o: "stream (open_config_file (config_file (opts sample_state)) True sample_env) =
      Some ''/etc/compton.conf''"
    by (simp add: open_sample)
  have r: "?rd ''/etc/compton.conf'' = Inr (?c(''clear-shadow'' \<mapsto> CBool False))"
    and r': "?rd' ''/etc/compton.conf'' = Inr (?c(''clear-shadow'' := None))"
    and x: "?xd ''/etc/compton.conf'' = Inr (bad_rule_cfg(''clear-shadow'' \<mapsto> CBool True))"
    and x': "?xd' ''/etc/compton.conf'' = Inr (bad_rule_cfg(''clear-shadow'' := None))"
    by simp_all
  have e: "exit_code (parse_config sample_externs sample_env ?rd sample_state) = None"
    unfolding parse_config_read [where config_read = ?rd, OF o r]
    by (rule lookups_returns) (simp_all add: config_lookup_def)
  have w: "removed_warnings (?c(''clear-shadow'' \<mapsto> CBool False)) = [Removed_option ''clear-shadow'']"
    "removed_warnings (?c(''clear-shadow'' := None)) = []"
    by (simp_all add: removed_warnings_def config_lookup_def config_lookup_bool_def
        setting_bool_def reported_if_set_def reported_if_true_def)
      (rule exI [of _ False], simp)
  have l: "config_lookup (bad_rule_cfg(''clear-shadow'' \<mapsto> CBool True)) ''opacity-rule'' =
      Some (CArray [CString ''90:class_g = URxvt'', CString ''URxvt''])"
    by (simp add: bad_rule_cfg_def config_lookup_def)
  have b: "\<exists>e\<in>set [CString ''90:class_g = URxvt'', CString ''URxvt''].
      \<forall>s. \<not> fst (parse_rule_opacity sample_externs s (setting_string (Some e)))"
    by (simp add: sample_parsers_fail)
  have e1: "exit_code (parse_config sample_externs sample_env ?xd sample_state) = Some 1"
    unfolding parse_config_read [where config_read = ?xd, OF o x]
    by (rule lookups_exit_rule [OF l b])
  have p0: "printed sample_state = []"
    by (simp add: sample_state_def)
  from parse_config_removed_option [where ext = sample_externs and config_read = ?rd
      and config_read' = ?rd', OF k o r r'] e w
  have "printed (state_of (parse_config sample_externs sample_env ?rd sample_state)) =
      [Removed_option ''clear-shadow'']
    \<and> printed (state_of (parse_config sample_externs sample_env ?rd' sample_state)) = []
    \<and> opts (state_of (parse_config sample_externs sample_env ?rd sample_state)) =
      opts (state_of (parse_config sample_externs sample_env ?rd' sample_state))"
    by (simp add: sample_state_def)
  moreover from parse_config_removed_option [where ext = sample_externs and config_read = ?xd
      and config_read' = ?xd', OF k o x x'] e1 p0
  have "exit_code (parse_config sample_externs sample_env ?xd' sample_state) = Some 1
    \<and> printed (state_of (parse_config sample_externs sample_env ?xd sample_state)) = []"
    by simp
  ultimately show ?thesis
    using e1 by simp
qed

lemma copy_from_front_off_lookups:
  "config_lookup copy_from_front_off_cfg ''opacity-rule'' = None"
  "config_lookup copy_from_front_off_cfg ''blur-kern'' = None"
  "config_lookup copy_from_front_off_cfg ''glx-swap-method'' = None"
  "removed_warnings copy_from_front_off_cfg = []"
  by (simp_all add: copy_from_front_off_cfg_def config_lookup_def removed_warnings_def
      config_lookup_bool_def setting_bool_def reported_if_set_def reported_if_true_def)

text \<open>
  C3 as stated fails: \<^verbatim>\<open>glx-copy-from-front = false\<close> is in the file, and
  \<^verbatim>\<open>parse_config\<close> returns without printing anything, because of the test
  \<^verbatim>\<open>&& bval\<close> at line 368.
\<close>

theorem removed_option_set_to_false_not_reported:
  "exit_code (parse_config sample_externs sample_env (\<lambda>f. Inr copy_from_front_off_cfg) sample_state) =
     None
   \<and> printed (state_of
       (parse_config sample_externs sample_env (\<lambda>f. Inr copy_from_front_off_cfg) sample_state)) = []
   \<and> config_lookup copy_from_front_off_cfg ''glx-copy-from-front'' = Some (CBool False)"
proof -
  let ?rd = "\<lambda>f::string. Inr copy_from_front_off_cfg :: (nat \<times> string) + config_t"
  have o: "stream (open_config_file (config_file (opts sample_state)) True sample_env) =
      Some ''/etc/compton.conf''"
    by (simp add: open_sample)
  have r: "?rd ''/etc/compton.conf'' = Inr copy_from_front_off_cfg"
    by simp
  note rd = parse_config_read [where config_read = ?rd, OF o r]
  have e: "exit_code (parse_config sample_externs sample_env ?rd sample_state) = None"
    unfolding rd by (simp add: lookups_returns copy_from_front_off_lookups)
  then have "printed (state_of (parse_config sample_externs sample_env ?rd sample_state)) = []"
    unfolding rd by (simp add: lookups_printed copy_from_front_off_lookups sample_state_def)
  moreover have "config_lookup copy_from_front_off_cfg ''glx-copy-from-front'' = Some (CBool False)"
    by (simp add: copy_from_front_off_cfg_def config_lookup_def)
  ultimately show ?thesis using e by simp
qed

subsection \<open>The fade engine: one fade per window\<close>

lemma fade_w_tick [simp]: "fade_w (fade_tick f) = fade_w f"
  by (simp add: fade_tick_def)

lemma map_fade_w_filter_tick:
  "map fade_w (filter P (map fade_tick fs)) = map fade_w (filter (\<lambda>f. P (fade_tick f)) fs)"
  by (induction fs) simp_all

lemma one_fade_no_fades: "one_fade_per_window no_fades"
  by (simp add: one_fade_per_window_def no_fades_def)

lemma one_fade_set_fade:
  assumes "one_fade_per_window s"
  shows "one_fade_per_window (set_fade w start finish step callback exec_callback override s)"
proof -
  have d: "distinct (map fade_w (filter (\<lambda>f. fade_w f \<noteq> w) (fades s)))"
    using assms by (simp add: one_fade_per_window_def distinct_map_filter)
  have n: "w \<notin> fade_w ` set (filter (\<lambda>f. fade_w f \<noteq> w) (fades s))"
    by auto
  from assms d n show ?thesis
    by (simp add: set_fade_def one_fade_per_window_def Let_def)
qed

lemma one_fade_run_fades:
  assumes "one_fade_per_window s"
  shows "one_fade_per_window (run_fades s)"
  using assms
  by (simp add: run_fades_def one_fade_per_window_def Let_def map_fade_w_filter_tick
      distinct_map_filter)

lemma reachable_one_fade: "reachable s \<Longrightarrow> one_fade_per_window s"
  by (induction rule: reachable.induct)
    (simp_all add: one_fade_no_fades one_fade_set_fade one_fade_run_fades)

lemma fades_of_set_fade:
  assumes "override \<or> \<not> (\<exists>f\<in>set (fades s). fade_w f = w \<and> fade_finish f = finish)"
  shows "fades_of w (set_fade w start finish step callback exec_callback override s) =
     (if step \<le> 0 \<or> start = finish then []
      else [\<lparr>fade_w = w, fade_cur = start, fade_finish = finish, fade_step = step,
             fade_callback = callback\<rparr>])"
  using assms by (auto simp: set_fade_def fades_of_def Let_def)

lemma fades_of_set_fade_other:
  "w' \<noteq> w \<Longrightarrow>
     fades_of w' (set_fade w start finish step callback exec_callback override s) = fades_of w' s"
  by (induction "fades s") (auto simp: set_fade_def fades_of_def Let_def filter_filter conj_commute
      intro: filter_cong)

lemma set_fade_untouched:
  assumes "\<not> override" and "\<exists>f\<in>set (fades s). fade_w f = w \<and> fade_finish f = finish"
  shows "set_fade w start finish step callback exec_callback override s = s"
  using assms by (simp add: set_fade_def)

lemma at_most_one_of_distinct:
  "distinct (map g xs) \<Longrightarrow> length (filter (\<lambda>x. g x = a) xs) \<le> 1"
proof (induction xs)
  case Nil
  show ?case by simp
next
  case (Cons x xs)
  show ?case
  proof (cases "g x = a")
    case True
    with Cons.prems have "a \<notin> g ` set xs" by auto
    then have "filter (\<lambda>x. g x = a) xs = []"
      by (auto simp: filter_empty_conv)
    with True show ?thesis by simp
  next
    case False
    with Cons show ?thesis by simp
  qed
qed

text \<open>
  C7, as the spec's fade engine has it: in every state the engine can reach there is at
  most one fade per window, and \<^verbatim>\<open>set_fade\<close> and \<^verbatim>\<open>run_fades\<close> keep it so.
  \<^verbatim>\<open>set_fade\<close> on a window removes the fade the window had: afterwards the window
  has the new fade alone, starting at \<^verbatim>\<open>start\<close> toward the new target (or none when
  \<^verbatim>\<open>step <= 0\<close> or \<^verbatim>\<open>start == finish\<close>), and the fades of other windows are
  as before; except when \<^verbatim>\<open>override\<close> is false and the window has a fade toward the
  same target, which is left untouched.
\<close>

theorem one_fade_per_window_invariant:
  assumes "reachable s"
  shows "one_fade_per_window s
    \<and> length (fades_of w s) \<le> 1
    \<and> one_fade_per_window (set_fade w start finish step callback exec_callback override s)
    \<and> one_fade_per_window (run_fades s)
    \<and> (override \<or> \<not> (\<exists>f\<in>set (fades s). fade_w f = w \<and> fade_finish f = finish) \<longrightarrow>
         fades_of w (set_fade w start finish step callback exec_callback override s) =
           (if step \<le> 0 \<or> start = finish then []
            else [\<lparr>fade_w = w, fade_cur = start, fade_finish = finish, fade_step = step,
                   fade_callback = callback\<rparr>]))
    \<and> (\<not> override \<and> (\<exists>f\<in>set (fades s). fade_w f = w \<and> fade_finish f = finish) \<longrightarrow>
         set_fade w start finish step callback exec_callback override s = s)
    \<and> (\<forall>w'. w' \<noteq> w \<longrightarrow>
         fades_of w' (set_fade w start finish step callback exec_callback override s) =
           fades_of w' s)"
proof -
  from assms have i: "one_fade_per_window s" by (rule reachable_one_fade)
  then have "length (fades_of w s) \<le> 1"
    unfolding one_fade_per_window_def fades_of_def by (rule at_most_one_of_distinct)
  with i show ?thesis
    by (simp add: one_fade_set_fade one_fade_run_fades fades_of_set_fade fades_of_set_fade_other
        set_fade_untouched)
qed

lemma fades_fading_in:
  "fades fading_in =
     [\<lparr>fade_w = 7, fade_cur = 1 / 4, fade_finish = 1, fade_step = 1 / 4, fade_callback = NoCallback\<rparr>]"
  by (simp add: fading_in_def run_fades_def set_fade_def no_fades_def fade_tick_def Let_def)

lemma reachable_fading_in: "reachable fading_in"
  unfolding fading_in_def by (intro reachable.intros)

theorem one_fade_per_window_invariant_witness:
  "one_fade_per_window fading_in
   \<and> fades_of 7 (set_fade 7 0 1 (1 / 2) FinishUnmap False True fading_in) =
       [\<lparr>fade_w = 7, fade_cur = 0, fade_finish = 1, fade_step = 1 / 2, fade_callback = FinishUnmap\<rparr>]
   \<and> fades_of 7 (set_fade 7 1 1 (1 / 2) FinishUnmap False True fading_in) = []
   \<and> set_fade 7 0 1 (1 / 2) FinishUnmap False False fading_in = fading_in
   \<and> fades_of 8 (set_fade 7 0 1 (1 / 2) FinishUnmap False True fading_in) = fades_of 8 fading_in"
proof -
  have e: "\<exists>f\<in>set (fades fading_in). fade_w f = 7 \<and> fade_finish f = 1"
    by (simp add: fades_fading_in)
  from one_fade_per_window_invariant [OF reachable_fading_in, of 7 0 1 "1 / 2" FinishUnmap False True]
    one_fade_per_window_invariant [OF reachable_fading_in, of 7 1 1 "1 / 2" FinishUnmap False True]
    one_fade_per_window_invariant [OF reachable_fading_in, of 7 0 1 "1 / 2" FinishUnmap False False]
    e
  show ?thesis by simp
qed

text \<open>
  C7 as stated fails where the spec lets \<^verbatim>\<open>set_fade\<close> leave a fade untouched:
  window 7 has a fade at 1/4 toward 1, and \<^verbatim>\<open>set_fade\<close> with \<^verbatim>\<open>override\<close>
  false and the same target keeps that fade, it does not put a fade starting at 0 in its
  place.
\<close>

theorem set_fade_keeps_same_target_fade:
  "fades (set_fade 7 0 1 (1 / 2) FinishUnmap False False fading_in) =
     [\<lparr>fade_w = 7, fade_cur = 1 / 4, fade_finish = 1, fade_step = 1 / 4, fade_callback = NoCallback\<rparr>]
   \<and> fades fading_in =
     [\<lparr>fade_w = 7, fade_cur = 1 / 4, fade_finish = 1, fade_step = 1 / 4, fade_callback = NoCallback\<rparr>]"
  by (simp add: set_fade_def fades_fading_in)

subsection \<open>The fade engine: a fade from 0 to OPAQUE\<close>

lemma fades_of_run_fades:
  "fades_of w (run_fades s) =
     filter (\<lambda>f. fade_cur f \<noteq> fade_finish f) (map fade_tick (fades_of w s))"
proof -
  have "filter (\<lambda>f. fade_w f = w) (filter P (map fade_tick fs)) =
      filter P (map fade_tick (filter (\<lambda>f. fade_w f = w) fs))" for P fs
    by (induction fs) simp_all
  then show ?thesis by (simp add: fades_of_def run_fades_def Let_def)
qed

lemma fold_opacity_other:
  "\<forall>f\<in>set fs. fade_w f \<noteq> w \<Longrightarrow> fold (\<lambda>f op. op(fade_w f := fade_cur f)) fs op w = op w"
  by (induction fs arbitrary: op) simp_all

lemma fold_opacity_one:
  "filter (\<lambda>f. fade_w f = w) fs = [g] \<Longrightarrow>
     fold (\<lambda>f op. op(fade_w f := fade_cur f)) fs op w = fade_cur g"
proof (induction fs arbitrary: op)
  case Nil
  then show ?case by simp
next
  case (Cons f fs)
  show ?case
  proof (cases "fade_w f = w")
    case True
    with Cons.prems have g: "f = g" and "filter (\<lambda>f. fade_w f = w) fs = []" by simp_all
    then have "\<forall>f\<in>set fs. fade_w f \<noteq> w" by (simp add: filter_empty_conv)
    then have "fold (\<lambda>f op. op(fade_w f := fade_cur f)) fs (op(w := fade_cur g)) w =
        (op(w := fade_cur g)) w"
      by (rule fold_opacity_other)
    then have "fold (\<lambda>f op. op(fade_w f := fade_cur f)) fs (op(w := fade_cur g)) w = fade_cur g"
      by simp
    moreover have "fold (\<lambda>f op. op(fade_w f := fade_cur f)) (f # fs) op w =
        fold (\<lambda>f op. op(fade_w f := fade_cur f)) fs (op(fade_w f := fade_cur f)) w"
      by (simp only: fold.simps comp_apply)
    moreover have "op(fade_w f := fade_cur f) = op(w := fade_cur g)"
      using True g by simp
    ultimately show ?thesis by (simp only:)
  next
    case False
    with Cons show ?thesis by simp
  qed
qed

lemma win_opacity_run_fades:
  assumes "fades_of w s = [f]"
  shows "win_opacity (run_fades s) w = fade_cur (fade_tick f)"
proof -
  have "filter (\<lambda>f. fade_w f = w) (map fade_tick (fades s)) =
      map fade_tick (filter (\<lambda>f. fade_w f = w) (fades s))"
    by (induction "fades s") (simp_all add: filter_map comp_def)
  with assms have "filter (\<lambda>f. fade_w f = w) (map fade_tick (fades s)) = [fade_tick f]"
    by (simp add: fades_of_def)
  from fold_opacity_one [OF this] show ?thesis
    by (simp add: run_fades_def Let_def)
qed

lemma fade_tick_fields:
  "fade_finish (fade_tick f) = fade_finish f"
  "fade_step (fade_tick f) = fade_step f"
  "fade_callback (fade_tick f) = fade_callback f"
  by (simp_all add: fade_tick_def)

lemma invoked_run_fades:
  assumes "fades_of w s = [f]" and "fade_cur (fade_tick f) = fade_finish f"
  shows "(fade_callback f, w) \<in> set (invoked (run_fades s))"
proof -
  from assms(1) have "f \<in> set (fades s)" and "fade_w f = w"
    by (auto simp: fades_of_def filter_eq_Cons_iff)
  then have "fade_tick f \<in> set (map fade_tick (fades s))"
    by simp
  with assms(2)
  have "fade_tick f \<in> set (filter (\<lambda>f. fade_cur f = fade_finish f) (map fade_tick (fades s)))"
    by (simp add: fade_tick_fields)
  then have "(fade_callback (fade_tick f), fade_w (fade_tick f)) \<in>
      (\<lambda>f. (fade_callback f, fade_w f)) `
        set (filter (\<lambda>f. fade_cur f = fade_finish f) (map fade_tick (fades s)))"
    by (rule imageI)
  with \<open>fade_w f = w\<close> show ?thesis
    by (simp add: run_fades_def Let_def fade_tick_fields)
qed

lemma less_ticks_iff:
  assumes "0 < step"
  shows "k < nat \<lceil>real OPAQUE / step\<rceil> \<longleftrightarrow> real k * step < real OPAQUE"
proof -
  have "k < nat \<lceil>real OPAQUE / step\<rceil> \<longleftrightarrow> int k < \<lceil>real OPAQUE / step\<rceil>"
    by (simp add: zless_nat_eq_int_zless)
  also have "\<dots> \<longleftrightarrow> real k < real OPAQUE / step"
    by (simp add: less_ceiling_iff)
  also have "\<dots> \<longleftrightarrow> real k * step < real OPAQUE"
    using assms by (simp add: pos_less_divide_eq)
  finally show ?thesis .
qed

lemma fade_tick_rising:
  assumes "0 < step" and "real k * step < real OPAQUE"
  shows "fade_tick \<lparr>fade_w = w, fade_cur = real k * step, fade_finish = real OPAQUE,
            fade_step = step, fade_callback = callback\<rparr> =
      \<lparr>fade_w = w, fade_cur = min (real (Suc k) * step) (real OPAQUE), fade_finish = real OPAQUE,
       fade_step = step, fade_callback = callback\<rparr>"
  using assms by (simp add: fade_tick_def algebra_simps)

lemma fading_before_last_tick:
  assumes "0 < step"
    and "fades_of w s = [\<lparr>fade_w = w, fade_cur = 0, fade_finish = real OPAQUE, fade_step = step,
            fade_callback = callback\<rparr>]"
    and "k < nat \<lceil>real OPAQUE / step\<rceil>"
  shows "fades_of w ((run_fades ^^ k) s) =
     [\<lparr>fade_w = w, fade_cur = real k * step, fade_finish = real OPAQUE, fade_step = step,
       fade_callback = callback\<rparr>]"
  using assms(3)
proof (induction k)
  case 0
  from assms(2) show ?case by simp
next
  case (Suc k)
  then have k: "k < nat \<lceil>real OPAQUE / step\<rceil>" by simp
  with assms(1) have lt: "real k * step < real OPAQUE" by (simp add: less_ticks_iff)
  from Suc.prems assms(1) have lt': "real (Suc k) * step < real OPAQUE"
    by (simp only: less_ticks_iff)
  from Suc.IH [OF k] lt' show ?case
    by (simp add: fades_of_run_fades fade_tick_rising [OF assms(1) lt] del: of_nat_Suc)
qed

text \<open>
  C6: a fade of a window from 0 to \<^verbatim>\<open>OPAQUE\<close> with step \<^verbatim>\<open>s > 0\<close> is
  finished by \<^verbatim>\<open>run_fades\<close> in exactly \<^verbatim>\<open>ceil(OPAQUE/s)\<close> ticks: before that
  many ticks the fade is active with current value \<^verbatim>\<open>k * s\<close> below
  \<^verbatim>\<open>OPAQUE\<close>; at that tick it is removed, its callback is invoked and the window's
  opacity is \<^verbatim>\<open>OPAQUE\<close>. The value after \<^verbatim>\<open>k\<close> ticks is
  \<^verbatim>\<open>min(k * s, OPAQUE)\<close>, which does not decrease with \<^verbatim>\<open>k\<close> and never exceeds
  \<^verbatim>\<open>finish\<close>. (Values are reals.)
\<close>

theorem fade_in_converges:
  assumes "0 < step"
    and "fades_of w s = [\<lparr>fade_w = w, fade_cur = 0, fade_finish = real OPAQUE, fade_step = step,
            fade_callback = callback\<rparr>]"
  defines "n \<equiv> nat \<lceil>real OPAQUE / step\<rceil>"
  shows "0 < n
    \<and> (\<forall>k<n. fades_of w ((run_fades ^^ k) s) =
          [\<lparr>fade_w = w, fade_cur = real k * step, fade_finish = real OPAQUE, fade_step = step,
            fade_callback = callback\<rparr>]
          \<and> real k * step < real OPAQUE)
    \<and> fades_of w ((run_fades ^^ n) s) = []
    \<and> (\<forall>k. 0 < k \<and> k \<le> n \<longrightarrow>
          win_opacity ((run_fades ^^ k) s) w = min (real k * step) (real OPAQUE))
    \<and> win_opacity ((run_fades ^^ n) s) w = real OPAQUE
    \<and> (callback, w) \<in> set (invoked ((run_fades ^^ n) s))
    \<and> (\<forall>j k. j \<le> k \<longrightarrow> min (real j * step) (real OPAQUE) \<le> min (real k * step) (real OPAQUE))"
proof -
  let ?f = "\<lambda>k. \<lparr>fade_w = w, fade_cur = real k * step, fade_finish = real OPAQUE,
      fade_step = step, fade_callback = callback\<rparr>"
  have before: "fades_of w ((run_fades ^^ k) s) = [?f k]" and below: "real k * step < real OPAQUE"
    if "k < n" for k
    using that assms(1) fading_before_last_tick [OF assms(1,2), of k]
    by (simp_all add: n_def less_ticks_iff)
  have "0 < real OPAQUE / step"
    using assms(1) by (simp add: OPAQUE_def)
  then have pos: "0 < n" by (simp add: n_def)
  have tick: "fade_tick (?f k) = (?f k)\<lparr>fade_cur := min (real (Suc k) * step) (real OPAQUE)\<rparr>"
    if "k < n" for k
    using fade_tick_rising [OF assms(1) below [OF that]] by simp
  have opac: "win_opacity ((run_fades ^^ Suc k) s) w = min (real (Suc k) * step) (real OPAQUE)"
    if "k < n" for k
    using win_opacity_run_fades [OF before [OF that]] tick [OF that] by simp
  obtain m where m: "n = Suc m" using pos by (cases n) simp_all
  then have mn: "m < n" by simp
  have "\<not> n < nat \<lceil>real OPAQUE / step\<rceil>" by (simp add: n_def)
  then have reach: "real OPAQUE \<le> real (Suc m) * step"
    using assms(1) m by (simp only: less_ticks_iff) 
  then have last: "min (real (Suc m) * step) (real OPAQUE) = real OPAQUE" by simp
  have gone: "fades_of w ((run_fades ^^ n) s) = []"
    using before [OF mn] tick [OF mn] last
    by (simp add: m fades_of_run_fades del: of_nat_Suc)
  have full: "win_opacity ((run_fades ^^ n) s) w = real OPAQUE"
    using opac [OF mn] last by (simp add: m del: of_nat_Suc)
  have "(fade_callback (?f m), w) \<in> set (invoked (run_fades ((run_fades ^^ m) s)))"
    by (rule invoked_run_fades [OF before [OF mn]]) (simp add: tick [OF mn] last del: of_nat_Suc)
  then have inv: "(callback, w) \<in> set (invoked ((run_fades ^^ n) s))"
    by (simp add: m)
  have each: "win_opacity ((run_fades ^^ k) s) w = min (real k * step) (real OPAQUE)"
    if "0 < k" "k \<le> n" for k
  proof -
    from that obtain j where "k = Suc j" "j < n" by (cases k) simp_all
    with opac [of j] show ?thesis by simp
  qed
  have mono: "min (real j * step) (real OPAQUE) \<le> min (real k * step) (real OPAQUE)"
    if "j \<le> k" for j k
  proof -
    from that assms(1) have "real j * step \<le> real k * step" by simp
    then show ?thesis by (simp add: min_le_iff_disj)
  qed
  from pos before below gone each full inv mono show ?thesis by blast
qed

theorem fade_in_converges_witness:
  "fades_of 7 (run_fades two_tick_fade) =
     [\<lparr>fade_w = 7, fade_cur = 3000000000, fade_finish = 4294967295, fade_step = 3000000000,
       fade_callback = FinishUnmap\<rparr>]
   \<and> fades_of 7 (run_fades (run_fades two_tick_fade)) = []
   \<and> win_opacity (run_fades two_tick_fade) 7 = 3000000000
   \<and> win_opacity (run_fades (run_fades two_tick_fade)) 7 = 4294967295
   \<and> (FinishUnmap, 7) \<in> set (invoked (run_fades (run_fades two_tick_fade)))"
proof -
  have p: "(0::real) < 3000000000" by simp
  have h: "fades_of 7 two_tick_fade =
      [\<lparr>fade_w = 7, fade_cur = 0, fade_finish = real OPAQUE, fade_step = 3000000000,
        fade_callback = FinishUnmap\<rparr>]"
    by (simp add: two_tick_fade_def set_fade_def fades_of_def no_fades_def OPAQUE_def)
  have n: "nat \<lceil>real OPAQUE / 3000000000\<rceil> = Suc (Suc 0)"
    by (simp add: OPAQUE_def)
  note t = fade_in_converges [OF p h, unfolded n]
  from t have "fades_of 7 ((run_fades ^^ Suc 0) two_tick_fade) =
      [\<lparr>fade_w = 7, fade_cur = real (Suc 0) * 3000000000, fade_finish = real OPAQUE,
        fade_step = 3000000000, fade_callback = FinishUnmap\<rparr>]"
    by blast
  moreover from t have "fades_of 7 ((run_fades ^^ Suc (Suc 0)) two_tick_fade) = []"
    by blast
  moreover from t have "win_opacity ((run_fades ^^ Suc 0) two_tick_fade) 7 =
      min (real (Suc 0) * 3000000000) (real OPAQUE)"
    by (simp del: funpow.simps)
  moreover from t have "win_opacity ((run_fades ^^ Suc (Suc 0)) two_tick_fade) 7 = real OPAQUE"
    by blast
  moreover from t have "(FinishUnmap, 7) \<in> set (invoked ((run_fades ^^ Suc (Suc 0)) two_tick_fade))"
    by blast
  ultimately show ?thesis by (simp add: OPAQUE_def)
qed

end
